theory Spec2Isabelle
  imports Complex_Main
begin

section \<open>JavaScript values\<close>

text \<open>
  The receipt pipeline (\<^verbatim>\<open>services/ocrService.js\<close>, the \<^verbatim>\<open>CustomFieldMapper\<close> and the
  \<^verbatim>\<open>AIDataParser\<close>) works on loosely typed JSON, so the embedding keeps the dynamic
  typing of the source: a value is \<^verbatim>\<open>undefined\<close>, \<^verbatim>\<open>null\<close>, a boolean, a number, a
  string, an array or an object.

  \<^item> A string is the list of its UTF-16 code units (\<open>nat\<close>), so that \<^verbatim>\<open>.length\<close> counts
    what JavaScript counts and the currency signs of the amount parser are single
    characters. \<open>ustr\<close> embeds an ASCII literal.
  \<^item> A number is \<^verbatim>\<open>NaN\<close>, an infinity or the exact rational value of a finite IEEE
    double. The results of arithmetic and of parsing are rounded to the nearest double
    (\<open>to_double\<close> below), and a decimal literal of the source is the double nearest to
    it. A number of the input may be any rational: what is proved of all of them holds
    of the doubles among them. The sign of zero is not modelled.
  \<^item> An object is the association list of its own properties, each name once;
    property names are ASCII.
  \<^item> A \<^verbatim>\<open>TypeError\<close>, a \<^verbatim>\<open>RangeError\<close> or a thrown \<^verbatim>\<open>Error\<close> is the left summand of the
    result.
\<close>

type_synonym jsstring = "nat list"

datatype jsnum = Finite rat | NaN | PosInfinity | NegInfinity

datatype jsval =
    JUndefined
  | JNull
  | JBool bool
  | JNum jsnum
  | JStr jsstring
  | JArr "jsval list"
  | JObj "(string \<times> jsval) list"

datatype js_error = TypeError | RangeError | Error string

definition ustr :: "string \<Rightarrow> jsstring" where
  "ustr s = map of_char s"

definition bind_res :: "js_error + 'a \<Rightarrow> ('a \<Rightarrow> js_error + 'b) \<Rightarrow> js_error + 'b" where
  "bind_res m f = (case m of Inl e \<Rightarrow> Inl e | Inr x \<Rightarrow> f x)"

text \<open>
  The conversions of the language that the program relies on but that depend on the
  binary representation of numbers or on the host's date parser are parameters of the
  model: \<^verbatim>\<open>Number::toString\<close>, \<^verbatim>\<open>Number.prototype.toFixed(2)\<close>, the string-to-number
  conversion of arithmetic and comparison operators, \<^verbatim>\<open>new Date(v).toISOString()\<close>
  (\<open>None\<close> when the date is invalid and the call raises a \<^verbatim>\<open>RangeError\<close>) and
  \<^verbatim>\<open>new Date(v).toTimeString()\<close>. Every theorem holds for every choice of them.
\<close>

record platform =
  number_to_string :: "rat \<Rightarrow> jsstring"
  to_fixed2 :: "jsnum \<Rightarrow> jsstring"
  string_to_number :: "jsstring \<Rightarrow> jsnum"
  date_to_iso :: "jsval \<Rightarrow> jsstring option"
  date_to_time_string :: "jsval \<Rightarrow> jsstring"

text \<open>Truthiness: the operand test of \<^verbatim>\<open>!\<close>, \<^verbatim>\<open>&&\<close>, \<^verbatim>\<open>||\<close>, \<^verbatim>\<open>?:\<close> and \<^verbatim>\<open>if\<close>.\<close>

fun truthy :: "jsval \<Rightarrow> bool" where
  "truthy JUndefined = False"
| "truthy JNull = False"
| "truthy (JBool b) = b"
| "truthy (JNum n) = (n \<noteq> NaN \<and> n \<noteq> Finite 0)"
| "truthy (JStr s) = (s \<noteq> [])"
| "truthy (JArr xs) = True"
| "truthy (JObj kvs) = True"

text \<open>\<^verbatim>\<open>a || b\<close> on two values that are already computed.\<close>

definition js_or :: "jsval \<Rightarrow> jsval \<Rightarrow> jsval" where
  "js_or a b = (if truthy a then a else b)"

text \<open>
  Reading a data property \<^verbatim>\<open>v.k\<close>. On \<^verbatim>\<open>undefined\<close> and \<^verbatim>\<open>null\<close> it raises; on a
  primitive or an array the names the program reads (none of them a built-in
  property) are undefined. \<open>js_prop\<close> is the read where the receiver is known not to be
  \<^verbatim>\<open>undefined\<close> or \<^verbatim>\<open>null\<close>.
\<close>

fun js_prop :: "jsval \<Rightarrow> string \<Rightarrow> jsval" where
  "js_prop (JObj kvs) k = (case map_of kvs k of None \<Rightarrow> JUndefined | Some v \<Rightarrow> v)"
| "js_prop v k = JUndefined"

fun nullish :: "jsval \<Rightarrow> bool" where
  "nullish JUndefined = True"
| "nullish JNull = True"
| "nullish v = False"

definition get_prop :: "jsval \<Rightarrow> string \<Rightarrow> js_error + jsval" where
  "get_prop v k = (if nullish v then Inl TypeError else Inr (js_prop v k))"

text \<open>\<^verbatim>\<open>v.length\<close> for a receiver that is not \<^verbatim>\<open>undefined\<close> or \<^verbatim>\<open>null\<close>.\<close>

fun js_length :: "jsval \<Rightarrow> jsval" where
  "js_length (JStr s) = JNum (Finite (of_nat (length s)))"
| "js_length (JArr xs) = JNum (Finite (of_nat (length xs)))"
| "js_length v = js_prop v ''length''"

text \<open>\<^verbatim>\<open>v[i]\<close> for a receiver that is not \<^verbatim>\<open>undefined\<close> or \<^verbatim>\<open>null\<close>.\<close>

fun index_key :: "nat \<Rightarrow> string" where
  "index_key i =
     (if i < 10 then [char_of (48 + i)]
      else index_key (i div 10) @ [char_of (48 + i mod 10)])"

fun js_index :: "jsval \<Rightarrow> nat \<Rightarrow> jsval" where
  "js_index (JArr xs) i = (if i < length xs then xs ! i else JUndefined)"
| "js_index (JStr s) i = (if i < length s then JStr [s ! i] else JUndefined)"
| "js_index v i = js_prop v (index_key i)"

section \<open>Strings\<close>

text \<open>
  White space as \<^verbatim>\<open>String.prototype.trim\<close>, \<^verbatim>\<open>parseFloat\<close> and the regular expression
  class \<^verbatim>\<open>\s\<close> know it.
\<close>

definition is_space :: "nat \<Rightarrow> bool" where
  "is_space c = (c \<in> set [0x9, 0xA, 0xB, 0xC, 0xD, 0x20, 0xA0, 0x1680, 0x2000, 0x2001,
     0x2002, 0x2003, 0x2004, 0x2005, 0x2006, 0x2007, 0x2008, 0x2009, 0x200A, 0x2028,
     0x2029, 0x202F, 0x205F, 0x3000, 0xFEFF])"

definition is_digit :: "nat \<Rightarrow> bool" where
  "is_digit c = (48 \<le> c \<and> c \<le> 57)"

definition trim :: "jsstring \<Rightarrow> jsstring" where
  "trim s = rev (dropWhile is_space (rev (dropWhile is_space s)))"

text \<open>
  \<^verbatim>\<open>toLowerCase\<close> on the letters of ASCII and Latin-1; the case mappings of the other
  scripts of Unicode are not modelled (such characters are left as they are).
\<close>

definition lower_char :: "nat \<Rightarrow> nat" where
  "lower_char c =
     (if (65 \<le> c \<and> c \<le> 90) \<or> (192 \<le> c \<and> c \<le> 222 \<and> c \<noteq> 215) then c + 32 else c)"

definition toLowerCase :: "jsstring \<Rightarrow> jsstring" where
  "toLowerCase s = map lower_char s"

fun starts_with :: "jsstring \<Rightarrow> jsstring \<Rightarrow> bool" where
  "starts_with s [] = True"
| "starts_with [] (p # ps) = False"
| "starts_with (c # cs) (p # ps) = (c = p \<and> starts_with cs ps)"

text \<open>\<^verbatim>\<open>s.includes(p)\<close>: \<open>p\<close> occurs in \<open>s\<close> as a contiguous substring.\<close>

fun js_includes :: "jsstring \<Rightarrow> jsstring \<Rightarrow> bool" where
  "js_includes [] p = (p = [])"
| "js_includes (c # cs) p = (starts_with (c # cs) p \<or> js_includes cs p)"

text \<open>\<^verbatim>\<open>s.split(sep)\<close> for a one-character separator: always at least one part.\<close>

fun split_on :: "nat \<Rightarrow> jsstring \<Rightarrow> jsstring list" where
  "split_on sep [] = [[]]"
| "split_on sep (c # cs) =
     (if c = sep then [] # split_on sep cs
      else (case split_on sep cs of
              [] \<Rightarrow> [[c]]
            | p # ps \<Rightarrow> (c # p) # ps))"

section \<open>Numbers\<close>

text \<open>
  Rounding to the nearest IEEE double, ties to even: \<open>binade a\<close> is the exponent of the
  power of two at or below \<open>a\<close>, the spacing of the doubles there is 52 binary places
  finer (and no finer than \<open>pow2 (- 1074)\<close>, the spacing of the subnormal numbers), and
  what rounds to \<open>pow2 1024\<close> or more is an infinity.
\<close>

definition pow2 :: "int \<Rightarrow> rat" where
  "pow2 e = (if 0 \<le> e then 2 ^ nat e else 1 / 2 ^ nat (- e))"

fun bit_length :: "nat \<Rightarrow> nat" where
  "bit_length n = (if n = 0 then 0 else Suc (bit_length (n div 2)))"

definition binade :: "rat \<Rightarrow> int" where
  "binade a =
     (if 1 \<le> a then int (bit_length (nat \<lfloor>a\<rfloor>)) - 1
      else - int (bit_length (nat (\<lceil>1 / a\<rceil> - 1))))"

definition round_half_even :: "rat \<Rightarrow> int" where
  "round_half_even x =
     (let f = \<lfloor>x\<rfloor>; d = x - of_int f
      in if d < 1 / 2 then f else if 1 / 2 < d then f + 1 else if even f then f else f + 1)"

definition to_double :: "rat \<Rightarrow> jsnum" where
  "to_double x =
     (if x = 0 then Finite 0
      else if pow2 1024 \<le> \<bar>x\<bar> then (if 0 < x then PosInfinity else NegInfinity)
      else
        let a = \<bar>x\<bar>;
            e = max (binade a) (- 1022);
            ulp = pow2 (e - 52);
            v = of_int (round_half_even (a / ulp)) * ulp
        in if pow2 1024 \<le> v then (if 0 < x then PosInfinity else NegInfinity)
           else Finite (if 0 < x then v else - v))"

text \<open>
  \<^verbatim>\<open>String(v)\<close> and template interpolation. An array joins its elements with commas,
  \<^verbatim>\<open>null\<close> and \<^verbatim>\<open>undefined\<close> elements as the empty string. An object of the data has
  no function among its properties, so the conversion of an object with an own
  \<^verbatim>\<open>toString\<close> property finds nothing to call and raises a \<^verbatim>\<open>TypeError\<close>; any other
  object inherits \<^verbatim>\<open>Object.prototype.toString\<close>.
\<close>

fun num_to_string :: "platform \<Rightarrow> jsnum \<Rightarrow> jsstring" where
  "num_to_string P (Finite r) = number_to_string P r"
| "num_to_string P NaN = ustr ''NaN''"
| "num_to_string P PosInfinity = ustr ''Infinity''"
| "num_to_string P NegInfinity = ustr ''-Infinity''"

fun join_comma :: "jsstring list \<Rightarrow> jsstring" where
  "join_comma [] = []"
| "join_comma [s] = s"
| "join_comma (s # t # ts) = s @ ustr '','' @ join_comma (t # ts)"

fun to_string :: "platform \<Rightarrow> jsval \<Rightarrow> js_error + jsstring"
  and to_strings :: "platform \<Rightarrow> jsval list \<Rightarrow> js_error + jsstring list" where
  "to_string P JUndefined = Inr (ustr ''undefined'')"
| "to_string P JNull = Inr (ustr ''null'')"
| "to_string P (JBool b) = Inr (if b then ustr ''true'' else ustr ''false'')"
| "to_string P (JNum n) = Inr (num_to_string P n)"
| "to_string P (JStr s) = Inr s"
| "to_string P (JArr xs) = bind_res (to_strings P xs) (\<lambda>parts. Inr (join_comma parts))"
| "to_string P (JObj kvs) =
     (if map_of kvs ''toString'' = None then Inr (ustr ''[object Object]'') else Inl TypeError)"
| "to_strings P [] = Inr []"
| "to_strings P (x # xs) =
     bind_res (if nullish x then Inr [] else to_string P x) (\<lambda>s.
     bind_res (to_strings P xs) (\<lambda>ss. Inr (s # ss)))"

text \<open>
  The values that the conversions to a string and to a number accept: every primitive,
  an object without an own \<^verbatim>\<open>toString\<close> property, and an array of such values.
\<close>

fun convertible :: "jsval \<Rightarrow> bool" where
  "convertible (JArr xs) = list_all convertible xs"
| "convertible (JObj kvs) = (map_of kvs ''toString'' = None)"
| "convertible v = True"

text \<open>
  \<^verbatim>\<open>parseFloat\<close> on a string: leading white space is skipped and the longest prefix
  that is a decimal literal (sign, digits, fraction, exponent, or \<^verbatim>\<open>Infinity\<close>) is
  read; \<^verbatim>\<open>NaN\<close> when there is none. The value of the literal is rounded to the
  nearest double, whatever the number of its digits.
\<close>

fun digits_value :: "nat \<Rightarrow> jsstring \<Rightarrow> nat" where
  "digits_value acc [] = acc"
| "digits_value acc (c # cs) = digits_value (10 * acc + (c - 48)) cs"

definition exponent_of :: "jsstring \<Rightarrow> int" where
  "exponent_of s =
     (case s of
        [] \<Rightarrow> 0
      | e # r \<Rightarrow>
          if e = 0x65 \<or> e = 0x45 then
            (let neg = (r \<noteq> [] \<and> hd r = 0x2D);
                 r' = (if r \<noteq> [] \<and> (hd r = 0x2D \<or> hd r = 0x2B) then tl r else r);
                 ds = takeWhile is_digit r'
             in if ds = [] then 0
                else if neg then - int (digits_value 0 ds) else int (digits_value 0 ds))
          else 0)"

definition scale10 :: "rat \<Rightarrow> int \<Rightarrow> rat" where
  "scale10 x e = (if 0 \<le> e then x * 10 ^ nat e else x / 10 ^ nat (- e))"

definition unsigned_literal :: "jsstring \<Rightarrow> jsnum" where
  "unsigned_literal s =
     (if starts_with s (ustr ''Infinity'') then PosInfinity
      else
        let ip = takeWhile is_digit s;
            r1 = dropWhile is_digit s;
            dot = (r1 \<noteq> [] \<and> hd r1 = 0x2E);
            fp = (if dot then takeWhile is_digit (tl r1) else []);
            r2 = (if dot then dropWhile is_digit (tl r1) else r1)
        in if ip = [] \<and> fp = [] then NaN
           else to_double (scale10
                  (of_nat (digits_value 0 ip) + of_nat (digits_value 0 fp) / 10 ^ length fp)
                  (exponent_of r2)))"

fun num_neg :: "jsnum \<Rightarrow> jsnum" where
  "num_neg (Finite r) = Finite (- r)"
| "num_neg NaN = NaN"
| "num_neg PosInfinity = NegInfinity"
| "num_neg NegInfinity = PosInfinity"

definition parseFloat_string :: "jsstring \<Rightarrow> jsnum" where
  "parseFloat_string s =
     (let t = dropWhile is_space s
      in if t \<noteq> [] \<and> hd t = 0x2D then num_neg (unsigned_literal (tl t))
         else if t \<noteq> [] \<and> hd t = 0x2B then unsigned_literal (tl t)
         else unsigned_literal t)"

definition parseFloat :: "platform \<Rightarrow> jsval \<Rightarrow> js_error + jsnum" where
  "parseFloat P v = bind_res (to_string P v) (\<lambda>s. Inr (parseFloat_string s))"

section \<open>The amount parser\<close>

text \<open>
  \<^verbatim>\<open>OCRService.parseAmount\<close>: a falsy amount is \<^verbatim>\<open>null\<close>. Otherwise the amount is
  turned into a string by \<^verbatim>\<open>String(amount)\<close>, which may raise; first the currency signs
  (dollar, euro, pound, yen, rupee) and then the matches of \<^verbatim>\<open>/[^\d.-]/g\<close> are replaced
  by the empty string, and \<^verbatim>\<open>parseFloat\<close> reads the rest; \<^verbatim>\<open>NaN\<close> becomes \<^verbatim>\<open>null\<close>.
\<close>

definition currency_symbols :: "nat list" where
  "currency_symbols = [0x24, 0x20AC, 0xA3, 0xA5, 0x20B9]"

definition numeric_char :: "nat \<Rightarrow> bool" where
  "numeric_char c = (is_digit c \<or> c = 0x2E \<or> c = 0x2D)"

definition parseAmount :: "platform \<Rightarrow> jsval \<Rightarrow> js_error + jsval" where
  "parseAmount P amount =
     (if \<not> truthy amount then Inr JNull
      else
        bind_res (to_string P amount) (\<lambda>text.
          let cleanAmount =
                filter numeric_char (filter (\<lambda>c. c \<notin> set currency_symbols) text);
              parsed = parseFloat_string cleanAmount
          in Inr (if parsed = NaN then JNull else JNum parsed)))"

text \<open>
  The amount parser as the specification words it, on a string: currency symbols and
  white space are stripped, and a decimal parse is attempted on what is left.
\<close>

definition parseAmount_as_specified :: "jsstring \<Rightarrow> jsval" where
  "parseAmount_as_specified amount =
     (let stripped = filter (\<lambda>c. c \<notin> set currency_symbols \<and> \<not> is_space c) amount;
          parsed = parseFloat_string stripped
      in if parsed = NaN then JNull else JNum parsed)"

text \<open>
  The number that a decimal numeral denotes: \<open>ip\<close> are the digits before the point
  and \<open>fp\<close> the digits after it.
\<close>

definition decimal :: "jsstring \<Rightarrow> jsstring \<Rightarrow> rat" where
  "decimal ip fp = of_nat (digits_value 0 ip) + of_nat (digits_value 0 fp) / 10 ^ length fp"

section \<open>Operators\<close>

text \<open>
  \<^verbatim>\<open>ToPrimitive\<close>, \<^verbatim>\<open>ToNumber\<close>, the arithmetic of numbers, and the operators \<^verbatim>\<open>+\<close>,
  \<^verbatim>\<open>/\<close>, \<^verbatim>\<open><\<close> and \<^verbatim>\<open>>\<close> on values. An array or an object is first turned into a
  string, which may raise. Sums, products and quotients of finite numbers are rounded
  to the nearest double.
\<close>

fun is_string :: "jsval \<Rightarrow> bool" where
  "is_string (JStr s) = True"
| "is_string v = False"

fun to_primitive :: "platform \<Rightarrow> jsval \<Rightarrow> js_error + jsval" where
  "to_primitive P (JArr xs) = bind_res (to_string P (JArr xs)) (\<lambda>s. Inr (JStr s))"
| "to_primitive P (JObj kvs) = bind_res (to_string P (JObj kvs)) (\<lambda>s. Inr (JStr s))"
| "to_primitive P v = Inr v"

fun primitive_to_number :: "platform \<Rightarrow> jsval \<Rightarrow> jsnum" where
  "primitive_to_number P JNull = Finite 0"
| "primitive_to_number P (JBool b) = Finite (if b then 1 else 0)"
| "primitive_to_number P (JNum n) = n"
| "primitive_to_number P (JStr s) = string_to_number P s"
| "primitive_to_number P v = NaN"

definition to_number :: "platform \<Rightarrow> jsval \<Rightarrow> js_error + jsnum" where
  "to_number P v = bind_res (to_primitive P v) (\<lambda>p. Inr (primitive_to_number P p))"

fun num_add :: "jsnum \<Rightarrow> jsnum \<Rightarrow> jsnum" where
  "num_add (Finite a) (Finite b) = to_double (a + b)"
| "num_add NaN y = NaN"
| "num_add x NaN = NaN"
| "num_add PosInfinity NegInfinity = NaN"
| "num_add NegInfinity PosInfinity = NaN"
| "num_add PosInfinity y = PosInfinity"
| "num_add NegInfinity y = NegInfinity"
| "num_add x PosInfinity = PosInfinity"
| "num_add x NegInfinity = NegInfinity"

fun num_mul :: "jsnum \<Rightarrow> jsnum \<Rightarrow> jsnum" where
  "num_mul (Finite a) (Finite b) = to_double (a * b)"
| "num_mul NaN y = NaN"
| "num_mul x NaN = NaN"
| "num_mul (Finite a) PosInfinity =
     (if a = 0 then NaN else if 0 < a then PosInfinity else NegInfinity)"
| "num_mul (Finite a) NegInfinity =
     (if a = 0 then NaN else if 0 < a then NegInfinity else PosInfinity)"
| "num_mul PosInfinity (Finite b) =
     (if b = 0 then NaN else if 0 < b then PosInfinity else NegInfinity)"
| "num_mul NegInfinity (Finite b) =
     (if b = 0 then NaN else if 0 < b then NegInfinity else PosInfinity)"
| "num_mul PosInfinity PosInfinity = PosInfinity"
| "num_mul PosInfinity NegInfinity = NegInfinity"
| "num_mul NegInfinity PosInfinity = NegInfinity"
| "num_mul NegInfinity NegInfinity = PosInfinity"

fun num_div :: "jsnum \<Rightarrow> jsnum \<Rightarrow> jsnum" where
  "num_div (Finite a) (Finite b) =
     (if b \<noteq> 0 then to_double (a / b)
      else if a = 0 then NaN else if 0 < a then PosInfinity else NegInfinity)"
| "num_div NaN y = NaN"
| "num_div x NaN = NaN"
| "num_div (Finite a) PosInfinity = Finite 0"
| "num_div (Finite a) NegInfinity = Finite 0"
| "num_div PosInfinity (Finite b) = (if 0 \<le> b then PosInfinity else NegInfinity)"
| "num_div NegInfinity (Finite b) = (if 0 \<le> b then NegInfinity else PosInfinity)"
| "num_div PosInfinity y = NaN"
| "num_div NegInfinity y = NaN"

fun num_less :: "jsnum \<Rightarrow> jsnum \<Rightarrow> bool" where
  "num_less (Finite a) (Finite b) = (a < b)"
| "num_less NaN y = False"
| "num_less x NaN = False"
| "num_less NegInfinity NegInfinity = False"
| "num_less NegInfinity y = True"
| "num_less x PosInfinity = (x \<noteq> PosInfinity)"
| "num_less PosInfinity y = False"
| "num_less x NegInfinity = False"

definition js_add :: "platform \<Rightarrow> jsval \<Rightarrow> jsval \<Rightarrow> js_error + jsval" where
  "js_add P a b =
     bind_res (to_primitive P a) (\<lambda>pa.
     bind_res (to_primitive P b) (\<lambda>pb.
       if is_string pa \<or> is_string pb then
         bind_res (to_string P pa) (\<lambda>sa.
         bind_res (to_string P pb) (\<lambda>sb. Inr (JStr (sa @ sb))))
       else
         Inr (JNum (num_add (primitive_to_number P pa) (primitive_to_number P pb)))))"

definition js_div :: "platform \<Rightarrow> jsval \<Rightarrow> jsval \<Rightarrow> js_error + jsval" where
  "js_div P a b =
     bind_res (to_number P a) (\<lambda>x.
     bind_res (to_number P b) (\<lambda>y. Inr (JNum (num_div x y))))"

text \<open>
  \<^verbatim>\<open>v < r\<close> and \<^verbatim>\<open>v > r\<close> against a numeric literal \<open>r\<close> that is a double (the
  program compares with 0, 0.5, 1 and 10 only).
\<close>

definition js_less_num :: "platform \<Rightarrow> jsval \<Rightarrow> rat \<Rightarrow> js_error + bool" where
  "js_less_num P v r = bind_res (to_number P v) (\<lambda>n. Inr (num_less n (Finite r)))"

definition js_greater_num :: "platform \<Rightarrow> jsval \<Rightarrow> rat \<Rightarrow> js_error + bool" where
  "js_greater_num P v r = bind_res (to_number P v) (\<lambda>n. Inr (num_less (Finite r) n))"

text \<open>\<^verbatim>\<open>Math.round\<close> rounds to the nearest integer, a half upwards; \<^verbatim>\<open>Math.min\<close>.\<close>

fun math_round :: "jsnum \<Rightarrow> jsnum" where
  "math_round (Finite r) = Finite (of_int \<lfloor>r + 1 / 2\<rfloor>)"
| "math_round n = n"

fun math_min :: "jsnum \<Rightarrow> jsnum \<Rightarrow> jsnum" where
  "math_min NaN y = NaN"
| "math_min x NaN = NaN"
| "math_min x y = (if num_less y x then y else x)"

section \<open>The response parser\<close>

text \<open>
  \<^verbatim>\<open>OCRService.generateRawTextSummary\<close>: the text rendering of a parsed receipt.
  \<^verbatim>\<open>toFixed\<close> exists on numbers only, \<^verbatim>\<open>forEach\<close> on arrays only; each interpolation
  \<^verbatim>\<open>${v}\<close> of a template is a conversion to a string.
\<close>

definition newline :: jsstring where
  "newline = [0xA]"

definition js_toFixed2 :: "platform \<Rightarrow> jsval \<Rightarrow> js_error + jsstring" where
  "js_toFixed2 P v = (case v of JNum n \<Rightarrow> Inr (to_fixed2 P n) | _ \<Rightarrow> Inl TypeError)"

definition money_line :: "platform \<Rightarrow> string \<Rightarrow> jsval \<Rightarrow> js_error + jsstring" where
  "money_line P label v =
     (if truthy v then
        bind_res (js_toFixed2 P v) (\<lambda>m. Inr (ustr label @ ustr '': $'' @ m @ newline))
      else Inr [])"

definition labelled :: "platform \<Rightarrow> string \<Rightarrow> jsval \<Rightarrow> js_error + jsstring" where
  "labelled P label v =
     (if truthy v then bind_res (to_string P v) (\<lambda>t. Inr (ustr label @ t @ newline))
      else Inr [])"

definition item_line :: "platform \<Rightarrow> jsval \<Rightarrow> js_error + jsstring" where
  "item_line P item =
     bind_res (get_prop item ''quantity'') (\<lambda>quantity.
     bind_res (js_greater_num P quantity 1) (\<lambda>several.
     bind_res (if several then bind_res (to_string P quantity) (\<lambda>q. Inr (q @ ustr ''x ''))
               else Inr []) (\<lambda>qty.
     bind_res (to_string P (js_prop item ''name'')) (\<lambda>name.
     bind_res
       (if truthy (js_prop item ''totalPrice'') then
          bind_res (js_toFixed2 P (js_prop item ''totalPrice'')) (\<lambda>m. Inr (ustr '' $'' @ m))
        else Inr [])
       (\<lambda>price. Inr (qty @ name @ price @ newline))))))"

fun item_lines :: "platform \<Rightarrow> jsval list \<Rightarrow> js_error + jsstring" where
  "item_lines P [] = Inr []"
| "item_lines P (item # rest) =
     bind_res (item_line P item) (\<lambda>l. bind_res (item_lines P rest) (\<lambda>ls. Inr (l @ ls)))"

definition items_text :: "platform \<Rightarrow> jsval \<Rightarrow> js_error + jsstring" where
  "items_text P items =
     (if truthy items then
        bind_res (js_greater_num P (js_length items) 0) (\<lambda>some.
          if some then (case items of JArr xs \<Rightarrow> item_lines P xs | _ \<Rightarrow> Inl TypeError)
          else Inr [])
      else Inr [])"

definition generateRawTextSummary :: "platform \<Rightarrow> jsval \<Rightarrow> js_error + jsstring" where
  "generateRawTextSummary P receipt =
     bind_res (get_prop receipt ''merchant'') (\<lambda>merchant.
     bind_res (labelled P [] merchant) (\<lambda>l1.
     bind_res (labelled P [] (js_prop receipt ''address'')) (\<lambda>l2.
     bind_res (labelled P ''Phone: '' (js_prop receipt ''phone'')) (\<lambda>l3.
     bind_res (labelled P ''Date: '' (js_prop receipt ''date'')) (\<lambda>l4.
     bind_res (items_text P (js_prop receipt ''items'')) (\<lambda>body.
     bind_res (money_line P ''Subtotal'' (js_prop receipt ''subtotal'')) (\<lambda>sub.
     bind_res (money_line P ''Tax'' (js_prop receipt ''tax'')) (\<lambda>tax.
     bind_res (money_line P ''Total'' (js_prop receipt ''total'')) (\<lambda>amount.
       Inr (l1 @ l2 @ l3 @ newline @ l4 @ newline @ body @ newline @ sub @ tax @ amount))))))))))"

text \<open>
  The line items of \<^verbatim>\<open>parseTabScannerResponse\<close>: the filter
  \<^verbatim>\<open>item => item.descClean && item.lineTotal\<close>, which raises on a \<^verbatim>\<open>null\<close> item and keeps
  an item when both are truthy (\<open>kept_item\<close>), and the map to the parsed item.
\<close>

definition kept_item :: "jsval \<Rightarrow> bool" where
  "kept_item item = (truthy (js_prop item ''descClean'') \<and> truthy (js_prop item ''lineTotal''))"

fun filter_line_items :: "jsval list \<Rightarrow> js_error + jsval list" where
  "filter_line_items [] = Inr []"
| "filter_line_items (item # rest) =
     (if nullish item then Inl TypeError
      else bind_res (filter_line_items rest) (\<lambda>kept.
             Inr (if kept_item item then item # kept else kept)))"

definition parse_line_item :: "platform \<Rightarrow> jsval \<Rightarrow> js_error + jsval" where
  "parse_line_item P item =
     bind_res (parseFloat P (js_prop item ''qty'')) (\<lambda>qty.
     bind_res (parseAmount P (js_prop item ''price'')) (\<lambda>unitPrice.
     bind_res (parseAmount P (js_prop item ''lineTotal'')) (\<lambda>totalPrice.
       Inr (JObj [
         (''name'', js_or (js_prop item ''descClean'')
                      (js_or (js_prop item ''desc'') (JStr (ustr ''Unknown Item'')))),
         (''quantity'', js_or (JNum qty) (JNum (Finite 1))),
         (''unitPrice'', js_or unitPrice JNull),
         (''totalPrice'', js_or totalPrice (JNum (Finite 0))),
         (''category'', JNull),
         (''confidence'', JNum (Finite 1))]))))"

fun parse_line_items :: "platform \<Rightarrow> jsval list \<Rightarrow> js_error + jsval list" where
  "parse_line_items P [] = Inr []"
| "parse_line_items P (item # rest) =
     bind_res (parse_line_item P item) (\<lambda>parsed.
     bind_res (parse_line_items P rest) (\<lambda>others. Inr (parsed # others)))"

definition parse_items :: "platform \<Rightarrow> jsval \<Rightarrow> js_error + jsval" where
  "parse_items P lineItems =
     (case lineItems of
        JArr xs \<Rightarrow>
          bind_res (filter_line_items xs) (\<lambda>kept.
          bind_res (parse_line_items P kept) (\<lambda>items. Inr (JArr items)))
      | _ \<Rightarrow> Inr (JArr []))"

text \<open>
  The date and the time: \<^verbatim>\<open>dateISO.split('T')\<close> when \<^verbatim>\<open>dateISO\<close> is truthy (only a
  string has \<^verbatim>\<open>split\<close>), the \<^verbatim>\<open>date\<close> field and \<^verbatim>\<open>null\<close> otherwise.
\<close>

definition parse_date_time :: "jsval \<Rightarrow> js_error + jsval \<times> jsval" where
  "parse_date_time receipt =
     (let dateISO = js_prop receipt ''dateISO''
      in if truthy dateISO then
           (case dateISO of
              JStr s \<Rightarrow> Inr (js_index (JArr (map JStr (split_on 0x54 s))) 0,
                             js_index (JArr (map JStr (split_on 0x54 s))) 1)
            | _ \<Rightarrow> Inl TypeError)
         else Inr (js_prop receipt ''date'', JNull))"

text \<open>
  The aggregate confidence: the mean of the confidences that are not \<^verbatim>\<open>undefined\<close>,
  summed from 0 by \<^verbatim>\<open>reduce((sum, score) => sum + score, 0)\<close> and divided by their
  number; \<open>default_confidence\<close>, the literal \<^verbatim>\<open>0.9\<close>, when there is none.
\<close>

definition default_confidence :: jsnum where
  "default_confidence = to_double (9 / 10)"

definition confidence_scores :: "jsval \<Rightarrow> jsval list" where
  "confidence_scores receipt =
     [js_prop receipt ''establishmentConfidence'',
      js_prop receipt ''totalConfidence'',
      js_prop receipt ''dateConfidence'']"

fun sum_from :: "platform \<Rightarrow> jsval \<Rightarrow> jsval list \<Rightarrow> js_error + jsval" where
  "sum_from P acc [] = Inr acc"
| "sum_from P acc (score # rest) = bind_res (js_add P acc score) (\<lambda>s. sum_from P s rest)"

definition mean_of :: "platform \<Rightarrow> jsval list \<Rightarrow> js_error + jsval" where
  "mean_of P scores =
     bind_res (sum_from P (JNum (Finite 0)) scores) (\<lambda>s.
       js_div P s (JNum (Finite (of_nat (length scores)))))"

definition parse_confidence :: "platform \<Rightarrow> jsval \<Rightarrow> js_error + jsval" where
  "parse_confidence P receipt =
     (let confidenceScores = filter (\<lambda>score. score \<noteq> JUndefined) (confidence_scores receipt)
      in if 0 < length confidenceScores then mean_of P confidenceScores
         else Inr (JNum default_confidence))"

text \<open>
  \<^verbatim>\<open>OCRService.parseTabScannerResponse\<close>. \<open>parse_result\<close> is the body of the
  \<^verbatim>\<open>try\<close> block; the function itself returns the failure object of the \<^verbatim>\<open>catch\<close> block
  when the body raises.
\<close>

definition empty_receipt :: jsval where
  "empty_receipt =
     JObj [(''merchant'', JNull), (''address'', JNull), (''phone'', JNull), (''date'', JNull),
           (''time'', JNull), (''total'', JNull), (''tax'', JNull), (''subtotal'', JNull),
           (''items'', JArr [])]"

definition parse_result :: "platform \<Rightarrow> jsval \<Rightarrow> js_error + jsval" where
  "parse_result P tabScannerData =
     bind_res (get_prop tabScannerData ''result'') (\<lambda>receipt.
       if truthy receipt then
         bind_res (parse_date_time receipt) (\<lambda>(date, time).
         bind_res (parseAmount P (js_prop receipt ''total'')) (\<lambda>amount.
         bind_res (parseAmount P (js_prop receipt ''tax'')) (\<lambda>tax.
         bind_res (parseAmount P (js_prop receipt ''subTotal'')) (\<lambda>subtotal.
         bind_res (parse_items P (js_prop receipt ''lineItems'')) (\<lambda>items.
         bind_res (parse_confidence P receipt) (\<lambda>confidence.
           let parsed = JObj [
                 (''merchant'', js_or (js_prop receipt ''establishment'') JNull),
                 (''address'', js_or (js_prop receipt ''address'') JNull),
                 (''phone'', js_or (js_prop receipt ''phoneNumber'') JNull),
                 (''date'', date),
                 (''time'', time),
                 (''total'', js_or amount (JNum (Finite 0))),
                 (''tax'', js_or tax (JNum (Finite 0))),
                 (''subtotal'', js_or subtotal (JNum (Finite 0))),
                 (''items'', items)]
           in bind_res (generateRawTextSummary P parsed) (\<lambda>rawText.
                Inr (JObj [
                  (''success'', JBool True),
                  (''confidence'', confidence),
                  (''rawText'', JStr rawText),
                  (''receipt'', parsed),
                  (''rawData'', tabScannerData)]))))))))
       else
         Inr (JObj [
           (''success'', JBool False),
           (''confidence'', JNum (Finite 0)),
           (''rawText'', JStr []),
           (''receipt'', empty_receipt),
           (''rawData'', tabScannerData)]))"

definition parse_failure :: "jsval \<Rightarrow> jsval" where
  "parse_failure tabScannerData =
     JObj [
       (''success'', JBool False),
       (''error'', JStr (ustr ''Failed to parse OCR response'')),
       (''confidence'', JNum (Finite 0)),
       (''rawText'', JStr []),
       (''rawData'', tabScannerData)]"

definition parseTabScannerResponse :: "platform \<Rightarrow> jsval \<Rightarrow> jsval" where
  "parseTabScannerResponse P tabScannerData =
     (case parse_result P tabScannerData of
        Inr result \<Rightarrow> result
      | Inl e \<Rightarrow> parse_failure tabScannerData)"

section \<open>The validator\<close>

record validation =
  isValid :: bool
  errors :: "string list"
  warnings :: "string list"

text \<open>
  \<^verbatim>\<open>OCRService.validateOCRResult\<close>. The four signals:
  \<^verbatim>\<open>total && total > 0\<close>, \<^verbatim>\<open>merchant && merchant.trim().length > 0\<close> (only a string has
  \<^verbatim>\<open>trim\<close>), \<^verbatim>\<open>rawText && rawText.length > 10\<close> and \<^verbatim>\<open>items && items.length > 0\<close>.
\<close>

definition has_total :: "platform \<Rightarrow> jsval \<Rightarrow> js_error + bool" where
  "has_total P amount = (if truthy amount then js_greater_num P amount 0 else Inr False)"

definition has_merchant :: "platform \<Rightarrow> jsval \<Rightarrow> js_error + bool" where
  "has_merchant P merchant =
     (if truthy merchant then
        (case merchant of
           JStr s \<Rightarrow> js_greater_num P (js_length (JStr (trim s))) 0
         | _ \<Rightarrow> Inl TypeError)
      else Inr False)"

definition has_raw_text :: "platform \<Rightarrow> jsval \<Rightarrow> js_error + bool" where
  "has_raw_text P rawText =
     (if truthy rawText then js_greater_num P (js_length rawText) 10 else Inr False)"

definition has_items :: "platform \<Rightarrow> jsval \<Rightarrow> js_error + bool" where
  "has_items P items =
     (if truthy items then js_greater_num P (js_length items) 0 else Inr False)"

definition validateOCRResult :: "platform \<Rightarrow> jsval \<Rightarrow> js_error + validation" where
  "validateOCRResult P ocrResult =
     bind_res (get_prop ocrResult ''success'') (\<lambda>success.
       if \<not> truthy success then
         Inr \<lparr>isValid = False, errors = [''OCR processing failed''], warnings = []\<rparr>
       else
         bind_res (js_less_num P (js_prop ocrResult ''confidence'') (1 / 2)) (\<lambda>lowConfidence.
         bind_res (get_prop (js_prop ocrResult ''receipt'') ''total'') (\<lambda>total.
         bind_res (has_total P total) (\<lambda>hasTotal.
         bind_res (has_merchant P (js_prop (js_prop ocrResult ''receipt'') ''merchant''))
           (\<lambda>hasMerchant.
         bind_res (has_raw_text P (js_prop ocrResult ''rawText'')) (\<lambda>hasRawText.
         bind_res (has_items P (js_prop (js_prop ocrResult ''receipt'') ''items'')) (\<lambda>hasItems.
           let low = (if lowConfidence then [''Low OCR confidence score''] else [])
           in if \<not> hasTotal \<and> \<not> hasMerchant \<and> \<not> hasRawText \<and> \<not> hasItems then
                Inr \<lparr>isValid = False,
                     errors = [''No useful receipt data could be extracted''],
                     warnings = low\<rparr>
              else
                Inr \<lparr>isValid = True,
                     errors = [],
                     warnings = low
                       @ (if \<not> hasTotal then [''No monetary amounts detected''] else [])
                       @ (if \<not> hasMerchant then [''Merchant name not found''] else [])
                       @ (if \<not> hasItems then [''No line items extracted''] else [])\<rparr>)))))))"

text \<open>
  A result object as the parser and the tests hand it to the validator, built from
  typed parts: a confidence, a raw text, an optional merchant name, an optional
  total and the list of items.
\<close>

definition opt_str :: "jsstring option \<Rightarrow> jsval" where
  "opt_str m = (case m of None \<Rightarrow> JNull | Some s \<Rightarrow> JStr s)"

definition opt_num :: "rat option \<Rightarrow> jsval" where
  "opt_num t = (case t of None \<Rightarrow> JNull | Some r \<Rightarrow> JNum (Finite r))"

definition ocr_result ::
  "bool \<Rightarrow> rat \<Rightarrow> jsstring \<Rightarrow> jsstring option \<Rightarrow> rat option \<Rightarrow> jsval list \<Rightarrow> jsval" where
  "ocr_result ok conf text merchant amount items =
     JObj [
       (''success'', JBool ok),
       (''confidence'', JNum (Finite conf)),
       (''rawText'', JStr text),
       (''receipt'',
          JObj [(''merchant'', opt_str merchant), (''total'', opt_num amount),
                (''items'', JArr items)])]"

text \<open>
  The validity rule as the specification words it: invalid exactly when total,
  merchant, raw text and items are all empty, null or of length zero.
\<close>

definition all_signals_empty :: "jsstring \<Rightarrow> jsstring option \<Rightarrow> rat option \<Rightarrow> jsval list \<Rightarrow> bool" where
  "all_signals_empty text merchant amount items =
     ((amount = None \<or> amount = Some 0) \<and> (merchant = None \<or> merchant = Some [])
      \<and> text = [] \<and> items = [])"

section \<open>The field mapper\<close>

text \<open>
  \<^verbatim>\<open>CustomFieldMapper.normalizeBrandName\<close>, with the alias table of the constructor in
  the order of its entries.
\<close>

definition brandNormalization :: "(jsstring \<times> jsstring) list" where
  "brandNormalization =
     [(ustr ''trader joes'', ustr ''Trader Joes''),
      (ustr ''trader joe'' @ [0x27] @ ustr ''s'', ustr ''Trader Joes''),
      (ustr ''traderjoes'', ustr ''Trader Joes'')]"

definition is_quote :: "nat \<Rightarrow> bool" where
  "is_quote c = (c = 0x27 \<or> c = 0x22)"

definition normalizeBrandName :: "jsstring \<Rightarrow> jsstring" where
  "normalizeBrandName rawBrand =
     (let normalized = trim (toLowerCase rawBrand)
      in case find (\<lambda>(pattern, replacement). js_includes normalized pattern) brandNormalization of
           Some (pattern, replacement) \<Rightarrow> replacement
         | None \<Rightarrow> trim (filter (\<lambda>c. \<not> is_quote c) rawBrand))"

text \<open>
  The address heuristics. \<^verbatim>\<open>/\b(\d+)\b/\<close> finds the first run of digits with no word
  character on either side; \<^verbatim>\<open>/\b(\d{5}(?:-\d{4})?)\b/\<close> the first such group of five
  digits, with four more after a hyphen when they are there. Only a string has
  \<^verbatim>\<open>match\<close> and \<^verbatim>\<open>split\<close>.
\<close>

definition is_word :: "nat \<Rightarrow> bool" where
  "is_word c = (is_digit c \<or> (65 \<le> c \<and> c \<le> 90) \<or> (97 \<le> c \<and> c \<le> 122) \<or> c = 95)"

definition at_boundary :: "jsstring \<Rightarrow> bool" where
  "at_boundary s = (s = [] \<or> \<not> is_word (hd s))"

fun first_number :: "bool \<Rightarrow> jsstring \<Rightarrow> jsstring option" where
  "first_number after_word [] = None"
| "first_number after_word (c # cs) =
     (if is_digit c \<and> \<not> after_word \<and> at_boundary (dropWhile is_digit (c # cs))
      then Some (takeWhile is_digit (c # cs))
      else first_number (is_word c) cs)"

definition extractStreetNumber :: "jsval \<Rightarrow> js_error + jsval" where
  "extractStreetNumber address =
     (case address of
        JStr s \<Rightarrow> Inr (case first_number False s of Some n \<Rightarrow> JStr n | None \<Rightarrow> JNull)
      | _ \<Rightarrow> Inl TypeError)"

definition zip_here :: "jsstring \<Rightarrow> jsstring option" where
  "zip_here s =
     (if 5 \<le> length s \<and> list_all is_digit (take 5 s) then
        (let r = drop 5 s
         in if 5 \<le> length r \<and> hd r = 0x2D \<and> list_all is_digit (take 4 (tl r))
               \<and> at_boundary (drop 5 r)
            then Some (take 10 s)
            else if at_boundary r then Some (take 5 s) else None)
      else None)"

fun first_zip :: "bool \<Rightarrow> jsstring \<Rightarrow> jsstring option" where
  "first_zip after_word [] = None"
| "first_zip after_word (c # cs) =
     (if \<not> after_word \<and> zip_here (c # cs) \<noteq> None then zip_here (c # cs)
      else first_zip (is_word c) cs)"

definition extractZipCode :: "jsval \<Rightarrow> js_error + jsval" where
  "extractZipCode address =
     (case address of
        JStr s \<Rightarrow> Inr (case first_zip False s of Some z \<Rightarrow> JStr z | None \<Rightarrow> JNull)
      | _ \<Rightarrow> Inl TypeError)"

text \<open>
  \<^verbatim>\<open>extractStreetName\<close>: the part before the first comma, trimmed, without
  \<^verbatim>\<open>/^\d+\s*/\<close> and without \<^verbatim>\<open>/^[^,]*\s\(\d+\)\s*,?\s*/\<close>. The greedy \<^verbatim>\<open>[^,]*\<close> makes the
  second pattern end at the last parenthesised number that follows white space.
\<close>

definition leading_number_removed :: "jsstring \<Rightarrow> jsstring" where
  "leading_number_removed s =
     (if s \<noteq> [] \<and> is_digit (hd s) then dropWhile is_space (dropWhile is_digit s) else s)"

definition store_info_here :: "jsstring \<Rightarrow> jsstring option" where
  "store_info_here s =
     (case s of
        sp # lp # r \<Rightarrow>
          (let ds = takeWhile is_digit r; after = dropWhile is_digit r
           in if is_space sp \<and> lp = 0x28 \<and> ds \<noteq> [] \<and> after \<noteq> [] \<and> hd after = 0x29
              then Some (tl after) else None)
      | _ \<Rightarrow> None)"

fun last_store_info :: "jsstring \<Rightarrow> jsstring option" where
  "last_store_info [] = None"
| "last_store_info (c # cs) =
     (if c = 0x2C then None
      else (case last_store_info cs of
              Some r \<Rightarrow> Some r
            | None \<Rightarrow> store_info_here (c # cs)))"

definition store_info_removed :: "jsstring \<Rightarrow> jsstring" where
  "store_info_removed s =
     (case last_store_info s of
        None \<Rightarrow> s
      | Some r \<Rightarrow>
          (let r1 = dropWhile is_space r;
               r2 = (if r1 \<noteq> [] \<and> hd r1 = 0x2C then tl r1 else r1)
           in dropWhile is_space r2))"

definition extractStreetName :: "jsval \<Rightarrow> js_error + jsval" where
  "extractStreetName address =
     (case address of
        JStr s \<Rightarrow>
          (let streetPart = trim (hd (split_on 0x2C s));
               streetName = trim (store_info_removed (leading_number_removed streetPart))
           in Inr (js_or (JStr streetName) JNull))
      | _ \<Rightarrow> Inl TypeError)"

definition parseAddress :: "jsval \<Rightarrow> js_error + jsval" where
  "parseAddress result =
     (let addressNorm = js_or (js_prop result ''addressNorm'') (JObj []);
          rawAddress = js_or (js_prop result ''address'') (JStr [])
      in bind_res
           (if truthy (js_prop addressNorm ''number'') then Inr (js_prop addressNorm ''number'')
            else extractStreetNumber rawAddress) (\<lambda>street_number.
         bind_res
           (if truthy (js_prop addressNorm ''street'') then Inr (js_prop addressNorm ''street'')
            else extractStreetName rawAddress) (\<lambda>street_name.
         bind_res
           (if truthy (js_prop addressNorm ''postcode'') then Inr (js_prop addressNorm ''postcode'')
            else extractZipCode rawAddress) (\<lambda>zipcode.
           Inr (JObj [
             (''street_number'', street_number),
             (''street_name'', street_name),
             (''city'', js_or (js_prop addressNorm ''city'') JNull),
             (''state'', js_or (js_prop addressNorm ''state'') JNull),
             (''zipcode'', zipcode)])))))"

text \<open>
  \<^verbatim>\<open>CustomFieldMapper.parseTaxes\<close>. The summary items are filtered by
  \<^verbatim>\<open>item.lineType === 'Tax' || item.desc.toLowerCase().includes('tax')\<close>; only an array
  has \<^verbatim>\<open>filter\<close> and only a string has \<^verbatim>\<open>toLowerCase\<close>. Each slot is
  \<^verbatim>\<open>taxes[i] || (taxItems[i] ? taxItems[i].lineTotal : 0)\<close>.
\<close>

definition is_tax_item :: "jsval \<Rightarrow> js_error + bool" where
  "is_tax_item item =
     bind_res (get_prop item ''lineType'') (\<lambda>lineType.
       if lineType = JStr (ustr ''Tax'') then Inr True
       else (case js_prop item ''desc'' of
               JStr d \<Rightarrow> Inr (js_includes (toLowerCase d) (ustr ''tax''))
             | _ \<Rightarrow> Inl TypeError))"

fun filter_tax_items :: "jsval list \<Rightarrow> js_error + jsval list" where
  "filter_tax_items [] = Inr []"
| "filter_tax_items (item # rest) =
     bind_res (is_tax_item item) (\<lambda>keep.
       bind_res (filter_tax_items rest) (\<lambda>kept. Inr (if keep then item # kept else kept)))"

definition tax_slot :: "jsval \<Rightarrow> jsval list \<Rightarrow> nat \<Rightarrow> js_error + jsval" where
  "tax_slot taxes taxItems i =
     (if truthy (js_index taxes i) then Inr (js_index taxes i)
      else if truthy (js_index (JArr taxItems) i)
           then get_prop (js_index (JArr taxItems) i) ''lineTotal''
           else Inr (JNum (Finite 0)))"

definition parseTaxes :: "jsval \<Rightarrow> js_error + jsval" where
  "parseTaxes result =
     (let taxes = js_or (js_prop result ''taxes'') (JArr []);
          summaryItems = js_or (js_prop result ''summaryItems'') (JArr [])
      in case summaryItems of
           JArr xs \<Rightarrow>
             bind_res (filter_tax_items xs) (\<lambda>taxItems.
             bind_res (tax_slot taxes taxItems 0) (\<lambda>tax_1.
             bind_res (tax_slot taxes taxItems 1) (\<lambda>tax_2.
               Inr (JObj [(''tax_1'', tax_1), (''tax_2'', tax_2)]))))
         | _ \<Rightarrow> Inl TypeError)"

text \<open>
  The tax decomposition as the specification words it: the source of the two slots is
  the tax list, or the tax-tagged summary lines when the list is absent; the first two
  values of the source fill the slots in order, and a missing slot is 0.
\<close>

definition tax_slots_as_specified :: "rat list \<Rightarrow> rat list \<Rightarrow> rat \<times> rat" where
  "tax_slots_as_specified taxes tax_lines =
     (let source = (if taxes = [] then tax_lines else taxes)
      in (if 0 < length source then source ! 0 else 0,
          if 1 < length source then source ! 1 else 0))"

text \<open>
  A receipt with a list of taxes and summary lines, from typed parts: a summary line
  is its line type, its description and its line total. \<open>tax_line_totals\<close> are the
  totals of the tax-tagged lines, in order, and \<open>tax_slot_value\<close> is the rule of the
  code for slot \<open>i\<close>: the entry of the tax list when it is there and not zero, else the
  total of the tax-tagged line of the same index when there is one, else 0.
\<close>

definition summary_line :: "jsstring \<times> jsstring \<times> rat \<Rightarrow> jsval" where
  "summary_line l =
     (case l of (lineType, desc, amount) \<Rightarrow>
        JObj [(''lineType'', JStr lineType), (''desc'', JStr desc),
              (''lineTotal'', JNum (Finite amount))])"

definition tax_tagged :: "jsstring \<times> jsstring \<times> rat \<Rightarrow> bool" where
  "tax_tagged l =
     (case l of (lineType, desc, amount) \<Rightarrow>
        lineType = ustr ''Tax'' \<or> js_includes (toLowerCase desc) (ustr ''tax''))"

definition tax_line_totals :: "(jsstring \<times> jsstring \<times> rat) list \<Rightarrow> rat list" where
  "tax_line_totals summary = map (\<lambda>l. snd (snd l)) (filter tax_tagged summary)"

definition tax_receipt :: "rat list \<Rightarrow> (jsstring \<times> jsstring \<times> rat) list \<Rightarrow> jsval" where
  "tax_receipt taxes summary =
     JObj [(''taxes'', JArr (map (\<lambda>t. JNum (Finite t)) taxes)),
           (''summaryItems'', JArr (map summary_line summary))]"

definition tax_slot_value :: "rat list \<Rightarrow> rat list \<Rightarrow> nat \<Rightarrow> rat" where
  "tax_slot_value taxes totals i =
     (if i < length taxes \<and> taxes ! i \<noteq> 0 then taxes ! i
      else if i < length totals then totals ! i else 0)"

text \<open>
  \<^verbatim>\<open>CustomFieldMapper.generateItemTypeCode\<close> and \<^verbatim>\<open>categorizeItem\<close>: chains of
  \<^verbatim>\<open>if\<close> statements over \<^verbatim>\<open>name.includes(keyword)\<close>.
\<close>

definition generateItemTypeCode :: "jsval \<Rightarrow> js_error + string" where
  "generateItemTypeCode item =
     bind_res (get_prop item ''descClean'') (\<lambda>descClean.
       case js_or descClean (js_or (js_prop item ''desc'') (JStr [])) of
         JStr raw \<Rightarrow>
           (let name = toLowerCase raw
            in if js_includes name (ustr ''produce'') \<or> js_includes name (ustr ''fruit'')
                  \<or> js_includes name (ustr ''vegetable'') \<or> js_includes name (ustr ''apple'')
                  \<or> js_includes name (ustr ''banana'') \<or> js_includes name (ustr ''berries'')
                  \<or> js_includes name (ustr ''broccoli'') \<or> js_includes name (ustr ''spinach'')
                  \<or> js_includes name (ustr ''onion'')
               then Inr ''PROD''
               else if js_includes name (ustr ''milk'') \<or> js_includes name (ustr ''yogurt'')
                  \<or> js_includes name (ustr ''cheese'') \<or> js_includes name (ustr ''dairy'')
               then Inr ''DAIRY''
               else if js_includes name (ustr ''bread'') \<or> js_includes name (ustr ''bakery'')
               then Inr ''BAKERY''
               else if js_includes name (ustr ''meat'') \<or> js_includes name (ustr ''beef'')
                  \<or> js_includes name (ustr ''chicken'') \<or> js_includes name (ustr ''fish'')
               then Inr ''MEAT''
               else if js_includes name (ustr ''beans'') \<or> js_includes name (ustr ''oil'')
                  \<or> js_includes name (ustr ''pasta'') \<or> js_includes name (ustr ''rice'')
               then Inr ''PANTRY''
               else if js_includes name (ustr ''bottle'') \<or> js_includes name (ustr ''deposit'')
                  \<or> js_includes name (ustr ''fee'')
               then Inr ''FEE''
               else Inr ''MISC'')
       | _ \<Rightarrow> Inl TypeError)"

definition categorizeItem :: "jsval \<Rightarrow> js_error + string" where
  "categorizeItem itemName =
     (case itemName of
        JStr raw \<Rightarrow>
          (let name = toLowerCase raw
           in if js_includes name (ustr ''apple'') \<or> js_includes name (ustr ''berries'')
                 \<or> js_includes name (ustr ''broccoli'') \<or> js_includes name (ustr ''spinach'')
                 \<or> js_includes name (ustr ''onion'') \<or> js_includes name (ustr ''potato'')
                 \<or> js_includes name (ustr ''lime'') \<or> js_includes name (ustr ''avocado'')
                 \<or> js_includes name (ustr ''cauliflower'')
              then Inr ''produce''
              else if js_includes name (ustr ''milk'') \<or> js_includes name (ustr ''coconut milk'')
              then Inr ''dairy''
              else if js_includes name (ustr ''beans'') \<or> js_includes name (ustr ''oil'')
              then Inr ''pantry''
              else if js_includes name (ustr ''sushi'') \<or> js_includes name (ustr ''wrap'')
                 \<or> js_includes name (ustr ''curry'')
              then Inr ''prepared_food''
              else Inr ''other'')
      | _ \<Rightarrow> Inl TypeError)"

text \<open>
  The type coding as the specification words it: an ordered list of keyword rules,
  the first rule with a keyword in the lower-cased name wins, \<^verbatim>\<open>MISC\<close> by default.
\<close>

definition type_code_rules :: "(string list \<times> string) list" where
  "type_code_rules =
     [([''produce'', ''fruit'', ''vegetable'', ''apple'', ''banana'', ''berries'', ''broccoli'',
        ''spinach'', ''onion''], ''PROD''),
      ([''milk'', ''yogurt'', ''cheese'', ''dairy''], ''DAIRY''),
      ([''bread'', ''bakery''], ''BAKERY''),
      ([''meat'', ''beef'', ''chicken'', ''fish''], ''MEAT''),
      ([''beans'', ''oil'', ''pasta'', ''rice''], ''PANTRY''),
      ([''bottle'', ''deposit'', ''fee''], ''FEE'')]"

fun first_matching_rule :: "(string list \<times> string) list \<Rightarrow> jsstring \<Rightarrow> string" where
  "first_matching_rule [] name = ''MISC''"
| "first_matching_rule ((keywords, code) # rules) name =
     (if list_ex (\<lambda>k. js_includes name (ustr k)) keywords then code
      else first_matching_rule rules name)"

definition type_codes :: "string list" where
  "type_codes = [''PROD'', ''DAIRY'', ''BAKERY'', ''MEAT'', ''PANTRY'', ''FEE'', ''MISC'']"

text \<open>
  The description of a line item is a string or is missing (\<^verbatim>\<open>undefined\<close> or
  \<^verbatim>\<open>null\<close>); \<open>item_description\<close> is the text that the type coding reads,
  \<^verbatim>\<open>descClean\<close>, else \<^verbatim>\<open>desc\<close>, else the empty string.
\<close>

definition str_or_missing :: "jsval \<Rightarrow> bool" where
  "str_or_missing v = (is_string v \<or> nullish v)"

definition item_description :: "jsval \<Rightarrow> jsstring" where
  "item_description item =
     (case js_or (js_prop item ''descClean'') (js_or (js_prop item ''desc'') (JStr [])) of
        JStr s \<Rightarrow> s
      | _ \<Rightarrow> [])"

text \<open>
  \<^verbatim>\<open>CustomFieldMapper.mapItems\<close>; only an array has \<^verbatim>\<open>map\<close>.
\<close>

definition map_item :: "platform \<Rightarrow> jsval \<Rightarrow> js_error + jsval" where
  "map_item P item =
     bind_res (get_prop item ''descClean'') (\<lambda>descClean.
     bind_res (generateItemTypeCode item) (\<lambda>code.
     bind_res
       (if truthy (js_prop item ''price'') then Inr (js_prop item ''price'')
        else js_div P (js_prop item ''lineTotal'')
               (js_or (js_prop item ''qty'') (JNum (Finite 1)))) (\<lambda>unit_price.
     bind_res (categorizeItem (js_or descClean (js_prop item ''desc''))) (\<lambda>category.
       Inr (JObj [
         (''item_name'', js_or descClean (js_prop item ''desc'')),
         (''item_type_code'', JStr (ustr code)),
         (''item_price'', js_or (js_prop item ''lineTotal'') (JNum (Finite 0))),
         (''quantity'', js_or (js_prop item ''qty'') (JNum (Finite 1))),
         (''unit_price'', unit_price),
         (''unit'', js_or (js_prop item ''unit'') (JStr (ustr ''each''))),
         (''category'', JStr (ustr category)),
         (''confidence'', js_or (js_prop item ''confidence'') (JNum (Finite 1)))])))))"

fun map_items :: "platform \<Rightarrow> jsval list \<Rightarrow> js_error + jsval list" where
  "map_items P [] = Inr []"
| "map_items P (item # rest) =
     bind_res (map_item P item) (\<lambda>m. bind_res (map_items P rest) (\<lambda>ms. Inr (m # ms)))"

definition mapItems :: "platform \<Rightarrow> jsval \<Rightarrow> js_error + jsval" where
  "mapItems P result =
     (case js_or (js_prop result ''lineItems'') (JArr []) of
        JArr xs \<Rightarrow> bind_res (map_items P xs) (\<lambda>ms. Inr (JArr ms))
      | _ \<Rightarrow> Inl TypeError)"

text \<open>
  \<^verbatim>\<open>formatDate\<close> and \<^verbatim>\<open>formatTime\<close>. \<^verbatim>\<open>new Date(v)\<close> first turns an array or an object
  into a primitive, which may raise, and \<^verbatim>\<open>toISOString\<close> raises on an invalid date; the
  \<^verbatim>\<open>catch\<close> block of \<^verbatim>\<open>formatDate\<close> then splits the input, which only a string allows.
  \<^verbatim>\<open>toTimeString\<close> never raises, so the \<^verbatim>\<open>catch\<close> block of \<^verbatim>\<open>formatTime\<close> is entered
  only when \<^verbatim>\<open>new Date(v)\<close> raises; \<open>v\<close> is then an array or an object, which has no
  \<^verbatim>\<open>match\<close>, and the block raises again.
\<close>

definition formatDate :: "platform \<Rightarrow> jsval \<Rightarrow> js_error + jsval" where
  "formatDate P dateString =
     (if \<not> truthy dateString then Inr JNull
      else (case (case to_primitive P dateString of
                    Inl e \<Rightarrow> None
                  | Inr p \<Rightarrow> date_to_iso P p) of
              Some isoString \<Rightarrow> Inr (JStr (hd (split_on 0x54 isoString)))
            | None \<Rightarrow>
                (case dateString of
                   JStr s \<Rightarrow> Inr (js_or (JStr (hd (split_on 0x20 s))) dateString)
                 | _ \<Rightarrow> Inl TypeError)))"

definition formatTime :: "platform \<Rightarrow> jsval \<Rightarrow> js_error + jsval" where
  "formatTime P dateString =
     (if \<not> truthy dateString then Inr JNull
      else (case to_primitive P dateString of
              Inl e \<Rightarrow> Inl TypeError
            | Inr p \<Rightarrow> Inr (JStr (hd (split_on 0x20 (date_to_time_string P p))))))"

text \<open>
  \<^verbatim>\<open>calculateOverallConfidence\<close>: the mean of the confidences that are neither
  \<^verbatim>\<open>undefined\<close> nor \<^verbatim>\<open>null\<close>, \<open>mapper_default_confidence\<close> when there is none.
\<close>

definition mapper_default_confidence :: jsnum where
  "mapper_default_confidence = to_double (85 / 100)"

definition calculateOverallConfidence :: "platform \<Rightarrow> jsval \<Rightarrow> js_error + jsval" where
  "calculateOverallConfidence P result =
     (let confidenceScores = filter (\<lambda>score. \<not> nullish score) (confidence_scores result)
      in if length confidenceScores = 0 then Inr (JNum mapper_default_confidence)
         else mean_of P confidenceScores)"

text \<open>
  \<^verbatim>\<open>CustomFieldMapper.mapToCustomStructure\<close>. Its input is the parser's result object,
  whose \<^verbatim>\<open>rawData\<close> holds the provider payload. The brand name is normalised from
  \<^verbatim>\<open>result.establishment || ''\<close>, which must be a string for \<^verbatim>\<open>toLowerCase\<close>.
\<close>

definition brand_name_of :: "jsval \<Rightarrow> js_error + jsval" where
  "brand_name_of establishment =
     (case js_or establishment (JStr []) of
        JStr s \<Rightarrow> Inr (JStr (normalizeBrandName s))
      | _ \<Rightarrow> Inl TypeError)"

definition mapToCustomStructure :: "platform \<Rightarrow> jsval \<Rightarrow> js_error + jsval" where
  "mapToCustomStructure P tabScannerData =
     bind_res (get_prop tabScannerData ''rawData'') (\<lambda>rawData.
       let result = (if nullish rawData then JUndefined else js_prop rawData ''result'')
       in if \<not> truthy result then Inl (Error ''No TabScanner result data found'')
          else
            bind_res (parseAddress result) (\<lambda>addressData.
            bind_res (parseTaxes result) (\<lambda>taxData.
            bind_res (mapItems P result) (\<lambda>itemsData.
            bind_res (brand_name_of (js_prop result ''establishment'')) (\<lambda>brand_name.
            bind_res (formatDate P (js_or (js_prop result ''dateISO'') (js_prop result ''date'')))
              (\<lambda>date_field.
            bind_res (formatTime P (js_or (js_prop result ''dateISO'') (js_prop result ''date'')))
              (\<lambda>time_field.
            bind_res (calculateOverallConfidence P result) (\<lambda>confidence_score.
                Inr (JObj [
                  (''brand_name'', brand_name),
                  (''street_number'', js_prop addressData ''street_number''),
                  (''street_name'', js_prop addressData ''street_name''),
                  (''city'', js_prop addressData ''city''),
                  (''state'', js_prop addressData ''state''),
                  (''zipcode'', js_prop addressData ''zipcode''),
                  (''date_field'', date_field),
                  (''time_field'', time_field),
                  (''tax_field_1'', js_prop taxData ''tax_1''),
                  (''tax_field_2'', js_prop taxData ''tax_2''),
                  (''total_price_field'', js_or (js_prop result ''total'') (JNum (Finite 0))),
                  (''items'', itemsData),
                  (''original_merchant'', js_prop result ''establishment''),
                  (''phone'', js_prop result ''phoneNumber''),
                  (''raw_address'', js_prop result ''address''),
                  (''confidence_score'', confidence_score)])))))))))"

section \<open>Quality scoring\<close>

text \<open>
  \<^verbatim>\<open>AIDataParser.calculateQualityMetrics\<close>. The six checks are counted by the
  \<^verbatim>\<open>forEach\<close> loop, which also counts the fields; the function returns the
  \<^verbatim>\<open>data_completeness\<close> and the \<^verbatim>\<open>ai_confidence\<close> that it stores in \<^verbatim>\<open>result.quality\<close>.
  The method belongs to a class, whose code is strict: storing a property in
  \<^verbatim>\<open>result.quality\<close> raises a \<^verbatim>\<open>TypeError\<close> unless that is an object or an array. The
  \<^verbatim>\<open>ai_confidence\<close> is first set to \<^verbatim>\<open>Math.min(95, data_completeness + 10)\<close> and then
  read back for the blend with the OCR confidence.
\<close>

record quality =
  data_completeness :: jsnum
  ai_confidence :: jsnum

definition quality_checks :: "platform \<Rightarrow> jsval \<Rightarrow> js_error + bool list" where
  "quality_checks P result =
     bind_res (get_prop result ''store'') (\<lambda>store.
     bind_res (get_prop store ''name'') (\<lambda>name.
     bind_res (get_prop (js_prop result ''transaction'') ''date'') (\<lambda>date.
     bind_res (get_prop (js_prop result ''financial'') ''grand_total'') (\<lambda>grand_total.
     bind_res (js_greater_num P grand_total 0) (\<lambda>positive_total.
       if nullish (js_prop result ''items'') then Inl TypeError
       else
         bind_res (js_greater_num P (js_length (js_prop result ''items'')) 0) (\<lambda>some_items.
           Inr [truthy name,
                truthy (js_prop store ''normalized_name''),
                truthy date,
                positive_total,
                some_items,
                truthy (js_prop store ''store_type'')]))))))"

fun count_checks :: "bool list \<Rightarrow> nat \<times> nat \<Rightarrow> nat \<times> nat" where
  "count_checks [] (completenessScore, totalFields) = (completenessScore, totalFields)"
| "count_checks (check # rest) (completenessScore, totalFields) =
     count_checks rest
       (if check then completenessScore + 1 else completenessScore, totalFields + 1)"

fun storable :: "jsval \<Rightarrow> bool" where
  "storable (JObj kvs) = True"
| "storable (JArr xs) = True"
| "storable v = False"

definition calculateQualityMetrics :: "platform \<Rightarrow> jsval \<Rightarrow> js_error + quality" where
  "calculateQualityMetrics P result =
     bind_res (quality_checks P result) (\<lambda>checks.
       if \<not> storable (js_prop result ''quality'') then Inl TypeError
       else
         let (completenessScore, totalFields) = count_checks checks (0, 0);
             completeness =
               math_round (num_mul
                 (num_div (Finite (of_nat completenessScore)) (Finite (of_nat totalFields)))
                 (Finite 100));
             capped = math_min (Finite 95) (num_add completeness (Finite 10))
         in bind_res (to_number P (js_prop (js_prop result ''quality'') ''ocr_confidence''))
              (\<lambda>ocr_confidence.
                Inr \<lparr>data_completeness = completeness,
                     ai_confidence =
                       math_round (num_div
                         (num_add capped (num_mul ocr_confidence (Finite 100)))
                         (Finite 2))\<rparr>))"

text \<open>
  What the validator takes for a signal, on the typed parts: a total above zero, a
  merchant name that is not blank, a raw text of more than ten characters, at least
  one item.
\<close>

definition usable_total :: "rat option \<Rightarrow> bool" where
  "usable_total amount = (case amount of None \<Rightarrow> False | Some r \<Rightarrow> 0 < r)"

definition usable_merchant :: "jsstring option \<Rightarrow> bool" where
  "usable_merchant merchant = (case merchant of None \<Rightarrow> False | Some m \<Rightarrow> trim m \<noteq> [])"

definition has_signal :: "jsstring \<Rightarrow> jsstring option \<Rightarrow> rat option \<Rightarrow> jsval list \<Rightarrow> bool" where
  "has_signal text merchant amount items =
     (usable_total amount \<or> usable_merchant merchant \<or> 10 < length text \<or> items \<noteq> [])"

definition low_confidence :: "rat \<Rightarrow> string list" where
  "low_confidence conf = (if conf < 1 / 2 then [''Low OCR confidence score''] else [])"

definition missing_warnings :: "jsstring option \<Rightarrow> rat option \<Rightarrow> jsval list \<Rightarrow> string list" where
  "missing_warnings merchant amount items =
     (if usable_total amount then [] else [''No monetary amounts detected''])
     @ (if usable_merchant merchant then [] else [''Merchant name not found''])
     @ (if items \<noteq> [] then [] else [''No line items extracted''])"

definition milk_item :: jsval where
  "milk_item = JObj [(''name'', JStr (ustr ''Milk'')), (''totalPrice'', JNum (Finite 3))]"

text \<open>
  An enriched result as \<^verbatim>\<open>parseReceiptData\<close> builds it before the scoring, from typed
  parts: the store's name, normalised name and type, the transaction date, the grand
  total, the items and the OCR confidence.
\<close>

definition enriched_result ::
  "jsval \<Rightarrow> jsval \<Rightarrow> jsval \<Rightarrow> rat \<Rightarrow> jsval list \<Rightarrow> jsval \<Rightarrow> rat \<Rightarrow> jsval" where
  "enriched_result store_name normalized_name date grand_total items store_type ocr =
     JObj [
       (''store'', JObj [(''name'', store_name), (''normalized_name'', normalized_name),
                         (''store_type'', store_type)]),
       (''transaction'', JObj [(''date'', date)]),
       (''financial'', JObj [(''grand_total'', JNum (Finite grand_total))]),
       (''items'', JArr items),
       (''quality'', JObj [(''ocr_confidence'', JNum (Finite ocr))])]"

text \<open>
  The scores as the specification words them: the number of true checks among store
  name present, normalised name present, date present, total above zero, at least one
  item and store type present; that number out of 6 as an integer percentage; and
  round((min(95, completeness + 10) + confidence * 100) / 2), a formula of numbers of
  the language, which is to be reproduced bit for bit: its product, its sum and its
  quotient are those of doubles.
\<close>

definition true_checks ::
  "jsval \<Rightarrow> jsval \<Rightarrow> jsval \<Rightarrow> rat \<Rightarrow> jsval list \<Rightarrow> jsval \<Rightarrow> nat" where
  "true_checks store_name normalized_name date grand_total items store_type =
     length (filter (\<lambda>b. b)
       [truthy store_name, truthy normalized_name, truthy date, 0 < grand_total,
        items \<noteq> [], truthy store_type])"

definition completeness_percentage :: "nat \<Rightarrow> int" where
  "completeness_percentage k = round (of_nat k / 6 * 100 :: rat)"

definition overall_confidence :: "int \<Rightarrow> jsnum \<Rightarrow> jsnum" where
  "overall_confidence completeness ocr =
     math_round (num_div
       (num_add (math_min (Finite 95) (num_add (Finite (of_int completeness)) (Finite 10)))
          (num_mul ocr (Finite 100)))
       (Finite 2))"

text \<open>The same formula in exact arithmetic.\<close>

definition overall_confidence_exact :: "int \<Rightarrow> rat \<Rightarrow> int" where
  "overall_confidence_exact completeness ocr =
     round ((min 95 (of_int completeness + 10) + ocr * 100) / 2)"

text \<open>
  When the body of the parser raises on a present result. A field that is converted
  to a string or to a number only when it is truthy raises when it is truthy and not
  convertible (\<open>unusable\<close>). The body raises when \<^verbatim>\<open>dateISO\<close> is truthy and not a
  string; when \<^verbatim>\<open>total\<close>, \<^verbatim>\<open>tax\<close>, \<^verbatim>\<open>subTotal\<close>, \<^verbatim>\<open>establishment\<close>, \<^verbatim>\<open>address\<close> or
  \<^verbatim>\<open>phoneNumber\<close> is unusable, or \<^verbatim>\<open>date\<close> is while it stands in for a missing
  \<^verbatim>\<open>dateISO\<close>; when one of the three confidences is not convertible; and when
  \<^verbatim>\<open>lineItems\<close> is an array with a \<^verbatim>\<open>null\<close> or \<^verbatim>\<open>undefined\<close> entry or with an entry that
  passes the filter and whose \<^verbatim>\<open>qty\<close> is not convertible, whose \<^verbatim>\<open>price\<close> or \<^verbatim>\<open>lineTotal\<close>
  is unusable (\<open>item_parse_raises\<close>) or whose name, which is its \<^verbatim>\<open>descClean\<close>, is not
  convertible when the raw text is written (\<open>item_text_raises\<close>).
\<close>

definition unusable :: "jsval \<Rightarrow> bool" where
  "unusable v = (truthy v \<and> \<not> convertible v)"

definition item_parse_raises :: "jsval \<Rightarrow> bool" where
  "item_parse_raises item =
     (\<not> convertible (js_prop item ''qty'') \<or> unusable (js_prop item ''price'')
      \<or> unusable (js_prop item ''lineTotal''))"

definition item_text_raises :: "jsval \<Rightarrow> bool" where
  "item_text_raises item =
     (\<not> convertible
        (js_or (js_prop item ''descClean'')
           (js_or (js_prop item ''desc'') (JStr (ustr ''Unknown Item'')))))"

definition item_raises :: "jsval \<Rightarrow> bool" where
  "item_raises item = (item_parse_raises item \<or> item_text_raises item)"

definition parse_raises :: "jsval \<Rightarrow> bool" where
  "parse_raises receipt =
     ((truthy (js_prop receipt ''dateISO'') \<and> \<not> is_string (js_prop receipt ''dateISO''))
      \<or> (\<not> truthy (js_prop receipt ''dateISO'') \<and> unusable (js_prop receipt ''date''))
      \<or> unusable (js_prop receipt ''total'')
      \<or> unusable (js_prop receipt ''tax'')
      \<or> unusable (js_prop receipt ''subTotal'')
      \<or> unusable (js_prop receipt ''establishment'')
      \<or> unusable (js_prop receipt ''address'')
      \<or> unusable (js_prop receipt ''phoneNumber'')
      \<or> list_ex (\<lambda>score. \<not> convertible score) (confidence_scores receipt)
      \<or> (case js_prop receipt ''lineItems'' of
            JArr xs \<Rightarrow> list_ex nullish xs \<or> list_ex item_raises (filter kept_item xs)
          | _ \<Rightarrow> False))"

text \<open>
  Results that the mapper takes without raising: the establishment, the address and
  the date are strings or falsy, the three confidences are convertible, the line
  items (when there are any) are an array of items with a string for
  \<^verbatim>\<open>descClean || desc\<close> and a convertible \<^verbatim>\<open>lineTotal\<close> and \<^verbatim>\<open>qty\<close>, and the summary items
  (when there are any) are an array of items with the line type \<^verbatim>\<open>Tax\<close> or a string
  description.
\<close>

definition string_or_falsy :: "jsval \<Rightarrow> bool" where
  "string_or_falsy v = (is_string v \<or> \<not> truthy v)"

definition described_item :: "jsval \<Rightarrow> bool" where
  "described_item item =
     (\<not> nullish item \<and> is_string (js_or (js_prop item ''descClean'') (js_prop item ''desc''))
      \<and> convertible (js_prop item ''lineTotal'') \<and> convertible (js_prop item ''qty''))"

definition described_summary_item :: "jsval \<Rightarrow> bool" where
  "described_summary_item item =
     (\<not> nullish item
      \<and> (js_prop item ''lineType'' = JStr (ustr ''Tax'') \<or> is_string (js_prop item ''desc'')))"

definition array_of_or_falsy :: "(jsval \<Rightarrow> bool) \<Rightarrow> jsval \<Rightarrow> bool" where
  "array_of_or_falsy ok v = (case v of JArr xs \<Rightarrow> list_all ok xs | _ \<Rightarrow> \<not> truthy v)"

definition mappable_result :: "jsval \<Rightarrow> bool" where
  "mappable_result result =
     (truthy result
      \<and> string_or_falsy (js_prop result ''establishment'')
      \<and> string_or_falsy (js_prop result ''address'')
      \<and> string_or_falsy (js_or (js_prop result ''dateISO'') (js_prop result ''date''))
      \<and> list_all convertible (confidence_scores result)
      \<and> array_of_or_falsy described_item (js_prop result ''lineItems'')
      \<and> array_of_or_falsy described_summary_item (js_prop result ''summaryItems''))"

text \<open>
  The end-to-end example of the specification as a provider payload: the store
  \<^verbatim>\<open>Trader Joe's\<close>, the total 96.49, the tax 0.62 and two line items.
\<close>

definition trader_joes_payload :: jsval where
  "trader_joes_payload =
     JObj [(''result'',
       JObj [(''establishment'', JStr (ustr ''Trader Joe'' @ [0x27] @ ustr ''s'')),
             (''total'', JNum (to_double (9649 / 100))),
             (''tax'', JNum (to_double (62 / 100))),
             (''lineItems'',
                JArr [JObj [(''descClean'', JStr (ustr ''OL VE OIL'')),
                            (''lineTotal'', JNum (to_double (999 / 100)))],
                      JObj [(''descClean'', JStr (ustr ''COCONUT MILK'')),
                            (''lineTotal'', JNum (to_double (189 / 100)))]])])]"

text \<open>The address of the specification's example.\<close>

definition portland_address :: jsstring where
  "portland_address =
     ustr ''Trader Joe'' @ [0x27] @ ustr ''S Portland (519), Marginal Way, Portland, ME 04101''"

section \<open>Evaluation\<close>

lemma ustr_simps: "ustr [] = []" "ustr (c # cs) = of_char c # ustr cs"
  by (simp_all add: ustr_def)

lemma bind_res_simps:
  "bind_res (Inl e) f = Inl e"
  "bind_res (Inr x) f = f x"
  by (simp_all add: bind_res_def)

lemma bind_res_Inr:
  "bind_res m f = Inr y \<longleftrightarrow> (\<exists>x. m = Inr x \<and> f x = Inr y)"
  by (cases m) (simp_all add: bind_res_def)

lemma bind_res_Inl:
  "bind_res m f = Inl e \<longleftrightarrow> m = Inl e \<or> (\<exists>x. m = Inr x \<and> f x = Inl e)"
  by (cases m) (simp_all add: bind_res_def)

lemma in_set_tl: "x \<in> set (tl xs) \<Longrightarrow> x \<in> set xs"
  by (cases xs) auto

subsection \<open>Doubles\<close>

declare bit_length.simps [simp del]

lemma bit_length_numeral: "bit_length (numeral n) = Suc (bit_length (numeral n div 2))"
  by (subst bit_length.simps) simp

lemma bit_length_small: "bit_length 0 = 0" "bit_length (Suc 0) = Suc 0" "bit_length 1 = 1"
  by (simp_all add: bit_length.simps)

lemma floor_rat_numeral:
  "\<lfloor>(numeral a :: rat) / numeral b\<rfloor> = numeral a div numeral b"
  using floor_divide_of_int_eq [of "numeral a" "numeral b", where ?'a = rat] by simp

lemma ceiling_rat_numeral:
  "\<lceil>(numeral a :: rat) / numeral b\<rceil> = - (- numeral a div numeral b)"
  using ceiling_divide_eq_div [of "numeral a" "numeral b"]
  by (simp add: ceiling_def floor_minus [symmetric] del: floor_minus)

lemma floor_rat_one: "\<lfloor>(1 :: rat) / numeral b\<rfloor> = 1 div numeral b"
  using floor_divide_of_int_eq [of 1 "numeral b", where ?'a = rat] by simp

lemma ceiling_rat_one: "\<lceil>(1 :: rat) / numeral b\<rceil> = - (- 1 div numeral b)"
  using ceiling_divide_eq_div [of 1 "numeral b"]
  by (simp add: ceiling_def floor_minus [symmetric] del: floor_minus)

lemmas double_eval = to_double_def binade_def pow2_def round_half_even_def Let_def
  bit_length_numeral bit_length_small floor_rat_numeral ceiling_rat_numeral
  floor_rat_one ceiling_rat_one

lemma to_double_overflow:
  "pow2 1024 \<le> x \<Longrightarrow> to_double x = PosInfinity"
proof -
  assume a: "pow2 1024 \<le> x"
  have "0 < pow2 1024" by (simp add: pow2_def)
  with a have "0 < x" by linarith
  with a show ?thesis by (simp add: to_double_def)
qed

lemma to_double_small_nat:
  "to_double 0 = Finite 0" "to_double 1 = Finite 1" "to_double 3 = Finite 3"
  "to_double 5 = Finite 5" "to_double 123 = Finite 123"
  by (simp_all add: double_eval)

subsection \<open>Conversions\<close>

lemma to_string_raises:
  "(to_string P v = Inl e \<longleftrightarrow> e = TypeError \<and> \<not> convertible v)"
  "(to_strings P xs = Inl e \<longleftrightarrow> e = TypeError \<and> \<not> list_all convertible xs)"
proof (induction P v and P xs arbitrary: e and e rule: to_string_to_strings.induct)
  case (9 P x xs)
  show ?case
  proof (cases "nullish x")
    case True
    then have "convertible x" by (cases x) simp_all
    with True 9(2) show ?thesis
      by (auto simp: bind_res_Inl)
  next
    case False
    with 9(1)[OF False] 9(2) show ?thesis
      by (auto simp: bind_res_Inl) (metis sum.exhaust_sel sum.disc(2) sum.collapse(1))+
  qed
qed (auto simp: bind_res_Inl)

lemma to_string_convertible:
  "convertible v \<Longrightarrow> \<exists>s. to_string P v = Inr s"
  using to_string_raises(1)[of P v] by (cases "to_string P v") auto

lemma to_string_not_convertible:
  "\<not> convertible v \<Longrightarrow> to_string P v = Inl TypeError"
  using to_string_raises(1)[of P v TypeError] by simp

lemma to_primitive_raises:
  "to_primitive P v = Inl e \<longleftrightarrow> e = TypeError \<and> \<not> convertible v"
proof (cases v)
  case (JArr xs)
  then show ?thesis
    using to_string_raises(1)[of P v e] by (auto simp: bind_res_Inl simp del: to_string.simps)
next
  case (JObj kvs)
  then show ?thesis
    using to_string_raises(1)[of P v e] by (auto simp: bind_res_Inl simp del: to_string.simps)
qed simp_all

lemma to_primitive_convertible:
  "convertible v \<Longrightarrow> \<exists>p. to_primitive P v = Inr p \<and> convertible p"
proof (cases v)
  case (JArr xs)
  assume "convertible v"
  from to_string_convertible[OF this, of P] JArr show ?thesis
    by (auto simp: bind_res_simps simp del: to_string.simps)
next
  case (JObj kvs)
  assume "convertible v"
  from to_string_convertible[OF this, of P] JObj show ?thesis
    by (auto simp: bind_res_simps simp del: to_string.simps)
qed simp_all

lemma to_number_raises:
  "to_number P v = Inl e \<longleftrightarrow> e = TypeError \<and> \<not> convertible v"
  by (simp add: to_number_def bind_res_Inl to_primitive_raises)

lemma to_number_convertible:
  "convertible v \<Longrightarrow> \<exists>n. to_number P v = Inr n"
  using to_number_raises[of P v] by (cases "to_number P v") auto

lemma to_number_num [simp]: "to_number P (JNum n) = Inr n"
  by (simp add: to_number_def bind_res_simps)

lemma js_greater_num_num [simp]:
  "js_greater_num P (JNum n) r = Inr (num_less (Finite r) n)"
  by (simp add: js_greater_num_def bind_res_simps)

lemma js_less_num_num [simp]:
  "js_less_num P (JNum n) r = Inr (num_less n (Finite r))"
  by (simp add: js_less_num_def bind_res_simps)

lemma bind_raises:
  assumes "\<And>e. m = Inl e \<longleftrightarrow> e = TypeError \<and> c"
    and "\<And>x e. m = Inr x \<Longrightarrow> (f x = Inl e \<longleftrightarrow> e = TypeError \<and> c')"
  shows "bind_res m f = Inl e \<longleftrightarrow> e = TypeError \<and> (c \<or> c')"
proof (cases m)
  case (Inl e0)
  with assms(1)[of e0] have "e0 = TypeError" "c" by auto
  with Inl show ?thesis by (auto simp: bind_res_simps)
next
  case (Inr x)
  with assms(1)[of TypeError] have "\<not> c" by auto
  with Inr assms(2)[OF Inr, of e] show ?thesis by (simp add: bind_res_simps)
qed

lemma bind_returns:
  "bind_res m (\<lambda>x. Inr (g x)) = Inl e \<longleftrightarrow> m = Inl e"
  by (cases m) (simp_all add: bind_res_simps)

section \<open>Properties of the amount parser\<close>

lemmas amount_eval = parseAmount_def parseAmount_as_specified_def ustr_simps bind_res_simps
  currency_symbols_def numeric_char_def is_digit_def parseFloat_string_def
  unsigned_literal_def is_space_def Let_def scale10_def exponent_of_def

lemma numeric_not_currency: "numeric_char c \<Longrightarrow> c \<notin> set currency_symbols"
  by (auto simp: numeric_char_def is_digit_def currency_symbols_def)

lemma clean_filter:
  "filter numeric_char (filter (\<lambda>c. c \<notin> set currency_symbols) s) = filter numeric_char s"
  by (induction s) (auto dest: numeric_not_currency)

lemma parseAmount_string:
  "parseAmount P (JStr s) =
     Inr (if parseFloat_string (filter numeric_char s) = NaN then JNull
          else JNum (parseFloat_string (filter numeric_char s)))"
proof (cases "s = []")
  case True
  then show ?thesis
    by (simp add: parseAmount_def parseFloat_string_def unsigned_literal_def ustr_simps)
next
  case False
  then show ?thesis
    by (simp add: parseAmount_def bind_res_simps clean_filter Let_def del: filter_filter)
qed

lemma parseAmount_raises:
  "parseAmount P v = Inl e \<longleftrightarrow> e = TypeError \<and> unusable v"
  by (auto simp: parseAmount_def unusable_def bind_res_Inl to_string_raises Let_def)

lemma parseAmount_returns:
  assumes "\<not> unusable v"
  shows "parseAmount P v = Inr JNull \<or> (\<exists>n. parseAmount P v = Inr (JNum n) \<and> n \<noteq> NaN)"
proof (cases "truthy v")
  case False
  then show ?thesis by (simp add: parseAmount_def)
next
  case True
  with assms have "convertible v" by (simp add: unusable_def)
  from to_string_convertible[OF this, of P] obtain s where "to_string P v = Inr s" by blast
  with True show ?thesis
    by (simp add: parseAmount_def bind_res_simps Let_def)
qed

lemma numeric_literal_not_infinity:
  assumes "\<forall>c \<in> set s. numeric_char c"
  shows "\<not> starts_with s (ustr ''Infinity'')"
  using assms by (cases s) (auto simp: ustr_simps numeric_char_def is_digit_def)

lemma no_digit_literal:
  assumes "\<forall>c \<in> set s. \<not> is_digit c" "\<forall>c \<in> set s. numeric_char c"
  shows "unsigned_literal s = NaN"
proof -
  have a: "takeWhile is_digit s = []" using assms(1) by (cases s) auto
  have b: "dropWhile is_digit s = s" using assms(1) by (cases s) auto
  have c: "takeWhile is_digit (tl s) = []" using assms(1) by (cases s; cases "tl s") auto
  from numeric_literal_not_infinity[OF assms(2)]
  show ?thesis by (simp add: unsigned_literal_def Let_def a b c)
qed

lemma no_digit_parse:
  assumes "\<forall>c \<in> set s. \<not> is_digit c" "\<forall>c \<in> set s. numeric_char c"
  shows "parseFloat_string s = NaN"
proof -
  let ?t = "dropWhile is_space s"
  have ds: "\<forall>c \<in> set ?t. \<not> is_digit c"
    using assms(1) by (meson set_dropWhileD)
  have dn: "\<forall>c \<in> set ?t. numeric_char c"
    using assms(2) by (meson set_dropWhileD)
  have tl: "\<forall>c \<in> set (tl ?t). \<not> is_digit c"
    using ds by (blast dest: in_set_tl)
  have tn: "\<forall>c \<in> set (tl ?t). numeric_char c"
    using dn by (blast dest: in_set_tl)
  have a: "unsigned_literal ?t = NaN"
    using ds dn by (rule no_digit_literal)
  have b: "unsigned_literal (tl ?t) = NaN"
    using tl tn by (rule no_digit_literal)
  show ?thesis
    by (simp add: parseFloat_string_def Let_def a b)
qed

lemma digits_value_zeros: "digits_value acc (replicate n 48) = acc * 10 ^ n"
  by (induction n arbitrary: acc) simp_all

lemma takeWhile_digits_point:
  assumes "list_all is_digit ip"
  shows "takeWhile is_digit (ip @ 0x2E # fp) = ip" "dropWhile is_digit (ip @ 0x2E # fp) = 0x2E # fp"
  using assms by (induction ip) (simp_all add: is_digit_def)

lemma takeWhile_digits_all:
  assumes "list_all is_digit fp"
  shows "takeWhile is_digit fp = fp" "dropWhile is_digit fp = []"
  using assms by (induction fp) simp_all

lemma decimal_literal:
  assumes "list_all is_digit ip" "list_all is_digit fp" "ip \<noteq> []"
  shows "parseFloat_string (ip @ 0x2E # fp) = to_double (decimal ip fp)"
proof -
  let ?s = "ip @ 0x2E # fp"
  obtain c cs where ip: "ip = c # cs" using assms(3) by (cases ip) auto
  with assms(1) have c: "is_digit c" by simp
  then have sp: "\<not> is_space c" and ch: "c \<noteq> 0x2D" "c \<noteq> 0x2B" "c \<noteq> 0x49"
    by (auto simp: is_digit_def is_space_def)
  have t: "dropWhile is_space ?s = ?s" using sp by (simp add: ip)
  have h: "?s \<noteq> []" "hd ?s = c" by (simp_all add: ip)
  have inf: "\<not> starts_with ?s (ustr ''Infinity'')"
    using ch by (simp add: ip ustr_simps)
  note tw = takeWhile_digits_point[OF assms(1), of fp] takeWhile_digits_all[OF assms(2)]
  have "unsigned_literal ?s = to_double (decimal ip fp)"
    unfolding unsigned_literal_def Let_def tw
    using inf assms(3) by (simp add: tw exponent_of_def scale10_def decimal_def)
  then show ?thesis
    unfolding parseFloat_string_def Let_def t using h ch by simp
qed

lemma filter_numeric_decimal:
  assumes "list_all is_digit ip" "list_all is_digit fp"
  shows "filter numeric_char (ip @ 0x2E # fp) = ip @ 0x2E # fp"
proof -
  have "\<forall>c \<in> set (ip @ 0x2E # fp). numeric_char c"
    using assms by (auto simp: numeric_char_def list_all_iff)
  then show ?thesis by (simp only: filter_True)
qed

lemma to_double_not_NaN: "to_double x \<noteq> NaN"
  by (simp add: to_double_def Let_def)

lemma huge_amount:
  "parseFloat_string (0x31 # replicate 309 0x30) = PosInfinity"
proof -
  let ?s = "0x31 # replicate 309 (0x30 :: nat)"
  have tw: "takeWhile is_digit ?s = ?s" "dropWhile is_digit ?s = []"
    by (simp_all add: is_digit_def takeWhile_replicate dropWhile_replicate)
  have v: "digits_value 0 ?s = 10 ^ 309"
    using digits_value_zeros[of 1 309] by simp
  have big: "pow2 1024 \<le> 10 ^ 309"
    by (simp add: pow2_def)
  have "unsigned_literal ?s = to_double (10 ^ 309)"
    unfolding unsigned_literal_def Let_def tw v
    by (simp add: ustr_simps exponent_of_def scale10_def)
  with to_double_overflow[OF big] show ?thesis
    by (simp add: parseFloat_string_def Let_def is_space_def)
qed

text \<open>
  Claim C3, as amended. \<^verbatim>\<open>parseAmount\<close> raises a \<^verbatim>\<open>TypeError\<close> exactly on a truthy
  amount that \<^verbatim>\<open>String\<close> cannot convert: an object with an own \<^verbatim>\<open>toString\<close> property
  or an array that holds one. On every other amount it returns \<^verbatim>\<open>null\<close> or a number
  that is not \<^verbatim>\<open>NaN\<close>, and \<^verbatim>\<open>null\<close> on a falsy one. Of a string only the digits, the
  dots and the minus signs matter: the currency symbols and the white space are
  removed, and so are the letters and everything else. A string without a digit gives
  \<^verbatim>\<open>null\<close>; a decimal numeral, digits with a point among them, gives the double nearest
  to the number it denotes, which is \<^verbatim>\<open>Infinity\<close> for the numeral 1 followed by 309
  zeros. The five amounts of the specification are parsed as it says.
\<close>

theorem parseAmount_contract:
  "(parseAmount P v = Inl TypeError \<longleftrightarrow> truthy v \<and> \<not> convertible v)
   \<and> (\<not> (truthy v \<and> \<not> convertible v) \<longrightarrow>
        parseAmount P v = Inr JNull \<or> (\<exists>n. parseAmount P v = Inr (JNum n) \<and> n \<noteq> NaN))
   \<and> (\<not> truthy v \<longrightarrow> parseAmount P v = Inr JNull)
   \<and> parseAmount P (JStr s) = parseAmount P (JStr (filter numeric_char s))
   \<and> ((\<forall>c \<in> set s. \<not> is_digit c) \<longrightarrow> parseAmount P (JStr s) = Inr JNull)
   \<and> (list_all is_digit ip \<and> list_all is_digit fp \<and> ip \<noteq> [] \<longrightarrow>
        parseAmount P (JStr (ip @ 0x2E # fp)) = Inr (JNum (to_double (decimal ip fp))))
   \<and> parseAmount P (JStr (0x31 # replicate 309 0x30)) = Inr (JNum PosInfinity)
   \<and> parseAmount P (JStr (ustr ''$25.87'')) = Inr (JNum (to_double (2587 / 100)))
   \<and> parseAmount P (JStr (0x20AC # ustr ''15.50'')) = Inr (JNum (to_double (1550 / 100)))
   \<and> parseAmount P (JStr (ustr ''  $12.34  '')) = Inr (JNum (to_double (1234 / 100)))
   \<and> parseAmount P (JStr []) = Inr JNull
   \<and> parseAmount P (JStr (ustr ''invalid'')) = Inr JNull"
proof -
  have raises: "parseAmount P v = Inl TypeError \<longleftrightarrow> truthy v \<and> \<not> convertible v"
    by (simp add: parseAmount_raises unusable_def)
  have returns: "\<not> (truthy v \<and> \<not> convertible v) \<longrightarrow>
        parseAmount P v = Inr JNull \<or> (\<exists>n. parseAmount P v = Inr (JNum n) \<and> n \<noteq> NaN)"
    using parseAmount_returns[of v P] by (simp add: unusable_def)
  have falsy: "\<not> truthy v \<longrightarrow> parseAmount P v = Inr JNull"
    by (simp add: parseAmount_def)
  have only_numeric: "parseAmount P (JStr s) = parseAmount P (JStr (filter numeric_char s))"
    by (simp add: parseAmount_string)
  have nodigit: "(\<forall>c \<in> set s. \<not> is_digit c) \<longrightarrow> parseAmount P (JStr s) = Inr JNull"
  proof
    assume a: "\<forall>c \<in> set s. \<not> is_digit c"
    then have d: "\<forall>c \<in> set (filter numeric_char s). \<not> is_digit c" by simp
    have n: "\<forall>c \<in> set (filter numeric_char s). numeric_char c" by simp
    from no_digit_parse[OF d n] show "parseAmount P (JStr s) = Inr JNull"
      by (simp add: parseAmount_string)
  qed
  have numeral: "list_all is_digit ip \<and> list_all is_digit fp \<and> ip \<noteq> [] \<longrightarrow>
        parseAmount P (JStr (ip @ 0x2E # fp)) = Inr (JNum (to_double (decimal ip fp)))"
  proof
    assume a: "list_all is_digit ip \<and> list_all is_digit fp \<and> ip \<noteq> []"
    then have f: "filter numeric_char (ip @ 0x2E # fp) = ip @ 0x2E # fp"
      by (intro filter_numeric_decimal) simp_all
    from a have "parseFloat_string (ip @ 0x2E # fp) = to_double (decimal ip fp)"
      by (simp add: decimal_literal)
    then show "parseAmount P (JStr (ip @ 0x2E # fp)) = Inr (JNum (to_double (decimal ip fp)))"
      unfolding parseAmount_string f by (simp add: to_double_not_NaN)
  qed
  have f: "filter numeric_char (0x31 # replicate 309 0x30) = 0x31 # replicate 309 0x30"
    by (simp add: numeric_char_def is_digit_def)
  have huge: "parseAmount P (JStr (0x31 # replicate 309 0x30)) = Inr (JNum PosInfinity)"
    unfolding parseAmount_string f huge_amount by simp
  have e1: "parseAmount P (JStr (ustr ''$25.87'')) = Inr (JNum (to_double (2587 / 100)))"
    by (simp add: amount_eval to_double_not_NaN)
  have e2: "parseAmount P (JStr (0x20AC # ustr ''15.50'')) = Inr (JNum (to_double (1550 / 100)))"
    by (simp add: amount_eval to_double_not_NaN)
  have e3: "parseAmount P (JStr (ustr ''  $12.34  '')) = Inr (JNum (to_double (1234 / 100)))"
    by (simp add: amount_eval to_double_not_NaN)
  have e4: "parseAmount P (JStr []) = Inr JNull"
    by (simp add: amount_eval)
  have e5: "parseAmount P (JStr (ustr ''invalid'')) = Inr JNull"
    by (simp add: amount_eval)
  from raises returns falsy only_numeric nodigit numeral huge e1 e2 e3 e4 e5
  show ?thesis by blast
qed

theorem parseAmount_contract_witness:
  "\<forall>P. truthy (JStr (ustr ''12 apples 3'')) \<and> convertible (JStr (ustr ''12 apples 3''))
     \<and> parseAmount P (JStr (ustr ''12 apples 3'')) = Inr (JNum (Finite 123))
     \<and> filter numeric_char (ustr ''12 apples 3'') = ustr ''123''
     \<and> list_all (\<lambda>c. \<not> is_digit c) (ustr ''n/a'')
     \<and> parseAmount P (JStr (ustr ''n/a'')) = Inr JNull
     \<and> list_all is_digit (ustr ''4'') \<and> list_all is_digit (ustr ''50'')
     \<and> parseAmount P (JStr (ustr ''4.50'')) = Inr (JNum (Finite (9 / 2)))
     \<and> \<not> truthy (JNum (Finite 0)) \<and> parseAmount P (JNum (Finite 0)) = Inr JNull
     \<and> truthy (JArr [JObj [(''toString'', JNull)]])
     \<and> \<not> convertible (JArr [JObj [(''toString'', JNull)]])
     \<and> parseAmount P (JArr [JObj [(''toString'', JNull)]]) = Inl TypeError"
proof
  fix P
  have d: "to_double (decimal (ustr ''4'') (ustr ''50'')) = Finite (9 / 2)"
    by (simp add: decimal_def ustr_simps double_eval)
  have n: "\<forall>c \<in> set (ustr ''n/a''). \<not> is_digit c"
    by (simp add: ustr_simps is_digit_def)
  have f: "filter numeric_char (ustr ''12 apples 3'') = ustr ''123''"
    by (simp add: ustr_simps numeric_char_def is_digit_def)
  have p: "parseAmount P (JStr (ustr ''123'')) = Inr (JNum (Finite 123))"
    by (simp add: amount_eval to_double_small_nat)
  note first = parseAmount_contract[of P "JStr (ustr ''12 apples 3'')" "ustr ''12 apples 3''"
         "ustr ''4''" "ustr ''50''"]
  from first have "parseAmount P (JStr (ustr ''12 apples 3'')) =
      parseAmount P (JStr (filter numeric_char (ustr ''12 apples 3'')))"
    by blast
  then have a: "parseAmount P (JStr (ustr ''12 apples 3'')) = Inr (JNum (Finite 123))"
    by (simp only: f p)
  from first have "list_all is_digit (ustr ''4'') \<and> list_all is_digit (ustr ''50'')
        \<and> ustr ''4'' \<noteq> [] \<longrightarrow>
      parseAmount P (JStr (ustr ''4'' @ 0x2E # ustr ''50'')) =
        Inr (JNum (to_double (decimal (ustr ''4'') (ustr ''50''))))"
    by blast
  with d have c: "parseAmount P (JStr (ustr ''4.50'')) = Inr (JNum (Finite (9 / 2)))"
    by (simp add: ustr_simps is_digit_def)
  note second = parseAmount_contract[of P "JNum (Finite 0)" "ustr ''n/a''" "[]" "[]"]
  from second have "(\<forall>c \<in> set (ustr ''n/a''). \<not> is_digit c) \<longrightarrow>
      parseAmount P (JStr (ustr ''n/a'')) = Inr JNull"
    by blast
  with n have b: "parseAmount P (JStr (ustr ''n/a'')) = Inr JNull"
    by blast
  from second have "\<not> truthy (JNum (Finite 0)) \<longrightarrow> parseAmount P (JNum (Finite 0)) = Inr JNull"
    by blast
  then have z: "parseAmount P (JNum (Finite 0)) = Inr JNull"
    by simp
  note third = parseAmount_contract[of P "JArr [JObj [(''toString'', JNull)]]" "[]" "[]" "[]"]
  from third have "parseAmount P (JArr [JObj [(''toString'', JNull)]]) = Inl TypeError \<longleftrightarrow>
      truthy (JArr [JObj [(''toString'', JNull)]])
      \<and> \<not> convertible (JArr [JObj [(''toString'', JNull)]])"
    by blast
  then have t: "parseAmount P (JArr [JObj [(''toString'', JNull)]]) = Inl TypeError"
    by simp
  from a b c z t f show "truthy (JStr (ustr ''12 apples 3'')) \<and> convertible (JStr (ustr ''12 apples 3''))
     \<and> parseAmount P (JStr (ustr ''12 apples 3'')) = Inr (JNum (Finite 123))
     \<and> filter numeric_char (ustr ''12 apples 3'') = ustr ''123''
     \<and> list_all (\<lambda>c. \<not> is_digit c) (ustr ''n/a'')
     \<and> parseAmount P (JStr (ustr ''n/a'')) = Inr JNull
     \<and> list_all is_digit (ustr ''4'') \<and> list_all is_digit (ustr ''50'')
     \<and> parseAmount P (JStr (ustr ''4.50'')) = Inr (JNum (Finite (9 / 2)))
     \<and> \<not> truthy (JNum (Finite 0)) \<and> parseAmount P (JNum (Finite 0)) = Inr JNull
     \<and> truthy (JArr [JObj [(''toString'', JNull)]])
     \<and> \<not> convertible (JArr [JObj [(''toString'', JNull)]])
     \<and> parseAmount P (JArr [JObj [(''toString'', JNull)]]) = Inl TypeError"
    by (simp add: ustr_simps is_digit_def)
qed

text \<open>
  The claim as the specification states it fails on an amount whose digits stand in
  other text: stripping currency symbols and white space from \<^verbatim>\<open>"invalid5"\<close> leaves a
  string that is no number, yet the code returns 5. And an amount that \<^verbatim>\<open>String\<close>
  cannot convert makes the code raise.
\<close>

theorem parseAmount_digits_in_text:
  "\<forall>P. parseAmount P (JStr (ustr ''invalid5'')) = Inr (JNum (Finite 5))
     \<and> parseAmount_as_specified (ustr ''invalid5'') = JNull
     \<and> parseAmount P (JObj [(''toString'', JNum (Finite 1))]) = Inl TypeError"
  by (simp add: amount_eval to_double_small_nat)

section \<open>Properties of the validator\<close>

lemmas validate_eval = validateOCRResult_def ocr_result_def get_prop_def bind_res_simps
  has_total_def has_merchant_def has_raw_text_def has_items_def
  opt_str_def opt_num_def Let_def

lemma trim_Nil: "trim [] = []"
  by (simp add: trim_def)

lemma validate_typed:
  "validateOCRResult P (ocr_result True conf text merchant amount items) =
     Inr \<lparr>isValid = has_signal text merchant amount items,
          errors = (if has_signal text merchant amount items then []
                    else [''No useful receipt data could be extracted'']),
          warnings = low_confidence conf
            @ (if has_signal text merchant amount items
               then missing_warnings merchant amount items else [])\<rparr>"
  by (cases amount; cases merchant)
     (auto simp: validate_eval has_signal_def usable_total_def usable_merchant_def
        low_confidence_def missing_warnings_def trim_Nil)


text \<open>
  Claim C1, as amended. For a successfully parsed receipt the validator returns a
  verdict (it does not raise), and the verdict is invalid exactly when the total is
  missing or not above zero, the merchant is missing or blank, the raw text has at
  most ten characters and there is no item; the errors are then the one message
  ``No useful receipt data could be extracted''. Any one of a positive total, a
  merchant name that is not blank, a raw text of more than ten characters or an item
  makes the receipt valid, with no error and a warning for each of total, merchant and
  items that is missing. A receipt whose only content is the item Milk is valid, with
  the warnings for the missing total and the missing merchant.
\<close>

theorem validate_verdict:
  "validateOCRResult P (ocr_result True conf text merchant amount items) =
     Inr \<lparr>isValid = has_signal text merchant amount items,
          errors = (if has_signal text merchant amount items then []
                    else [''No useful receipt data could be extracted'']),
          warnings = low_confidence conf
            @ (if has_signal text merchant amount items
               then missing_warnings merchant amount items else [])\<rparr>
   \<and> has_signal text merchant amount items =
       ((\<exists>r. amount = Some r \<and> 0 < r) \<or> (\<exists>m. merchant = Some m \<and> trim m \<noteq> [])
        \<or> 10 < length text \<or> items \<noteq> [])
   \<and> validateOCRResult P (ocr_result True conf [] None None [milk_item]) =
       Inr \<lparr>isValid = True, errors = [],
            warnings = low_confidence conf
              @ [''No monetary amounts detected'', ''Merchant name not found'']\<rparr>"
proof -
  have sig: "has_signal text merchant amount items =
       ((\<exists>r. amount = Some r \<and> 0 < r) \<or> (\<exists>m. merchant = Some m \<and> trim m \<noteq> [])
        \<or> 10 < length text \<or> items \<noteq> [])"
    by (cases amount; cases merchant)
       (simp_all add: has_signal_def usable_total_def usable_merchant_def)
  have milk: "validateOCRResult P (ocr_result True conf [] None None [milk_item]) =
       Inr \<lparr>isValid = True, errors = [],
            warnings = low_confidence conf
              @ [''No monetary amounts detected'', ''Merchant name not found'']\<rparr>"
    by (simp add: validate_typed has_signal_def missing_warnings_def usable_total_def
          usable_merchant_def)
  show ?thesis
    by (intro conjI) (rule validate_typed, rule sig, rule milk)
qed

theorem validate_verdict_witness:
  "\<forall>P. validateOCRResult P
          (ocr_result True (92 / 100) (ustr ''TRADER JOES Total $25.87'')
             (Some (ustr ''Trader Joes'')) (Some (2587 / 100)) [milk_item]) =
        Inr \<lparr>isValid = True, errors = [], warnings = []\<rparr>
     \<and> validateOCRResult P (ocr_result True 0 [] None None []) =
        Inr \<lparr>isValid = False, errors = [''No useful receipt data could be extracted''],
             warnings = [''Low OCR confidence score'']\<rparr>"
proof
  fix P
  show "validateOCRResult P
          (ocr_result True (92 / 100) (ustr ''TRADER JOES Total $25.87'')
             (Some (ustr ''Trader Joes'')) (Some (2587 / 100)) [milk_item]) =
        Inr \<lparr>isValid = True, errors = [], warnings = []\<rparr>
     \<and> validateOCRResult P (ocr_result True 0 [] None None []) =
        Inr \<lparr>isValid = False, errors = [''No useful receipt data could be extracted''],
             warnings = [''Low OCR confidence score'']\<rparr>"
    using validate_verdict[of P "92 / 100" "ustr ''TRADER JOES Total $25.87''"
            "Some (ustr ''Trader Joes'')" "Some (2587 / 100)" "[milk_item]"]
          validate_verdict[of P 0 "[]" None None "[]"]
    by (simp add: has_signal_def missing_warnings_def usable_total_def usable_merchant_def
          low_confidence_def trim_def is_space_def ustr_simps)
qed

text \<open>
  The claim as stated fails: a receipt whose raw text is not empty, here nine
  characters, and whose total, merchant and items are missing is invalid, so a
  signal that is not empty does not suffice.
\<close>

theorem validate_short_text_invalid:
  "\<forall>P. validateOCRResult P (ocr_result True (9 / 10) (ustr ''Thank you'') None None []) =
        Inr \<lparr>isValid = False, errors = [''No useful receipt data could be extracted''],
             warnings = []\<rparr>
     \<and> \<not> all_signals_empty (ustr ''Thank you'') None None []"
  by (simp add: validate_typed has_signal_def usable_total_def usable_merchant_def
        low_confidence_def all_signals_empty_def ustr_simps)




section \<open>Properties of brand normalisation\<close>

lemma trim_fixed:
  assumes "s = [] \<or> (\<not> is_space (hd s) \<and> \<not> is_space (last s))"
  shows "trim s = s"
proof (cases "s = []")
  case True
  then show ?thesis by (simp add: trim_def)
next
  case False
  with assms have h: "\<not> is_space (hd s)" and l: "\<not> is_space (last s)" by auto
  from False h have a: "dropWhile is_space s = s"
    by (simp add: dropWhile_eq_self_iff)
  from False l have "dropWhile is_space (rev s) = rev s"
    by (simp add: dropWhile_eq_self_iff hd_rev)
  with a show ?thesis by (simp add: trim_def)
qed

lemma trim_ends:
  "trim s = [] \<or> (\<not> is_space (hd (trim s)) \<and> \<not> is_space (last (trim s)))"
proof (cases "trim s = []")
  case True
  then show ?thesis by simp
next
  case False
  let ?a = "dropWhile is_space s"
  let ?b = "dropWhile is_space (rev ?a)"
  have t: "trim s = rev ?b" by (simp add: trim_def)
  from False t have b: "?b \<noteq> []" by simp
  have a: "?a \<noteq> []"
  proof
    assume "?a = []"
    then have "?b = []" by (simp only: rev.simps dropWhile.simps)
    with b show False by blast
  qed
  have hb: "\<not> is_space (hd ?b)" using b by (rule hd_dropWhile)
  then have l: "\<not> is_space (last (trim s))" using b t by (simp add: last_rev)
  have ha: "\<not> is_space (hd ?a)" using a by (rule hd_dropWhile)
  have "rev ?a = takeWhile is_space (rev ?a) @ ?b" by simp
  then have "last (rev ?a) = last ?b" using b by (metis last_appendR)
  then have "last ?b = hd ?a" using a by (simp add: last_rev)
  then have "hd (trim s) = hd ?a" using b t by (simp add: hd_rev)
  with ha l show ?thesis by simp
qed

lemma trim_trim: "trim (trim s) = trim s"
  using trim_ends[of s] by (intro trim_fixed) blast

lemma set_trim: "set (trim s) \<subseteq> set s"
proof
  fix c assume "c \<in> set (trim s)"
  then have "c \<in> set (dropWhile is_space (rev (dropWhile is_space s)))"
    by (simp add: trim_def)
  then have "c \<in> set (rev (dropWhile is_space s))" by (rule set_dropWhileD)
  then have "c \<in> set (dropWhile is_space s)" by simp
  then show "c \<in> set s" by (rule set_dropWhileD)
qed

lemma is_space_range: "is_space c \<Longrightarrow> c \<le> 32 \<or> c = 160 \<or> 5760 \<le> c"
  by (auto simp: is_space_def)

lemma is_space_lower_char: "is_space (lower_char c) = is_space c"
proof (cases "lower_char c = c")
  case True
  then show ?thesis by simp
next
  case False
  then have up: "(65 \<le> c \<and> c \<le> 90) \<or> (192 \<le> c \<and> c \<le> 222)" and l: "lower_char c = c + 32"
    by (auto simp: lower_char_def split: if_splits)
  have "\<not> is_space c" using up is_space_range[of c] by auto
  moreover have "\<not> is_space (c + 32)" using up is_space_range[of "c + 32"] by auto
  ultimately show ?thesis using l by simp
qed

lemma trim_toLowerCase: "trim (toLowerCase s) = toLowerCase (trim s)"
proof -
  have comp: "is_space \<circ> lower_char = is_space"
    by (rule ext) (simp add: is_space_lower_char)
  show ?thesis
    by (simp add: trim_def toLowerCase_def dropWhile_map comp rev_map)
qed

lemma strip_quote_free:
  "\<forall>c \<in> set s. \<not> is_quote c \<Longrightarrow> filter (\<lambda>c. \<not> is_quote c) s = s"
  by (induction s) auto

lemmas brand_eval = normalizeBrandName_def brandNormalization_def ustr_simps toLowerCase_def
  lower_char_def trim_def is_space_def is_quote_def Let_def

lemma canonical_brand_fixed:
  "normalizeBrandName (ustr ''Trader Joes'') = ustr ''Trader Joes''"
  by (simp add: brand_eval)

lemma normalizeBrandName_cases:
  "normalizeBrandName x = ustr ''Trader Joes''
   \<or> (find (\<lambda>(pattern, replacement). js_includes (trim (toLowerCase x)) pattern)
         brandNormalization = None
      \<and> normalizeBrandName x = trim (filter (\<lambda>c. \<not> is_quote c) x))"
proof (cases "find (\<lambda>(pattern, replacement). js_includes (trim (toLowerCase x)) pattern)
         brandNormalization")
  case None
  then show ?thesis by (simp add: normalizeBrandName_def)
next
  case (Some pr)
  then have "pr \<in> set brandNormalization"
    by (metis find_Some_iff nth_mem)
  then have "snd pr = ustr ''Trader Joes''"
    by (auto simp: brandNormalization_def)
  with Some show ?thesis
    by (cases pr) (simp add: normalizeBrandName_def)
qed

lemma normalizeBrandName_quote_free:
  assumes "\<forall>c \<in> set x. \<not> is_quote c"
  shows "normalizeBrandName (normalizeBrandName x) = normalizeBrandName x"
proof -
  from normalizeBrandName_cases[of x] show ?thesis
  proof
    assume "normalizeBrandName x = ustr ''Trader Joes''"
    then show ?thesis by (simp add: canonical_brand_fixed)
  next
    assume a: "find (\<lambda>(pattern, replacement). js_includes (trim (toLowerCase x)) pattern)
         brandNormalization = None
      \<and> normalizeBrandName x = trim (filter (\<lambda>c. \<not> is_quote c) x)"
    have y: "normalizeBrandName x = trim x"
      using a assms by (simp add: strip_quote_free)
    have nq: "\<forall>c \<in> set (trim x). \<not> is_quote c"
      using assms set_trim[of x] by blast
    have norm: "trim (toLowerCase (trim x)) = trim (toLowerCase x)"
      by (simp add: trim_toLowerCase[symmetric] trim_trim)
    have "normalizeBrandName (trim x) = trim (filter (\<lambda>c. \<not> is_quote c) (trim x))"
      using a by (simp add: normalizeBrandName_def norm)
    also have "\<dots> = trim x"
      by (simp add: strip_quote_free[OF nq] trim_trim)
    finally show ?thesis by (simp add: y)
  qed
qed

text \<open>
  Claim C6, as amended. \<^verbatim>\<open>normalizeBrandName\<close> is idempotent on every name that
  contains no quote character, and on every name a third application changes nothing:
  the result of the second application is a fixed point.
\<close>

theorem normalizeBrandName_idempotent:
  "((\<forall>c \<in> set x. \<not> is_quote c) \<longrightarrow>
      normalizeBrandName (normalizeBrandName x) = normalizeBrandName x)
   \<and> normalizeBrandName (normalizeBrandName (normalizeBrandName x)) =
       normalizeBrandName (normalizeBrandName x)"
proof -
  have first: "(\<forall>c \<in> set x. \<not> is_quote c) \<longrightarrow>
      normalizeBrandName (normalizeBrandName x) = normalizeBrandName x"
    using normalizeBrandName_quote_free by blast
  have clean: "\<forall>c \<in> set (trim (filter (\<lambda>c. \<not> is_quote c) x)). \<not> is_quote c"
  proof
    fix c assume "c \<in> set (trim (filter (\<lambda>c. \<not> is_quote c) x))"
    with set_trim[of "filter (\<lambda>c. \<not> is_quote c) x"]
    have "c \<in> set (filter (\<lambda>c. \<not> is_quote c) x)" by blast
    then show "\<not> is_quote c" by simp
  qed
  have out: "\<forall>c \<in> set (normalizeBrandName x). \<not> is_quote c"
  proof (cases "normalizeBrandName x = ustr ''Trader Joes''")
    case True
    then show ?thesis by (simp add: ustr_simps is_quote_def)
  next
    case False
    with normalizeBrandName_cases[of x]
    have "normalizeBrandName x = trim (filter (\<lambda>c. \<not> is_quote c) x)" by blast
    with clean show ?thesis by (simp only:)
  qed
  from out have "normalizeBrandName (normalizeBrandName (normalizeBrandName x)) =
       normalizeBrandName (normalizeBrandName x)"
    by (rule normalizeBrandName_quote_free)
  with first show ?thesis by blast
qed

theorem normalizeBrandName_idempotent_witness:
  "list_all (\<lambda>c. \<not> is_quote c) (ustr ''  Whole Foods Market '')
   \<and> normalizeBrandName (ustr ''  Whole Foods Market '') = ustr ''Whole Foods Market''
   \<and> normalizeBrandName (normalizeBrandName (ustr ''  Whole Foods Market '')) =
       normalizeBrandName (ustr ''  Whole Foods Market '')"
proof -
  have q: "\<forall>c \<in> set (ustr ''  Whole Foods Market ''). \<not> is_quote c"
    by (simp add: ustr_simps is_quote_def)
  have v: "normalizeBrandName (ustr ''  Whole Foods Market '') = ustr ''Whole Foods Market''"
    by (simp add: brand_eval)
  from q normalizeBrandName_idempotent[of "ustr ''  Whole Foods Market ''"]
  have "normalizeBrandName (normalizeBrandName (ustr ''  Whole Foods Market '')) =
       normalizeBrandName (ustr ''  Whole Foods Market '')"
    by blast
  with q v show ?thesis by (simp add: list_all_iff)
qed

text \<open>
  The claim as stated fails on a name with a quote inside an alias: \<^verbatim>\<open>TraderJoe's\<close>
  matches no alias and is cleaned to \<^verbatim>\<open>TraderJoes\<close>, which the second application
  maps to the canonical \<^verbatim>\<open>Trader Joes\<close>.
\<close>

theorem normalizeBrandName_not_idempotent:
  "normalizeBrandName (ustr ''TraderJoe'' @ [0x27] @ ustr ''s'') = ustr ''TraderJoes''
   \<and> normalizeBrandName (ustr ''TraderJoes'') = ustr ''Trader Joes''
   \<and> normalizeBrandName (normalizeBrandName (ustr ''TraderJoe'' @ [0x27] @ ustr ''s''))
       \<noteq> normalizeBrandName (ustr ''TraderJoe'' @ [0x27] @ ustr ''s'')"
  by (simp add: brand_eval)

section \<open>Properties of the type coding\<close>

lemma first_matching_rule_in_codes:
  "first_matching_rule type_code_rules name \<in> set type_codes"
  by (simp add: type_code_rules_def type_codes_def)

lemma description_is_string:
  assumes "str_or_missing dc" "str_or_missing d"
  shows "\<exists>s. js_or dc (js_or d (JStr [])) = JStr s"
  using assms
  by (cases dc; cases d) (auto simp: str_or_missing_def js_or_def)

lemma type_code_chain:
  assumes "\<not> nullish item"
    and "js_or (js_prop item ''descClean'') (js_or (js_prop item ''desc'') (JStr [])) = JStr s"
  shows "generateItemTypeCode item = Inr (first_matching_rule type_code_rules (toLowerCase s))"
  using assms
  by (simp add: generateItemTypeCode_def get_prop_def bind_res_simps type_code_rules_def
        Let_def)

text \<open>
  Claim C7. For every line item whose \<^verbatim>\<open>descClean\<close> and \<^verbatim>\<open>desc\<close> are each a string or
  missing (an item without any description and one with an empty description
  included), \<^verbatim>\<open>generateItemTypeCode\<close> returns a type code, never raises and never
  returns anything else: the code is that of the first rule, in the order PROD, DAIRY,
  BAKERY, MEAT, PANTRY, FEE, with a keyword in the lower-cased description, MISC when
  no rule matches, and it is one of the seven codes.
\<close>

theorem generateItemTypeCode_total:
  assumes "\<not> nullish item"
    and "str_or_missing (js_prop item ''descClean'')"
    and "str_or_missing (js_prop item ''desc'')"
  shows "generateItemTypeCode item =
           Inr (first_matching_rule type_code_rules (toLowerCase (item_description item)))
         \<and> first_matching_rule type_code_rules (toLowerCase (item_description item))
             \<in> set type_codes"
proof -
  from description_is_string[OF assms(2,3)] obtain s where
    s: "js_or (js_prop item ''descClean'') (js_or (js_prop item ''desc'') (JStr [])) = JStr s"
    by blast
  then have d: "item_description item = s"
    by (simp add: item_description_def)
  from type_code_chain[OF assms(1) s] d first_matching_rule_in_codes
  show ?thesis by simp
qed

theorem generateItemTypeCode_total_witness:
  "generateItemTypeCode
     (JObj [(''desc'', JStr (ustr ''COCONUT MILK'')), (''lineTotal'', JNum (Finite (189 / 100)))])
     = Inr ''DAIRY''
   \<and> generateItemTypeCode (JObj [(''descClean'', JStr []), (''lineTotal'', JNum (Finite 3))])
     = Inr ''MISC''
   \<and> generateItemTypeCode (JObj [(''descClean'', JStr (ustr ''Apple Milk Bread''))])
     = Inr ''PROD''"
proof -
  let ?a = "JObj [(''desc'', JStr (ustr ''COCONUT MILK'')),
                  (''lineTotal'', JNum (Finite (189 / 100)))]"
  let ?b = "JObj [(''descClean'', JStr []), (''lineTotal'', JNum (Finite 3))]"
  let ?c = "JObj [(''descClean'', JStr (ustr ''Apple Milk Bread''))]"
  have a: "generateItemTypeCode ?a = Inr ''DAIRY''"
    using generateItemTypeCode_total[of ?a]
    by (simp add: str_or_missing_def item_description_def js_or_def type_code_rules_def
          toLowerCase_def lower_char_def ustr_simps)
  have b: "generateItemTypeCode ?b = Inr ''MISC''"
    using generateItemTypeCode_total[of ?b]
    by (simp add: str_or_missing_def item_description_def js_or_def type_code_rules_def
          toLowerCase_def lower_char_def ustr_simps)
  have c: "generateItemTypeCode ?c = Inr ''PROD''"
    using generateItemTypeCode_total[of ?c]
    by (simp add: str_or_missing_def item_description_def js_or_def type_code_rules_def
          toLowerCase_def lower_char_def ustr_simps)
  from a b c show ?thesis by blast
qed

section \<open>Properties of the tax decomposition\<close>

lemma is_tax_item_summary_line: "is_tax_item (summary_line l) = Inr (tax_tagged l)"
  by (cases l)
     (auto simp: is_tax_item_def summary_line_def tax_tagged_def get_prop_def bind_res_simps)

lemma filter_tax_items_summary:
  "filter_tax_items (map summary_line summary) =
     Inr (map summary_line (filter tax_tagged summary))"
  by (induction summary) (simp_all add: is_tax_item_summary_line bind_res_simps)

lemma index_tax_list:
  "js_index (JArr (map (\<lambda>t. JNum (Finite t)) taxes)) i =
     (if i < length taxes then JNum (Finite (taxes ! i)) else JUndefined)"
  by simp

lemma index_tax_lines:
  "js_index (JArr (map summary_line ls)) i =
     (if i < length ls then summary_line (ls ! i) else JUndefined)"
  by simp

lemma lineTotal_summary_line:
  "get_prop (summary_line l) ''lineTotal'' = Inr (JNum (Finite (snd (snd l))))"
  by (cases l) (simp add: summary_line_def get_prop_def)

lemma truthy_summary_line: "truthy (summary_line l)"
  by (cases l) (simp add: summary_line_def)

lemma tax_slot_typed:
  "tax_slot (JArr (map (\<lambda>t. JNum (Finite t)) taxes))
       (map summary_line (filter tax_tagged summary)) i =
     Inr (JNum (Finite (tax_slot_value taxes (tax_line_totals summary) i)))"
  unfolding tax_slot_def index_tax_list index_tax_lines
  by (simp add: tax_slot_value_def tax_line_totals_def lineTotal_summary_line
        truthy_summary_line)

lemma parseTaxes_typed:
  "parseTaxes (tax_receipt taxes summary) =
     Inr (JObj [(''tax_1'', JNum (Finite (tax_slot_value taxes (tax_line_totals summary) 0))),
                (''tax_2'', JNum (Finite (tax_slot_value taxes (tax_line_totals summary) 1)))])"
  by (simp add: parseTaxes_def tax_receipt_def js_or_def filter_tax_items_summary
        bind_res_simps tax_slot_typed)

text \<open>
  Claim C8, as amended. For every receipt with a list of taxes and summary lines,
  \<^verbatim>\<open>parseTaxes\<close> fills exactly the two slots \<^verbatim>\<open>tax_1\<close> and \<^verbatim>\<open>tax_2\<close>. Slot \<open>i\<close> is the
  \<open>i\<close>-th entry of the tax list when that entry is there and not zero; otherwise it is
  the line total of the \<open>i\<close>-th tax-tagged summary line when there is one, and 0
  otherwise. So the slots are the first two values of the tax list, or of the
  tax-tagged lines, with 0 for a missing slot, whenever only one of the two sources is
  there. The third and later entries of the tax list are dropped, and the list
  0.22, 0.22, 0.05 gives 0.22 and 0.22.
\<close>

theorem parseTaxes_slots:
  "parseTaxes (tax_receipt taxes summary) =
     Inr (JObj [(''tax_1'', JNum (Finite (tax_slot_value taxes (tax_line_totals summary) 0))),
                (''tax_2'', JNum (Finite (tax_slot_value taxes (tax_line_totals summary) 1)))])
   \<and> ((taxes = [] \<or> tax_line_totals summary = []) \<longrightarrow>
        (tax_slot_value taxes (tax_line_totals summary) 0,
         tax_slot_value taxes (tax_line_totals summary) 1) =
        tax_slots_as_specified taxes (tax_line_totals summary))
   \<and> parseTaxes (tax_receipt (t1 # t2 # later) summary) = parseTaxes (tax_receipt [t1, t2] summary)
   \<and> parseTaxes (tax_receipt [22 / 100, 22 / 100, 5 / 100] []) =
       Inr (JObj [(''tax_1'', JNum (Finite (22 / 100))), (''tax_2'', JNum (Finite (22 / 100)))])"
proof -
  have spec: "(taxes = [] \<or> tax_line_totals summary = []) \<longrightarrow>
        (tax_slot_value taxes (tax_line_totals summary) 0,
         tax_slot_value taxes (tax_line_totals summary) 1) =
        tax_slots_as_specified taxes (tax_line_totals summary)"
    by (auto simp: tax_slot_value_def tax_slots_as_specified_def Let_def)
  have drop: "parseTaxes (tax_receipt (t1 # t2 # later) summary) =
      parseTaxes (tax_receipt [t1, t2] summary)"
    by (simp add: parseTaxes_typed tax_slot_value_def)
  have ex: "parseTaxes (tax_receipt [22 / 100, 22 / 100, 5 / 100] []) =
       Inr (JObj [(''tax_1'', JNum (Finite (22 / 100))), (''tax_2'', JNum (Finite (22 / 100)))])"
    by (simp add: parseTaxes_typed tax_slot_value_def tax_line_totals_def)
  show ?thesis
    by (intro conjI) (rule parseTaxes_typed, rule spec, rule drop, rule ex)
qed

theorem parseTaxes_slots_witness:
  "tax_line_totals [(ustr ''Tax'', ustr ''State'', 35 / 100), (ustr ''Item'', ustr ''Bag'', 1 / 10),
                    (ustr ''Fee'', ustr ''City Tax'', 1 / 4)] = [35 / 100, 1 / 4]
   \<and> parseTaxes (tax_receipt []
        [(ustr ''Tax'', ustr ''State'', 35 / 100), (ustr ''Item'', ustr ''Bag'', 1 / 10),
         (ustr ''Fee'', ustr ''City Tax'', 1 / 4)]) =
       Inr (JObj [(''tax_1'', JNum (Finite (35 / 100))), (''tax_2'', JNum (Finite (1 / 4)))])
   \<and> tax_slots_as_specified [] [35 / 100, 1 / 4] = (35 / 100, 1 / 4)"
  using parseTaxes_slots[of "[]"
          "[(ustr ''Tax'', ustr ''State'', 35 / 100), (ustr ''Item'', ustr ''Bag'', 1 / 10),
            (ustr ''Fee'', ustr ''City Tax'', 1 / 4)]"]
  by (simp add: tax_line_totals_def tax_tagged_def tax_slot_value_def
        tax_slots_as_specified_def toLowerCase_def lower_char_def ustr_simps)

text \<open>
  The claim as stated fails when both sources are there. A zero first entry of the
  tax list is replaced by the total of the first tax-tagged line, and a tax list of
  one entry leaves the second slot to the second tax-tagged line, where the
  specification takes both slots from the tax list.
\<close>

theorem parseTaxes_mixes_sources:
  "parseTaxes (tax_receipt [0, 22 / 100] [(ustr ''Tax'', ustr ''TAX'', 1 / 2)]) =
     Inr (JObj [(''tax_1'', JNum (Finite (1 / 2))), (''tax_2'', JNum (Finite (22 / 100)))])
   \<and> tax_slots_as_specified [0, 22 / 100] [1 / 2] = (0, 22 / 100)
   \<and> parseTaxes (tax_receipt [22 / 100]
        [(ustr ''Tax'', ustr ''TAX A'', 1 / 10), (ustr ''Tax'', ustr ''TAX B'', 15 / 100)]) =
     Inr (JObj [(''tax_1'', JNum (Finite (22 / 100))), (''tax_2'', JNum (Finite (15 / 100)))])
   \<and> tax_slots_as_specified [22 / 100] [1 / 10, 15 / 100] = (22 / 100, 0)"
  by (simp add: parseTaxes_typed tax_line_totals_def tax_tagged_def tax_slot_value_def
        tax_slots_as_specified_def)

section \<open>Properties of the quality scoring\<close>

lemma count_checks_counts:
  "count_checks checks (a, b) = (a + length (filter (\<lambda>c. c) checks), b + length checks)"
  by (induction checks arbitrary: a b) auto

lemma quality_checks_typed:
  "quality_checks P (enriched_result store_name normalized_name date grand_total items store_type ocr) =
     Inr [truthy store_name, truthy normalized_name, truthy date, 0 < grand_total,
          items \<noteq> [], truthy store_type]"
  by (simp add: quality_checks_def enriched_result_def get_prop_def bind_res_simps)

lemma true_checks_bound:
  "true_checks store_name normalized_name date grand_total items store_type \<le> 6"
  by (simp add: true_checks_def)

lemma completeness_doubles:
  "math_round (num_mul (num_div (Finite 0) (Finite 6)) (Finite 100)) = Finite 0"
  "math_round (num_mul (num_div (Finite 1) (Finite 6)) (Finite 100)) = Finite 17"
  "math_round (num_mul (num_div (Finite 2) (Finite 6)) (Finite 100)) = Finite 33"
  "math_round (num_mul (num_div (Finite 3) (Finite 6)) (Finite 100)) = Finite 50"
  "math_round (num_mul (num_div (Finite 4) (Finite 6)) (Finite 100)) = Finite 67"
  "math_round (num_mul (num_div (Finite 5) (Finite 6)) (Finite 100)) = Finite 83"
  "math_round (num_mul (num_div (Finite 6) (Finite 6)) (Finite 100)) = Finite 100"
  by (simp_all add: double_eval)

lemma completeness_percentages:
  "completeness_percentage 0 = 0" "completeness_percentage 1 = 17"
  "completeness_percentage 2 = 33" "completeness_percentage 3 = 50"
  "completeness_percentage 4 = 67" "completeness_percentage 5 = 83"
  "completeness_percentage 6 = 100"
  by (simp_all add: completeness_percentage_def round_def floor_rat_numeral floor_rat_one)

lemma round_completeness:
  assumes "k \<le> 6"
  shows "math_round (num_mul (num_div (Finite (of_nat k)) (Finite 6)) (Finite 100)) =
     Finite (of_int (completeness_percentage k))"
proof -
  from assms have "k = 0 \<or> k = 1 \<or> k = 2 \<or> k = 3 \<or> k = 4 \<or> k = 5 \<or> k = 6" by arith
  then show ?thesis
    by (elim disjE) (simp_all only: completeness_doubles completeness_percentages
          of_nat_0 of_nat_1 of_nat_numeral of_int_0 of_int_1 of_int_numeral)
qed

lemmas blend_eval = overall_confidence_def double_eval

text \<open>
  Claim C4. For every enriched result, \<^verbatim>\<open>calculateQualityMetrics\<close> stores as
  \<^verbatim>\<open>data_completeness\<close> the integer percentage, out of 6, of the true checks among store
  name present, normalised name present, date present, total above zero, at least one
  item and store type present, and as \<^verbatim>\<open>ai_confidence\<close> the value
  round((min(95, data_completeness + 10) + ocr_confidence * 100) / 2), computed as
  the language computes it, in doubles. A completeness of 83, which is five checks of
  six, with a confidence of 0.9 gives 92.
\<close>

theorem quality_metrics_formula:
  "calculateQualityMetrics P
     (enriched_result store_name normalized_name date grand_total items store_type ocr) =
     Inr \<lparr>data_completeness =
            Finite (of_int (completeness_percentage
              (true_checks store_name normalized_name date grand_total items store_type))),
          ai_confidence =
            overall_confidence
              (completeness_percentage
                (true_checks store_name normalized_name date grand_total items store_type))
              (Finite ocr)\<rparr>
   \<and> completeness_percentage 5 = 83
   \<and> overall_confidence 83 (to_double (9 / 10)) = Finite 92"
proof -
  let ?k = "true_checks store_name normalized_name date grand_total items store_type"
  let ?r = "enriched_result store_name normalized_name date grand_total items store_type ocr"
  have count: "count_checks [truthy store_name, truthy normalized_name, truthy date,
      0 < grand_total, items \<noteq> [], truthy store_type] (0, 0) = (?k, 6)"
    unfolding count_checks_counts by (simp add: true_checks_def)
  have q: "storable (js_prop ?r ''quality'')"
    "to_number P (js_prop (js_prop ?r ''quality'') ''ocr_confidence'') = Inr (Finite ocr)"
    by (simp_all add: enriched_result_def)
  have code: "calculateQualityMetrics P ?r =
     Inr \<lparr>data_completeness = Finite (of_int (completeness_percentage ?k)),
          ai_confidence = overall_confidence (completeness_percentage ?k) (Finite ocr)\<rparr>"
    unfolding calculateQualityMetrics_def quality_checks_typed bind_res_simps count
    using q
    by (simp add: round_completeness[OF true_checks_bound] overall_confidence_def
          bind_res_simps Let_def
          del: math_round.simps num_add.simps num_mul.simps num_div.simps math_min.simps)
  have c5: "completeness_percentage 5 = 83"
    by (rule completeness_percentages)
  have d: "to_double (9 / 10) = Finite (8106479329266893 / 9007199254740992)"
    by (simp add: double_eval)
  have o: "overall_confidence 83 (to_double (9 / 10)) = Finite 92"
    unfolding d by (simp add: blend_eval)
  show ?thesis
    by (intro conjI) (rule code, rule c5, rule o)
qed

theorem quality_metrics_formula_witness:
  "\<forall>P. calculateQualityMetrics P
          (enriched_result (JStr (ustr ''TRADER JOES'')) (JStr (ustr ''Trader Joes'')) JNull
             (9649 / 100) [milk_item] (JStr (ustr ''grocery''))
             (8106479329266893 / 9007199254740992)) =
        Inr \<lparr>data_completeness = Finite 83, ai_confidence = Finite 92\<rparr>
     \<and> to_double (9 / 10) = Finite (8106479329266893 / 9007199254740992)"
proof
  fix P
  have k: "true_checks (JStr (ustr ''TRADER JOES'')) (JStr (ustr ''Trader Joes'')) JNull
             (9649 / 100) [milk_item] (JStr (ustr ''grocery'')) = 5"
    by (simp add: true_checks_def ustr_simps)
  have d: "to_double (9 / 10) = Finite (8106479329266893 / 9007199254740992)"
    by (simp add: double_eval)
  from quality_metrics_formula[of P "JStr (ustr ''TRADER JOES'')"
            "JStr (ustr ''Trader Joes'')" JNull "9649 / 100" "[milk_item]"
            "JStr (ustr ''grocery'')" "8106479329266893 / 9007199254740992"]
  have "calculateQualityMetrics P
          (enriched_result (JStr (ustr ''TRADER JOES'')) (JStr (ustr ''Trader Joes'')) JNull
             (9649 / 100) [milk_item] (JStr (ustr ''grocery''))
             (8106479329266893 / 9007199254740992)) =
        Inr \<lparr>data_completeness = Finite 83, ai_confidence = Finite 92\<rparr>"
    unfolding k d by simp
  with d show "calculateQualityMetrics P
          (enriched_result (JStr (ustr ''TRADER JOES'')) (JStr (ustr ''Trader Joes'')) JNull
             (9649 / 100) [milk_item] (JStr (ustr ''grocery''))
             (8106479329266893 / 9007199254740992)) =
        Inr \<lparr>data_completeness = Finite 83, ai_confidence = Finite 92\<rparr>
     \<and> to_double (9 / 10) = Finite (8106479329266893 / 9007199254740992)"
    by blast
qed

text \<open>
  The blend is one of doubles. At a completeness of 83 and an OCR confidence of
  0.5799999999999998 the product with 100 is rounded to 57.999999999999986 and its sum
  with 93 to 151, so that the code stores 76, where the same formula in exact
  arithmetic gives 75.
\<close>

theorem quality_rounding_example:
  "overall_confidence 83 (Finite (2612087783874887 / 4503599627370496)) = Finite 76
   \<and> overall_confidence_exact 83 (2612087783874887 / 4503599627370496) = 75
   \<and> (\<forall>P. calculateQualityMetrics P
          (enriched_result (JStr (ustr ''TRADER JOES'')) (JStr (ustr ''Trader Joes'')) JNull
             (9649 / 100) [milk_item] (JStr (ustr ''grocery''))
             (2612087783874887 / 4503599627370496)) =
        Inr \<lparr>data_completeness = Finite 83, ai_confidence = Finite 76\<rparr>)"
proof -
  have a: "overall_confidence 83 (Finite (2612087783874887 / 4503599627370496)) = Finite 76"
    by (simp add: blend_eval)
  have b: "overall_confidence_exact 83 (2612087783874887 / 4503599627370496) = 75"
    by (simp add: overall_confidence_exact_def round_def floor_rat_numeral)
  have k: "true_checks (JStr (ustr ''TRADER JOES'')) (JStr (ustr ''Trader Joes'')) JNull
             (9649 / 100) [milk_item] (JStr (ustr ''grocery'')) = 5"
    by (simp add: true_checks_def ustr_simps)
  have q: "storable (js_prop (enriched_result (JStr (ustr ''TRADER JOES''))
             (JStr (ustr ''Trader Joes'')) JNull (9649 / 100) [milk_item]
             (JStr (ustr ''grocery'')) (2612087783874887 / 4503599627370496)) ''quality'')"
    by (simp add: enriched_result_def)
  have c: "\<forall>P. calculateQualityMetrics P
          (enriched_result (JStr (ustr ''TRADER JOES'')) (JStr (ustr ''Trader Joes'')) JNull
             (9649 / 100) [milk_item] (JStr (ustr ''grocery''))
             (2612087783874887 / 4503599627370496)) =
        Inr \<lparr>data_completeness = Finite 83, ai_confidence = Finite 76\<rparr>"
  proof
    fix P
    have n: "to_number P (js_prop (js_prop (enriched_result (JStr (ustr ''TRADER JOES''))
             (JStr (ustr ''Trader Joes'')) JNull (9649 / 100) [milk_item]
             (JStr (ustr ''grocery'')) (2612087783874887 / 4503599627370496)) ''quality'')
             ''ocr_confidence'') = Inr (Finite (2612087783874887 / 4503599627370496))"
      by (simp add: enriched_result_def)
    have count: "count_checks [True, True, False, True, True, True] (0, 0) = (5, 6)"
      by simp
    show "calculateQualityMetrics P
          (enriched_result (JStr (ustr ''TRADER JOES'')) (JStr (ustr ''Trader Joes'')) JNull
             (9649 / 100) [milk_item] (JStr (ustr ''grocery''))
             (2612087783874887 / 4503599627370496)) =
        Inr \<lparr>data_completeness = Finite 83, ai_confidence = Finite 76\<rparr>"
      unfolding calculateQualityMetrics_def quality_checks_typed bind_res_simps
      using q n a
      by (simp add: ustr_simps bind_res_simps completeness_doubles overall_confidence_def
            Let_def
            del: math_round.simps num_add.simps num_mul.simps num_div.simps math_min.simps)
  qed
  from a b c show ?thesis by blast
qed

section \<open>Properties of the response parser\<close>

subsection \<open>The confidence\<close>

lemma not_storable_primitive:
  "\<not> storable v \<Longrightarrow> to_primitive P v = Inr v \<and> convertible v"
  by (cases v) simp_all

lemma storable_string: "\<not> storable (JStr s)" "\<not> storable (JNum n)"
  by simp_all

lemma js_add_primitive:
  assumes "\<not> storable a"
  shows "js_add P a b = Inl e \<longleftrightarrow> e = TypeError \<and> \<not> convertible b"
    and "js_add P a b = Inr r \<Longrightarrow> \<not> storable r"
proof -
  from not_storable_primitive[OF assms, of P]
  have a: "to_primitive P a = Inr a" by simp
  show "js_add P a b = Inl e \<longleftrightarrow> e = TypeError \<and> \<not> convertible b"
  proof (cases "convertible b")
    case False
    with to_primitive_raises[of P b TypeError] have "to_primitive P b = Inl TypeError" by simp
    with False show ?thesis by (auto simp: js_add_def a bind_res_simps)
  next
    case True
    from to_primitive_convertible[OF True, of P] obtain pb where
      pb: "to_primitive P b = Inr pb" "convertible pb" by blast
    from to_string_convertible[OF pb(2), of P] obtain sb where sb: "to_string P pb = Inr sb"
      by blast
    from not_storable_primitive[OF assms] to_string_convertible[of a P] obtain sa where
      sa: "to_string P a = Inr sa" by blast
    from True show ?thesis
      by (simp add: js_add_def a pb sa sb bind_res_simps)
  qed
  show "js_add P a b = Inr r \<Longrightarrow> \<not> storable r"
    by (auto simp: js_add_def a bind_res_Inr split: if_splits)
qed

lemma sum_from_primitive:
  assumes "\<not> storable acc"
  shows "(sum_from P acc scores = Inl e \<longleftrightarrow>
           e = TypeError \<and> list_ex (\<lambda>score. \<not> convertible score) scores)
         \<and> (\<forall>r. sum_from P acc scores = Inr r \<longrightarrow> \<not> storable r)"
  using assms
proof (induction scores arbitrary: acc)
  case Nil
  then show ?case by auto
next
  case (Cons score rest)
  show ?case
  proof (cases "js_add P acc score")
    case (Inl e0)
    with js_add_primitive(1)[OF Cons.prems, of P score e0]
    have "e0 = TypeError" "\<not> convertible score" by auto
    with Inl show ?thesis by (auto simp: bind_res_simps)
  next
    case (Inr s)
    with js_add_primitive(1)[OF Cons.prems, of P score TypeError]
    have c: "convertible score" by auto
    from Inr js_add_primitive(2)[OF Cons.prems, of P score s] have "\<not> storable s" by simp
    from Cons.IH[OF this] Inr c show ?thesis by (simp add: bind_res_simps)
  qed
qed

lemma js_div_primitive:
  assumes "\<not> storable a"
  shows "\<exists>n. js_div P a (JNum m) = Inr (JNum n)"
  using not_storable_primitive[OF assms, of P]
  by (simp add: js_div_def to_number_def bind_res_simps)

lemma mean_of_raises:
  "mean_of P scores = Inl e \<longleftrightarrow>
     e = TypeError \<and> list_ex (\<lambda>score. \<not> convertible score) scores"
proof (cases "sum_from P (JNum (Finite 0)) scores")
  case (Inl e0)
  with sum_from_primitive[of "JNum (Finite 0)" P scores e0] show ?thesis
    by (auto simp: mean_of_def bind_res_simps)
next
  case (Inr s)
  with sum_from_primitive[of "JNum (Finite 0)" P scores TypeError]
  have c: "\<not> list_ex (\<lambda>score. \<not> convertible score) scores" and s: "\<not> storable s" by auto
  from js_div_primitive[OF s, of P "Finite (of_nat (length scores))"] Inr c
  show ?thesis by (auto simp: mean_of_def bind_res_simps)
qed

lemma mean_of_returns:
  assumes "list_all convertible scores"
  shows "\<exists>c. mean_of P scores = Inr c"
proof (cases "mean_of P scores")
  case (Inl e)
  with mean_of_raises[of P scores e] assms show ?thesis
    by (auto simp: list_ex_iff list_all_iff)
qed blast

lemma parse_confidence_raises:
  "parse_confidence P receipt = Inl e \<longleftrightarrow>
     e = TypeError \<and> list_ex (\<lambda>score. \<not> convertible score) (confidence_scores receipt)"
proof -
  let ?kept = "filter (\<lambda>score. score \<noteq> JUndefined) (confidence_scores receipt)"
  have same: "list_ex (\<lambda>score. \<not> convertible score) ?kept =
      list_ex (\<lambda>score. \<not> convertible score) (confidence_scores receipt)"
    by (auto simp: list_ex_iff)
  show ?thesis
  proof (cases "?kept = []")
    case True
    with same show ?thesis by (simp add: parse_confidence_def Let_def)
  next
    case False
    with same mean_of_raises[of P ?kept e] show ?thesis
      by (simp add: parse_confidence_def Let_def)
  qed
qed

subsection \<open>The line items\<close>

lemma filter_line_items_eq:
  "filter_line_items xs =
     (if list_ex nullish xs then Inl TypeError else Inr (filter kept_item xs))"
  by (induction xs) (simp_all add: bind_res_simps)

lemma parseFloat_raises:
  "parseFloat P v = Inl e \<longleftrightarrow> e = TypeError \<and> \<not> convertible v"
  by (simp add: parseFloat_def bind_returns to_string_raises)

lemma parse_line_item_raises:
  "parse_line_item P item = Inl e \<longleftrightarrow> e = TypeError \<and> item_parse_raises item"
proof -
  have "parse_line_item P item = Inl e \<longleftrightarrow>
      e = TypeError \<and> (\<not> convertible (js_prop item ''qty'')
        \<or> (unusable (js_prop item ''price'') \<or> unusable (js_prop item ''lineTotal'')))"
    unfolding parse_line_item_def
  proof (rule bind_raises)
    show "\<And>e. parseFloat P (js_prop item ''qty'') = Inl e \<longleftrightarrow>
        e = TypeError \<and> \<not> convertible (js_prop item ''qty'')"
      by (rule parseFloat_raises)
  next
    fix qty e
    show "bind_res (parseAmount P (js_prop item ''price'')) (\<lambda>unitPrice.
            bind_res (parseAmount P (js_prop item ''lineTotal'')) (\<lambda>totalPrice.
              Inr (JObj [
                (''name'', js_or (js_prop item ''descClean'')
                             (js_or (js_prop item ''desc'') (JStr (ustr ''Unknown Item'')))),
                (''quantity'', js_or (JNum qty) (JNum (Finite 1))),
                (''unitPrice'', js_or unitPrice JNull),
                (''totalPrice'', js_or totalPrice (JNum (Finite 0))),
                (''category'', JNull),
                (''confidence'', JNum (Finite 1))]))) = Inl e \<longleftrightarrow>
          e = TypeError \<and> (unusable (js_prop item ''price'')
            \<or> unusable (js_prop item ''lineTotal''))"
    proof (rule bind_raises)
      show "\<And>e. parseAmount P (js_prop item ''price'') = Inl e \<longleftrightarrow>
          e = TypeError \<and> unusable (js_prop item ''price'')"
        by (rule parseAmount_raises)
    next
      fix unitPrice e
      show "bind_res (parseAmount P (js_prop item ''lineTotal'')) (\<lambda>totalPrice.
              Inr (JObj [
                (''name'', js_or (js_prop item ''descClean'')
                             (js_or (js_prop item ''desc'') (JStr (ustr ''Unknown Item'')))),
                (''quantity'', js_or (JNum qty) (JNum (Finite 1))),
                (''unitPrice'', js_or unitPrice JNull),
                (''totalPrice'', js_or totalPrice (JNum (Finite 0))),
                (''category'', JNull),
                (''confidence'', JNum (Finite 1))])) = Inl e \<longleftrightarrow>
          e = TypeError \<and> unusable (js_prop item ''lineTotal'')"
        by (simp add: bind_returns parseAmount_raises)
    qed
  qed
  then show ?thesis by (simp add: item_parse_raises_def)
qed

lemma amount_or_zero:
  assumes "parseAmount P x = Inr a"
  shows "\<exists>n. js_or a (JNum (Finite 0)) = JNum n"
proof (cases "truthy x")
  case False
  with assms show ?thesis by (auto simp: parseAmount_def js_or_def)
next
  case True
  with assms show ?thesis
    by (auto simp: parseAmount_def bind_res_Inr js_or_def Let_def split: if_splits)
qed

lemma parse_line_item_shape:
  assumes "parse_line_item P item = Inr parsed"
  shows "\<exists>q u t. parsed = JObj [
      (''name'', js_or (js_prop item ''descClean'')
                   (js_or (js_prop item ''desc'') (JStr (ustr ''Unknown Item'')))),
      (''quantity'', JNum q), (''unitPrice'', u), (''totalPrice'', JNum t),
      (''category'', JNull), (''confidence'', JNum (Finite 1))]"
proof -
  from assms obtain qty unitPrice totalPrice where
    a: "parseAmount P (js_prop item ''lineTotal'') = Inr totalPrice"
    and p: "parsed = JObj [
      (''name'', js_or (js_prop item ''descClean'')
                   (js_or (js_prop item ''desc'') (JStr (ustr ''Unknown Item'')))),
      (''quantity'', js_or (JNum qty) (JNum (Finite 1))),
      (''unitPrice'', js_or unitPrice JNull),
      (''totalPrice'', js_or totalPrice (JNum (Finite 0))),
      (''category'', JNull), (''confidence'', JNum (Finite 1))]"
    by (auto simp: parse_line_item_def bind_res_Inr)
  from amount_or_zero[OF a] obtain t where t: "js_or totalPrice (JNum (Finite 0)) = JNum t"
    by blast
  have "\<exists>q. js_or (JNum qty) (JNum (Finite 1)) = JNum q"
    by (simp add: js_or_def)
  with p t show ?thesis by auto
qed

lemma money_line_number: "\<exists>t. money_line P label (JNum n) = Inr t"
  by (simp add: money_line_def js_toFixed2_def bind_res_simps)

lemma item_line_shape:
  "item_line P (JObj [(''name'', name), (''quantity'', JNum q), (''unitPrice'', u),
       (''totalPrice'', JNum t), (''category'', JNull), (''confidence'', JNum (Finite 1))])
     = Inl e \<longleftrightarrow> e = TypeError \<and> \<not> convertible name"
proof (cases "convertible name")
  case False
  from to_string_not_convertible[OF False, of P] False show ?thesis
    by (auto simp: item_line_def get_prop_def bind_res_simps num_to_string.simps)
next
  case True
  from to_string_convertible[OF True, of P] obtain s where "to_string P name = Inr s" by blast
  with True show ?thesis
    by (auto simp: item_line_def get_prop_def bind_res_simps js_toFixed2_def)
qed

lemma parse_line_items_raises:
  "parse_line_items P kept = Inl e \<longleftrightarrow> e = TypeError \<and> list_ex item_parse_raises kept"
proof (induction kept arbitrary: e)
  case Nil
  then show ?case by simp
next
  case (Cons item kept)
  have "parse_line_items P (item # kept) = Inl e \<longleftrightarrow>
      e = TypeError \<and> (item_parse_raises item \<or> list_ex item_parse_raises kept)"
    unfolding parse_line_items.simps
  proof (rule bind_raises)
    show "\<And>e. parse_line_item P item = Inl e \<longleftrightarrow> e = TypeError \<and> item_parse_raises item"
      by (rule parse_line_item_raises)
  next
    fix parsed e
    show "bind_res (parse_line_items P kept) (\<lambda>others. Inr (parsed # others)) = Inl e \<longleftrightarrow>
        e = TypeError \<and> list_ex item_parse_raises kept"
      by (simp add: bind_returns Cons.IH)
  qed
  then show ?case by simp
qed

lemma parse_line_items_text:
  assumes "parse_line_items P kept = Inr parsed"
  shows "item_lines P parsed = Inl e \<longleftrightarrow> e = TypeError \<and> list_ex item_text_raises kept"
  using assms
proof (induction kept arbitrary: parsed e)
  case Nil
  then show ?case by simp
next
  case (Cons item kept)
  from Cons.prems obtain p ps where
    p: "parse_line_item P item = Inr p" and ps: "parse_line_items P kept = Inr ps"
    and parsed: "parsed = p # ps"
    by (auto simp: bind_res_Inr)
  from parse_line_item_shape[OF p] obtain q u t where
    shape: "p = JObj [
      (''name'', js_or (js_prop item ''descClean'')
                   (js_or (js_prop item ''desc'') (JStr (ustr ''Unknown Item'')))),
      (''quantity'', JNum q), (''unitPrice'', u), (''totalPrice'', JNum t),
      (''category'', JNull), (''confidence'', JNum (Finite 1))]"
    by blast
  have "item_lines P (p # ps) = Inl e \<longleftrightarrow>
      e = TypeError \<and> (item_text_raises item \<or> list_ex item_text_raises kept)"
    unfolding item_lines.simps
  proof (rule bind_raises)
    show "\<And>e. item_line P p = Inl e \<longleftrightarrow> e = TypeError \<and> item_text_raises item"
      unfolding shape item_line_shape by (simp add: item_text_raises_def)
  next
    fix l e
    show "bind_res (item_lines P ps) (\<lambda>ls. Inr (l @ ls)) = Inl e \<longleftrightarrow>
        e = TypeError \<and> list_ex item_text_raises kept"
      by (simp add: bind_returns Cons.IH[OF ps])
  qed
  with parsed show ?case by simp
qed

lemma parse_items_raises:
  "parse_items P v = Inl e \<longleftrightarrow>
     e = TypeError \<and> (case v of
        JArr xs \<Rightarrow> list_ex nullish xs \<or> list_ex item_parse_raises (filter kept_item xs)
      | _ \<Rightarrow> False)"
proof (cases v)
  case (JArr xs)
  show ?thesis
  proof (cases "list_ex nullish xs")
    case True
    with JArr show ?thesis
      by (auto simp: parse_items_def filter_line_items_eq bind_res_simps)
  next
    case False
    with JArr show ?thesis
      by (simp add: parse_items_def filter_line_items_eq bind_res_simps bind_returns
            parse_line_items_raises)
  qed
qed (simp_all add: parse_items_def)

lemma parse_items_returns:
  assumes "parse_items P v = Inr items"
  shows "\<exists>ps. items = JArr ps \<and>
     (\<forall>e. item_lines P ps = Inl e \<longleftrightarrow>
        e = TypeError \<and> (case v of
           JArr xs \<Rightarrow> list_ex item_text_raises (filter kept_item xs)
         | _ \<Rightarrow> False))"
proof (cases v)
  case (JArr xs)
  with assms obtain ps where
    ps: "parse_line_items P (filter kept_item xs) = Inr ps" and items: "items = JArr ps"
    by (auto simp: parse_items_def filter_line_items_eq bind_res_Inr split: if_splits)
  from parse_line_items_text[OF ps] items JArr show ?thesis by simp
qed (use assms in \<open>auto simp: parse_items_def\<close>)

subsection \<open>The raw text\<close>

lemma labelled_raises:
  "labelled P label v = Inl e \<longleftrightarrow> e = TypeError \<and> unusable v"
  by (auto simp: labelled_def unusable_def bind_returns to_string_raises)

lemma unusable_or_null: "unusable (js_or v JNull) = unusable v"
  by (simp add: unusable_def js_or_def)

lemma items_text_array: "items_text P (JArr ps) = item_lines P ps"
  by (cases ps) (simp_all add: items_text_def bind_res_simps)

lemma money_lines_return:
  "bind_res (money_line P l1 (JNum n1)) (\<lambda>sub.
   bind_res (money_line P l2 (JNum n2)) (\<lambda>tax.
   bind_res (money_line P l3 (JNum n3)) (\<lambda>amount. Inr (g sub tax amount)))) = Inl e
   \<longleftrightarrow> e = TypeError \<and> False"
proof -
  from money_line_number[of P l1 n1] obtain a where a: "money_line P l1 (JNum n1) = Inr a"
    by blast
  from money_line_number[of P l2 n2] obtain b where b: "money_line P l2 (JNum n2) = Inr b"
    by blast
  from money_line_number[of P l3 n3] obtain c where c: "money_line P l3 (JNum n3) = Inr c"
    by blast
  show ?thesis by (simp add: a b c bind_res_simps)
qed

lemma raw_text_raises:
  assumes "\<And>e. item_lines P ps = Inl e \<longleftrightarrow> e = TypeError \<and> names"
  shows "generateRawTextSummary P (JObj [
       (''merchant'', m), (''address'', a), (''phone'', ph), (''date'', d), (''time'', ti),
       (''total'', JNum n1), (''tax'', JNum n2), (''subtotal'', JNum n3),
       (''items'', JArr ps)]) = Inl e \<longleftrightarrow>
     e = TypeError \<and> (unusable m \<or> unusable a \<or> unusable ph \<or> unusable d \<or> names)"
proof -
  let ?r = "JObj [
       (''merchant'', m), (''address'', a), (''phone'', ph), (''date'', d), (''time'', ti),
       (''total'', JNum n1), (''tax'', JNum n2), (''subtotal'', JNum n3),
       (''items'', JArr ps)]"
  have props: "get_prop ?r ''merchant'' = Inr m" "js_prop ?r ''address'' = a"
    "js_prop ?r ''phone'' = ph" "js_prop ?r ''date'' = d" "js_prop ?r ''items'' = JArr ps"
    "js_prop ?r ''subtotal'' = JNum n3" "js_prop ?r ''tax'' = JNum n2"
    "js_prop ?r ''total'' = JNum n1"
    by (simp_all add: get_prop_def)
  have "generateRawTextSummary P ?r = Inl e \<longleftrightarrow>
     e = TypeError \<and> (unusable m \<or> (unusable a \<or> (unusable ph \<or> (unusable d
        \<or> (names \<or> False)))))"
    unfolding generateRawTextSummary_def props bind_res_simps items_text_array
  proof (rule bind_raises)
    show "\<And>e. labelled P [] m = Inl e \<longleftrightarrow> e = TypeError \<and> unusable m"
      by (rule labelled_raises)
  next
    fix l1 e
    show "bind_res (labelled P [] a) (\<lambda>l2.
          bind_res (labelled P ''Phone: '' ph) (\<lambda>l3.
          bind_res (labelled P ''Date: '' d) (\<lambda>l4.
          bind_res (item_lines P ps) (\<lambda>body.
          bind_res (money_line P ''Subtotal'' (JNum n3)) (\<lambda>sub.
          bind_res (money_line P ''Tax'' (JNum n2)) (\<lambda>tax.
          bind_res (money_line P ''Total'' (JNum n1)) (\<lambda>amount.
            Inr (l1 @ l2 @ l3 @ newline @ l4 @ newline @ body @ newline @ sub @ tax
                   @ amount)))))))) = Inl e \<longleftrightarrow>
        e = TypeError \<and> (unusable a \<or> (unusable ph \<or> (unusable d \<or> (names \<or> False))))"
    proof (rule bind_raises)
      show "\<And>e. labelled P [] a = Inl e \<longleftrightarrow> e = TypeError \<and> unusable a"
        by (rule labelled_raises)
    next
      fix l2 e
      show "bind_res (labelled P ''Phone: '' ph) (\<lambda>l3.
          bind_res (labelled P ''Date: '' d) (\<lambda>l4.
          bind_res (item_lines P ps) (\<lambda>body.
          bind_res (money_line P ''Subtotal'' (JNum n3)) (\<lambda>sub.
          bind_res (money_line P ''Tax'' (JNum n2)) (\<lambda>tax.
          bind_res (money_line P ''Total'' (JNum n1)) (\<lambda>amount.
            Inr (l1 @ l2 @ l3 @ newline @ l4 @ newline @ body @ newline @ sub @ tax
                   @ amount))))))) = Inl e \<longleftrightarrow>
        e = TypeError \<and> (unusable ph \<or> (unusable d \<or> (names \<or> False)))"
      proof (rule bind_raises)
        show "\<And>e. labelled P ''Phone: '' ph = Inl e \<longleftrightarrow> e = TypeError \<and> unusable ph"
          by (rule labelled_raises)
      next
        fix l3 e
        show "bind_res (labelled P ''Date: '' d) (\<lambda>l4.
          bind_res (item_lines P ps) (\<lambda>body.
          bind_res (money_line P ''Subtotal'' (JNum n3)) (\<lambda>sub.
          bind_res (money_line P ''Tax'' (JNum n2)) (\<lambda>tax.
          bind_res (money_line P ''Total'' (JNum n1)) (\<lambda>amount.
            Inr (l1 @ l2 @ l3 @ newline @ l4 @ newline @ body @ newline @ sub @ tax
                   @ amount)))))) = Inl e \<longleftrightarrow>
          e = TypeError \<and> (unusable d \<or> (names \<or> False))"
        proof (rule bind_raises)
          show "\<And>e. labelled P ''Date: '' d = Inl e \<longleftrightarrow> e = TypeError \<and> unusable d"
            by (rule labelled_raises)
        next
          fix l4 e
          show "bind_res (item_lines P ps) (\<lambda>body.
            bind_res (money_line P ''Subtotal'' (JNum n3)) (\<lambda>sub.
            bind_res (money_line P ''Tax'' (JNum n2)) (\<lambda>tax.
            bind_res (money_line P ''Total'' (JNum n1)) (\<lambda>amount.
              Inr (l1 @ l2 @ l3 @ newline @ l4 @ newline @ body @ newline @ sub @ tax
                     @ amount))))) = Inl e \<longleftrightarrow>
            e = TypeError \<and> (names \<or> False)"
          proof (rule bind_raises)
            show "\<And>e. item_lines P ps = Inl e \<longleftrightarrow> e = TypeError \<and> names"
              by (rule assms)
          next
            fix body e
            show "bind_res (money_line P ''Subtotal'' (JNum n3)) (\<lambda>sub.
              bind_res (money_line P ''Tax'' (JNum n2)) (\<lambda>tax.
              bind_res (money_line P ''Total'' (JNum n1)) (\<lambda>amount.
                Inr (l1 @ l2 @ l3 @ newline @ l4 @ newline @ body @ newline @ sub @ tax
                       @ amount)))) = Inl e \<longleftrightarrow>
              e = TypeError \<and> False"
              by (rule money_lines_return)
          qed
        qed
      qed
    qed
  qed
  then show ?thesis by simp
qed

subsection \<open>The date\<close>

lemma parse_date_time_raises:
  "parse_date_time receipt = Inl e \<longleftrightarrow>
     e = TypeError \<and> (truthy (js_prop receipt ''dateISO'')
       \<and> \<not> is_string (js_prop receipt ''dateISO''))"
  by (cases "js_prop receipt ''dateISO''") (auto simp: parse_date_time_def Let_def)

lemma parse_date_time_returns:
  assumes "parse_date_time receipt = Inr (da, ti)"
  shows "unusable da \<longleftrightarrow>
     \<not> truthy (js_prop receipt ''dateISO'') \<and> unusable (js_prop receipt ''date'')"
proof (cases "truthy (js_prop receipt ''dateISO'')")
  case False
  with assms show ?thesis by (auto simp: parse_date_time_def Let_def)
next
  case True
  with assms obtain s where "js_prop receipt ''dateISO'' = JStr s"
    by (cases "js_prop receipt ''dateISO''") (auto simp: parse_date_time_def Let_def)
  with assms True have "da = JStr (hd (split_on 0x54 s)) \<or> da = JUndefined"
    by (auto simp: parse_date_time_def Let_def hd_conv_nth split: if_splits)
  with True show ?thesis by (auto simp: unusable_def)
qed

subsection \<open>The parser\<close>

lemma parse_result_raises:
  assumes "\<not> nullish d" "truthy (js_prop d ''result'')"
  shows "parse_result P d = Inl e \<longleftrightarrow> e = TypeError \<and> parse_raises (js_prop d ''result'')"
proof -
  let ?res = "js_prop d ''result''"
  let ?names = "case js_prop ?res ''lineItems'' of
      JArr xs \<Rightarrow> list_ex item_text_raises (filter kept_item xs) | _ \<Rightarrow> False"
  let ?text = "unusable (js_prop ?res ''establishment'') \<or> unusable (js_prop ?res ''address'')
      \<or> unusable (js_prop ?res ''phoneNumber'')
      \<or> (\<not> truthy (js_prop ?res ''dateISO'') \<and> unusable (js_prop ?res ''date''))
      \<or> ?names"
  have "parse_result P d = Inl e \<longleftrightarrow>
      e = TypeError \<and>
        ((truthy (js_prop ?res ''dateISO'') \<and> \<not> is_string (js_prop ?res ''dateISO''))
         \<or> (unusable (js_prop ?res ''total'')
         \<or> (unusable (js_prop ?res ''tax'')
         \<or> (unusable (js_prop ?res ''subTotal'')
         \<or> ((case js_prop ?res ''lineItems'' of
                JArr xs \<Rightarrow> list_ex nullish xs
                  \<or> list_ex item_parse_raises (filter kept_item xs)
              | _ \<Rightarrow> False)
         \<or> (list_ex (\<lambda>score. \<not> convertible score) (confidence_scores ?res)
         \<or> ?text))))))"
    using assms unfolding parse_result_def get_prop_def
    apply (simp only: if_False if_True bind_res_simps)
  proof (rule bind_raises, goal_cases)
    case (1 e)
    show ?case by (rule parse_date_time_raises)
  next
    case (2 x e)
    obtain da ti where x: "x = (da, ti)" by (cases x)
    with 2 have dt: "parse_date_time ?res = Inr (da, ti)" by simp
    show ?case unfolding x prod.case
    proof (rule bind_raises, goal_cases)
      case (1 e)
      show ?case by (rule parseAmount_raises)
    next
      case (2 a1 e)
      from amount_or_zero[OF 2] obtain n1 where
        n1: "js_or a1 (JNum (Finite 0)) = JNum n1" by blast
      show ?case
      proof (rule bind_raises, goal_cases)
        case (1 e)
        show ?case by (rule parseAmount_raises)
      next
        case (2 a2 e)
        from amount_or_zero[OF 2] obtain n2 where
          n2: "js_or a2 (JNum (Finite 0)) = JNum n2" by blast
        show ?case
        proof (rule bind_raises, goal_cases)
          case (1 e)
          show ?case by (rule parseAmount_raises)
        next
          case (2 a3 e)
          from amount_or_zero[OF 2] obtain n3 where
            n3: "js_or a3 (JNum (Finite 0)) = JNum n3" by blast
          show ?case
          proof (rule bind_raises, goal_cases)
            case (1 e)
            show ?case by (rule parse_items_raises)
          next
            case (2 items e)
            from parse_items_returns[OF 2] obtain ps where
              items: "items = JArr ps"
              and names: "\<And>e. item_lines P ps = Inl e \<longleftrightarrow> e = TypeError \<and> ?names"
              by blast
            show ?case
            proof (rule bind_raises, goal_cases)
              case (1 e)
              show ?case by (rule parse_confidence_raises)
            next
              case (2 c e)
              show ?case
                unfolding Let_def bind_returns n1 n2 n3 items
                  raw_text_raises[of P ps ?names, OF names] unusable_or_null
                  parse_date_time_returns[OF dt]
                by simp
            qed
          qed
        qed
      qed
    qed
  qed
  then show ?thesis
    by (cases "js_prop ?res ''lineItems''")
       (auto simp: parse_raises_def item_raises_def list_ex_iff)
qed

lemma parse_result_shape:
  assumes "parse_result P d = Inr r" "truthy (js_prop d ''result'')"
  shows "\<exists>c t p. r = JObj [(''success'', JBool True), (''confidence'', c),
           (''rawText'', JStr t), (''receipt'', p), (''rawData'', d)]"
  using assms
  by (auto simp: parse_result_def get_prop_def bind_res_Inr Let_def split: if_splits)

lemma parse_absent:
  assumes "nullish d \<or> \<not> truthy (js_prop d ''result'')"
  shows "js_prop (parseTabScannerResponse P d) ''success'' = JBool False"
  using assms
  by (auto simp: parseTabScannerResponse_def parse_result_def get_prop_def bind_res_simps
        parse_failure_def)

lemma parse_raising:
  assumes "\<not> nullish d" "truthy (js_prop d ''result'')" "parse_raises (js_prop d ''result'')"
  shows "parseTabScannerResponse P d = parse_failure d"
  using parse_result_raises[OF assms(1,2), of P TypeError] assms(3)
  by (simp add: parseTabScannerResponse_def)

lemma parse_success_flag:
  "js_prop (parseTabScannerResponse P d) ''success'' =
     JBool (\<not> nullish d \<and> truthy (js_prop d ''result'') \<and> \<not> parse_raises (js_prop d ''result''))"
proof (cases "nullish d \<or> \<not> truthy (js_prop d ''result'')")
  case True
  then show ?thesis using parse_absent[of d P] by auto
next
  case False
  then have d: "\<not> nullish d" "truthy (js_prop d ''result'')" by auto
  show ?thesis
  proof (cases "parse_result P d")
    case (Inl e)
    with parse_result_raises[OF d, of P e] have "parse_raises (js_prop d ''result'')" by simp
    with Inl d show ?thesis
      by (simp add: parseTabScannerResponse_def parse_failure_def)
  next
    case (Inr r)
    with parse_result_raises[OF d, of P TypeError]
    have n: "\<not> parse_raises (js_prop d ''result'')" by simp
    from parse_result_shape[OF Inr d(2)] Inr d n show ?thesis
      by (auto simp: parseTabScannerResponse_def)
  qed
qed

lemma parse_keeps_payload:
  "\<not> nullish (parseTabScannerResponse P d)
   \<and> js_prop (parseTabScannerResponse P d) ''rawData'' = d"
proof (cases "parse_result P d")
  case (Inl e)
  then show ?thesis by (simp add: parseTabScannerResponse_def parse_failure_def)
next
  case (Inr r)
  show ?thesis
  proof (cases "truthy (js_prop d ''result'')")
    case True
    from parse_result_shape[OF Inr True] Inr show ?thesis
      by (auto simp: parseTabScannerResponse_def)
  next
    case False
    with Inr show ?thesis
      by (auto simp: parseTabScannerResponse_def parse_result_def get_prop_def
            bind_res_simps split: if_splits)
  qed
qed

lemmas parse_eval = parseTabScannerResponse_def parse_result_def parse_failure_def
  parse_date_time_def parse_items_def parse_confidence_def confidence_scores_def
  default_confidence_def generateRawTextSummary_def money_line_def labelled_def
  items_text_def newline_def get_prop_def bind_res_simps js_or_def parseAmount_def Let_def

text \<open>
  Claim C2, as amended. For every payload, \<^verbatim>\<open>parseTabScannerResponse\<close> returns
  \<^verbatim>\<open>success = false\<close> exactly when the payload is \<^verbatim>\<open>null\<close> or \<^verbatim>\<open>undefined\<close>, or its
  \<^verbatim>\<open>result\<close> is absent or otherwise falsy, or the present result makes the body raise:
  on a truthy \<^verbatim>\<open>dateISO\<close> that is not a string, on a \<^verbatim>\<open>null\<close> entry of the \<^verbatim>\<open>lineItems\<close>
  array, and on a value that cannot be converted to a string or a number (an object
  with an own \<^verbatim>\<open>toString\<close> property, or an array that holds one) in a field that the
  parser converts. For the empty result object it returns \<^verbatim>\<open>success = true\<close> with
  merchant, address, phone and time \<^verbatim>\<open>null\<close>, total, tax and subtotal 0, no items, the
  confidence 0.9 and a raw text of three line breaks.
\<close>

theorem parse_success_exactly:
  "js_prop (parseTabScannerResponse P d) ''success'' =
     JBool (\<not> nullish d \<and> truthy (js_prop d ''result'') \<and> \<not> parse_raises (js_prop d ''result''))
   \<and> js_prop (parseTabScannerResponse P (JObj [(''result'', JObj [])])) ''success'' = JBool True
   \<and> js_prop (parseTabScannerResponse P (JObj [(''result'', JObj [])])) ''confidence'' =
       JNum (to_double (9 / 10))
   \<and> js_prop (parseTabScannerResponse P (JObj [(''result'', JObj [])])) ''rawText'' =
       JStr [0xA, 0xA, 0xA]
   \<and> map (js_prop (js_prop (parseTabScannerResponse P (JObj [(''result'', JObj [])]))
              ''receipt''))
        [''merchant'', ''address'', ''phone'', ''time'', ''total'', ''tax'', ''subtotal'',
         ''items''] =
       [JNull, JNull, JNull, JNull, JNum (Finite 0), JNum (Finite 0), JNum (Finite 0), JArr []]"
proof -
  have flag: "js_prop (parseTabScannerResponse P d) ''success'' =
     JBool (\<not> nullish d \<and> truthy (js_prop d ''result'') \<and> \<not> parse_raises (js_prop d ''result''))"
    by (rule parse_success_flag)
  have empty: "parseTabScannerResponse P (JObj [(''result'', JObj [])]) =
       JObj [(''success'', JBool True),
             (''confidence'', JNum (to_double (9 / 10))),
             (''rawText'', JStr [0xA, 0xA, 0xA]),
             (''receipt'',
                JObj [(''merchant'', JNull), (''address'', JNull), (''phone'', JNull),
                      (''date'', JUndefined), (''time'', JNull),
                      (''total'', JNum (Finite 0)), (''tax'', JNum (Finite 0)),
                      (''subtotal'', JNum (Finite 0)), (''items'', JArr [])]),
             (''rawData'', JObj [(''result'', JObj [])])]"
    by (simp add: parse_eval)
  show ?thesis
    unfolding empty using flag by simp
qed

theorem parse_success_exactly_witness:
  "\<forall>P. js_prop (parseTabScannerResponse P
          (JObj [(''result'',
             JObj [(''establishment'', JStr (ustr ''Trader Joes'')),
                   (''total'', JStr (ustr ''96.49'')),
                   (''dateISO'', JStr (ustr ''2025-08-21T10:15:00'')),
                   (''lineItems'',
                      JArr [JObj [(''descClean'', JStr (ustr ''COCONUT MILK'')),
                                  (''lineTotal'', JStr (ustr ''1.89''))]])])]))
        ''success'' = JBool True
     \<and> js_prop (parseTabScannerResponse P (JObj [(''error'', JStr (ustr ''Some error''))]))
        ''success'' = JBool False
     \<and> js_prop (parseTabScannerResponse P
          (JObj [(''result'', JObj [(''total'', JObj [(''toString'', JNum (Finite 1))])])]))
        ''success'' = JBool False"
proof
  fix P
  show "js_prop (parseTabScannerResponse P
          (JObj [(''result'',
             JObj [(''establishment'', JStr (ustr ''Trader Joes'')),
                   (''total'', JStr (ustr ''96.49'')),
                   (''dateISO'', JStr (ustr ''2025-08-21T10:15:00'')),
                   (''lineItems'',
                      JArr [JObj [(''descClean'', JStr (ustr ''COCONUT MILK'')),
                                  (''lineTotal'', JStr (ustr ''1.89''))]])])]))
        ''success'' = JBool True
     \<and> js_prop (parseTabScannerResponse P (JObj [(''error'', JStr (ustr ''Some error''))]))
        ''success'' = JBool False
     \<and> js_prop (parseTabScannerResponse P
          (JObj [(''result'', JObj [(''total'', JObj [(''toString'', JNum (Finite 1))])])]))
        ''success'' = JBool False"
    using parse_success_exactly[of P "JObj [(''result'',
             JObj [(''establishment'', JStr (ustr ''Trader Joes'')),
                   (''total'', JStr (ustr ''96.49'')),
                   (''dateISO'', JStr (ustr ''2025-08-21T10:15:00'')),
                   (''lineItems'',
                      JArr [JObj [(''descClean'', JStr (ustr ''COCONUT MILK'')),
                                  (''lineTotal'', JStr (ustr ''1.89''))]])])]"]
          parse_success_exactly[of P "JObj [(''error'', JStr (ustr ''Some error''))]"]
          parse_success_exactly[of P
            "JObj [(''result'', JObj [(''total'', JObj [(''toString'', JNum (Finite 1))])])]"]
    by (simp add: parse_raises_def unusable_def confidence_scores_def kept_item_def
          item_raises_def item_parse_raises_def item_text_raises_def js_or_def ustr_simps)
qed

text \<open>
  The claim as stated fails twice. The receipt of an empty result object has the
  total 0, not \<^verbatim>\<open>null\<close>; and a payload whose result is present, with a number for
  \<^verbatim>\<open>dateISO\<close>, is answered with \<^verbatim>\<open>success = false\<close>.
\<close>

theorem parse_present_result_not_as_claimed:
  "\<forall>P. js_prop (js_prop (parseTabScannerResponse P (JObj [(''result'', JObj [])])) ''receipt'')
          ''total'' = JNum (Finite 0)
     \<and> truthy (js_prop (JObj [(''result'', JObj [(''dateISO'', JNum (Finite 20250821))])])
          ''result'')
     \<and> js_prop (parseTabScannerResponse P
          (JObj [(''result'', JObj [(''dateISO'', JNum (Finite 20250821))])])) ''success''
        = JBool False"
  by (simp add: parse_eval)

section \<open>Properties of the field mapper\<close>

lemma string_or_empty:
  assumes "string_or_falsy v"
  shows "\<exists>s. js_or v (JStr []) = JStr s"
  using assms by (cases v) (auto simp: string_or_falsy_def js_or_def)

lemma parseAddress_returns:
  assumes "string_or_falsy (js_prop result ''address'')"
  shows "\<exists>a. parseAddress result = Inr a"
proof -
  from string_or_empty[OF assms] obtain s where
    s: "js_or (js_prop result ''address'') (JStr []) = JStr s" by blast
  show ?thesis
    by (simp add: parseAddress_def s extractStreetNumber_def extractStreetName_def
          extractZipCode_def bind_res_simps Let_def)
qed

lemma tax_slot_returns: "\<exists>v. tax_slot taxes taxItems i = Inr v"
proof (cases "truthy (js_index (JArr taxItems) i)")
  case True
  then have "\<not> nullish (js_index (JArr taxItems) i)"
    by (cases "js_index (JArr taxItems) i") auto
  then show ?thesis by (simp add: tax_slot_def get_prop_def)
next
  case False
  then show ?thesis by (simp add: tax_slot_def)
qed

lemma is_tax_item_returns:
  assumes "described_summary_item item"
  shows "\<exists>b. is_tax_item item = Inr b"
proof (cases "js_prop item ''lineType'' = JStr (ustr ''Tax'')")
  case True
  with assms show ?thesis
    by (auto simp: is_tax_item_def described_summary_item_def get_prop_def bind_res_simps)
next
  case False
  with assms obtain s where "js_prop item ''desc'' = JStr s"
    by (cases "js_prop item ''desc''") (auto simp: described_summary_item_def)
  with assms False show ?thesis
    by (simp add: is_tax_item_def described_summary_item_def get_prop_def bind_res_simps)
qed

lemma filter_tax_items_returns:
  assumes "list_all described_summary_item xs"
  shows "\<exists>kept. filter_tax_items xs = Inr kept"
  using assms
proof (induction xs)
  case Nil
  then show ?case by simp
next
  case (Cons item xs)
  then obtain kept where k: "filter_tax_items xs = Inr kept" by auto
  from Cons.prems is_tax_item_returns[of item] obtain b where b: "is_tax_item item = Inr b"
    by auto
  show ?case by (simp add: k b bind_res_simps)
qed

lemma parseTaxes_returns:
  assumes "array_of_or_falsy described_summary_item (js_prop result ''summaryItems'')"
  shows "\<exists>t. parseTaxes result = Inr t"
proof -
  obtain xs where xs: "js_or (js_prop result ''summaryItems'') (JArr []) = JArr xs"
    and ok: "list_all described_summary_item xs"
    using assms
    by (cases "js_prop result ''summaryItems''") (auto simp: array_of_or_falsy_def js_or_def)
  from filter_tax_items_returns[OF ok] obtain kept where
    k: "filter_tax_items xs = Inr kept" by blast
  let ?taxes = "js_or (js_prop result ''taxes'') (JArr [])"
  from tax_slot_returns[of ?taxes kept 0] obtain a where a: "tax_slot ?taxes kept 0 = Inr a"
    by blast
  from tax_slot_returns[of ?taxes kept "Suc 0"] obtain b where
    b: "tax_slot ?taxes kept (Suc 0) = Inr b"
    by blast
  show ?thesis
    by (simp add: parseTaxes_def xs k a b bind_res_simps Let_def)
qed

lemma is_string_JStr: "is_string v \<Longrightarrow> \<exists>s. v = JStr s"
  by (cases v) simp_all

lemma is_string_or_empty: "is_string (js_or a b) \<Longrightarrow> is_string (js_or a (js_or b (JStr [])))"
  by (cases "truthy a"; cases "truthy b") (simp_all add: js_or_def)

lemma type_code_returns:
  assumes "described_item item"
  shows "\<exists>c. generateItemTypeCode item = Inr c"
proof -
  from assms have n: "\<not> nullish item" by (simp add: described_item_def)
  from assms have
    "is_string (js_or (js_prop item ''descClean'') (js_or (js_prop item ''desc'') (JStr [])))"
    by (simp add: described_item_def is_string_or_empty)
  then obtain s where
    "js_or (js_prop item ''descClean'') (js_or (js_prop item ''desc'') (JStr [])) = JStr s"
    by (auto dest: is_string_JStr)
  from type_code_chain[OF n this] show ?thesis by blast
qed

lemma categorizeItem_returns: "is_string v \<Longrightarrow> \<exists>c. categorizeItem v = Inr c"
  by (cases v) (simp_all add: categorizeItem_def Let_def)

lemma js_div_returns:
  assumes "convertible a" "convertible b"
  shows "\<exists>v. js_div P a b = Inr v"
proof -
  from to_number_convertible[OF assms(1), of P] obtain x where x: "to_number P a = Inr x"
    by blast
  from to_number_convertible[OF assms(2), of P] obtain y where y: "to_number P b = Inr y"
    by blast
  show ?thesis by (simp add: js_div_def x y bind_res_simps)
qed

lemma unit_price_returns:
  assumes "described_item item"
  shows "\<exists>u. (if truthy (js_prop item ''price'') then Inr (js_prop item ''price'')
               else js_div P (js_prop item ''lineTotal'')
                      (js_or (js_prop item ''qty'') (JNum (Finite 1)))) = Inr u"
proof -
  from assms have l: "convertible (js_prop item ''lineTotal'')"
    and q: "convertible (js_or (js_prop item ''qty'') (JNum (Finite 1)))"
    by (simp_all add: described_item_def js_or_def)
  from js_div_returns[OF l q, of P] show ?thesis by auto
qed

lemma map_item_returns:
  assumes "described_item item"
  shows "\<exists>m. map_item P item = Inr m"
proof -
  from assms have n: "\<not> nullish item" by (simp add: described_item_def)
  from type_code_returns[OF assms] obtain c where c: "generateItemTypeCode item = Inr c"
    by blast
  from assms have "is_string (js_or (js_prop item ''descClean'') (js_prop item ''desc''))"
    by (simp add: described_item_def)
  from categorizeItem_returns[OF this] obtain g where
    g: "categorizeItem (js_or (js_prop item ''descClean'') (js_prop item ''desc'')) = Inr g"
    by blast
  from unit_price_returns[OF assms, of P] obtain u where
    u: "(if truthy (js_prop item ''price'') then Inr (js_prop item ''price'')
         else js_div P (js_prop item ''lineTotal'')
                (js_or (js_prop item ''qty'') (JNum (Finite 1)))) = Inr u"
    by blast
  show ?thesis
    unfolding map_item_def u
    using n by (simp add: get_prop_def c g bind_res_simps)
qed

lemma map_items_returns:
  assumes "list_all described_item xs"
  shows "\<exists>ms. map_items P xs = Inr ms"
  using assms
proof (induction xs)
  case Nil
  then show ?case by simp
next
  case (Cons item xs)
  then obtain ms where ms: "map_items P xs = Inr ms" by auto
  from Cons.prems map_item_returns[of item P] obtain m where m: "map_item P item = Inr m"
    by auto
  show ?case by (simp add: ms m bind_res_simps)
qed

lemma mapItems_returns:
  assumes "array_of_or_falsy described_item (js_prop result ''lineItems'')"
  shows "\<exists>ms. mapItems P result = Inr ms"
proof -
  obtain xs where xs: "js_or (js_prop result ''lineItems'') (JArr []) = JArr xs"
    and ok: "list_all described_item xs"
    using assms
    by (cases "js_prop result ''lineItems''") (auto simp: array_of_or_falsy_def js_or_def)
  from map_items_returns[OF ok, of P] obtain ms where "map_items P xs = Inr ms" by blast
  then show ?thesis by (simp add: mapItems_def xs bind_res_simps)
qed

lemma brand_name_returns:
  assumes "string_or_falsy e"
  shows "\<exists>b. brand_name_of e = Inr b"
proof -
  from string_or_empty[OF assms] obtain s where "js_or e (JStr []) = JStr s" by blast
  then show ?thesis by (simp add: brand_name_of_def)
qed

lemma formatDate_returns:
  assumes "string_or_falsy v"
  shows "\<exists>x. formatDate P v = Inr x"
  using assms
  by (cases v) (auto simp: formatDate_def string_or_falsy_def split: option.splits)

lemma formatTime_returns:
  assumes "string_or_falsy v"
  shows "\<exists>x. formatTime P v = Inr x"
  using assms
  by (cases v) (auto simp: formatTime_def string_or_falsy_def)

lemma overall_confidence_returns:
  assumes "list_all convertible (confidence_scores result)"
  shows "\<exists>c. calculateOverallConfidence P result = Inr c"
proof -
  let ?kept = "filter (\<lambda>score. \<not> nullish score) (confidence_scores result)"
  from assms have "list_all convertible ?kept" by (simp add: list_all_iff)
  from mean_of_returns[OF this, of P] show ?thesis
    by (auto simp: calculateOverallConfidence_def Let_def)
qed

lemma mapToCustomStructure_returns:
  assumes "\<not> nullish t" "\<not> nullish (js_prop t ''rawData'')"
    and "mappable_result (js_prop (js_prop t ''rawData'') ''result'')"
  shows "\<exists>m. mapToCustomStructure P t = Inr m"
proof -
  let ?r = "js_prop (js_prop t ''rawData'') ''result''"
  from assms(3) have tr: "truthy ?r" by (simp add: mappable_result_def)
  from assms(3) parseAddress_returns[of ?r] obtain a where a: "parseAddress ?r = Inr a"
    by (auto simp: mappable_result_def)
  from assms(3) parseTaxes_returns[of ?r] obtain x where x: "parseTaxes ?r = Inr x"
    by (auto simp: mappable_result_def)
  from assms(3) mapItems_returns[of ?r P] obtain i where i: "mapItems P ?r = Inr i"
    by (auto simp: mappable_result_def)
  from assms(3) brand_name_returns[of "js_prop ?r ''establishment''"] obtain b where
    b: "brand_name_of (js_prop ?r ''establishment'') = Inr b"
    by (auto simp: mappable_result_def)
  from assms(3) formatDate_returns[of "js_or (js_prop ?r ''dateISO'') (js_prop ?r ''date'')" P]
  obtain f where
    f: "formatDate P (js_or (js_prop ?r ''dateISO'') (js_prop ?r ''date'')) = Inr f"
    by (auto simp: mappable_result_def)
  from assms(3) formatTime_returns[of "js_or (js_prop ?r ''dateISO'') (js_prop ?r ''date'')" P]
  obtain g where
    g: "formatTime P (js_or (js_prop ?r ''dateISO'') (js_prop ?r ''date'')) = Inr g"
    by (auto simp: mappable_result_def)
  from assms(3) overall_confidence_returns[of ?r P] obtain c where
    c: "calculateOverallConfidence P ?r = Inr c"
    by (auto simp: mappable_result_def)
  show ?thesis
    using assms(1,2) tr
    by (simp add: mapToCustomStructure_def get_prop_def a x i b f g c bind_res_simps Let_def)
qed

lemmas mapper_eval = mapToCustomStructure_def parseAddress_def extractStreetNumber_def
  extractStreetName_def extractZipCode_def leading_number_removed_def store_info_removed_def
  trim_def parseTaxes_def tax_slot_def mapItems_def map_item_def generateItemTypeCode_def
  categorizeItem_def brand_name_of_def normalizeBrandName_def brandNormalization_def
  formatDate_def formatTime_def calculateOverallConfidence_def confidence_scores_def
  mapper_default_confidence_def js_div_def to_number_def is_tax_item_def
  js_or_def get_prop_def bind_res_simps toLowerCase_def lower_char_def is_space_def
  is_quote_def ustr_simps Let_def

text \<open>
  Claim C9, as amended. On every payload the parser returns an object and never
  raises: when a field of a present result makes its body raise, it returns the
  failure object with \<^verbatim>\<open>success = false\<close> and no receipt. The mapper has no guard
  against mistyped fields. Given the parser's result for a payload, it returns a
  record and does not raise when the payload's result is present, its establishment,
  address and date are strings or missing, its confidences are convertible, its line
  items are missing or an array of items that each have a string description and a
  convertible line total and quantity, and its summary items are missing or an array
  of items that each have the line type \<^verbatim>\<open>Tax\<close> or a string description. For the empty
  result object the record has the empty brand name, \<^verbatim>\<open>null\<close> for the address parts
  and for date and time, 0 for the two taxes and the total, no items and the
  confidence 0.85.
\<close>

theorem parser_and_mapper_do_not_raise:
  "(\<not> nullish d \<and> truthy (js_prop d ''result'') \<and> parse_raises (js_prop d ''result'') \<longrightarrow>
      parseTabScannerResponse P d = parse_failure d)
   \<and> (\<not> nullish d \<and> mappable_result (js_prop d ''result'') \<longrightarrow>
      (\<exists>m. mapToCustomStructure P (parseTabScannerResponse P d) = Inr m))
   \<and> (\<exists>m. mapToCustomStructure P (parseTabScannerResponse P (JObj [(''result'', JObj [])])) =
          Inr m
        \<and> map (js_prop m)
            [''brand_name'', ''street_number'', ''street_name'', ''city'', ''state'',
             ''zipcode'', ''date_field'', ''time_field'', ''tax_field_1'', ''tax_field_2'',
             ''total_price_field'', ''items'', ''confidence_score''] =
          [JStr [], JNull, JNull, JNull, JNull, JNull, JNull, JNull, JNum (Finite 0),
           JNum (Finite 0), JNum (Finite 0), JArr [], JNum (to_double (85 / 100))])"
proof -
  have a: "\<not> nullish d \<and> truthy (js_prop d ''result'') \<and> parse_raises (js_prop d ''result'')
      \<longrightarrow> parseTabScannerResponse P d = parse_failure d"
    using parse_raising[of d P] by blast
  have b: "\<not> nullish d \<and> mappable_result (js_prop d ''result'') \<longrightarrow>
      (\<exists>m. mapToCustomStructure P (parseTabScannerResponse P d) = Inr m)"
  proof
    assume h: "\<not> nullish d \<and> mappable_result (js_prop d ''result'')"
    let ?t = "parseTabScannerResponse P d"
    from parse_keeps_payload[of P d] have k: "\<not> nullish ?t" "js_prop ?t ''rawData'' = d"
      by auto
    from h k have "\<not> nullish (js_prop ?t ''rawData'')"
      and "mappable_result (js_prop (js_prop ?t ''rawData'') ''result'')" by auto
    with k(1) show "\<exists>m. mapToCustomStructure P ?t = Inr m"
      by (rule mapToCustomStructure_returns)
  qed
  let ?e = "JObj [(''result'', JObj [])]"
  from parse_keeps_payload[of P ?e]
  have k: "\<not> nullish (parseTabScannerResponse P ?e)"
    "js_prop (parseTabScannerResponse P ?e) ''rawData'' = ?e" by auto
  have "mapToCustomStructure P (parseTabScannerResponse P ?e) =
       Inr (JObj [
         (''brand_name'', JStr []),
         (''street_number'', JNull), (''street_name'', JNull), (''city'', JNull),
         (''state'', JNull), (''zipcode'', JNull),
         (''date_field'', JNull), (''time_field'', JNull),
         (''tax_field_1'', JNum (Finite 0)), (''tax_field_2'', JNum (Finite 0)),
         (''total_price_field'', JNum (Finite 0)),
         (''items'', JArr []),
         (''original_merchant'', JUndefined), (''phone'', JUndefined),
         (''raw_address'', JUndefined),
         (''confidence_score'', JNum (to_double (85 / 100)))])"
    unfolding mapToCustomStructure_def get_prop_def using k
    by (simp add: mapper_eval)
  then have c: "\<exists>m. mapToCustomStructure P (parseTabScannerResponse P ?e) = Inr m
        \<and> map (js_prop m)
            [''brand_name'', ''street_number'', ''street_name'', ''city'', ''state'',
             ''zipcode'', ''date_field'', ''time_field'', ''tax_field_1'', ''tax_field_2'',
             ''total_price_field'', ''items'', ''confidence_score''] =
          [JStr [], JNull, JNull, JNull, JNull, JNull, JNull, JNull, JNum (Finite 0),
           JNum (Finite 0), JNum (Finite 0), JArr [], JNum (to_double (85 / 100))]"
    by simp
  from a b c show ?thesis by blast
qed

theorem parser_and_mapper_do_not_raise_witness:
  "\<forall>P. \<not> nullish trader_joes_payload
     \<and> mappable_result (js_prop trader_joes_payload ''result'')
     \<and> (\<exists>m. mapToCustomStructure P (parseTabScannerResponse P trader_joes_payload) = Inr m)
     \<and> parse_raises (js_prop (JObj [(''result'', JObj [(''lineItems'', JArr [JNull])])]) ''result'')
     \<and> parseTabScannerResponse P (JObj [(''result'', JObj [(''lineItems'', JArr [JNull])])]) =
         parse_failure (JObj [(''result'', JObj [(''lineItems'', JArr [JNull])])])"
proof
  fix P
  have m: "mappable_result (js_prop trader_joes_payload ''result'')"
    by (simp add: trader_joes_payload_def mappable_result_def string_or_falsy_def
          array_of_or_falsy_def described_item_def confidence_scores_def js_or_def ustr_simps)
  have n: "\<not> nullish trader_joes_payload"
    by (simp add: trader_joes_payload_def)
  have r: "parse_raises (js_prop (JObj [(''result'', JObj [(''lineItems'', JArr [JNull])])]) ''result'')"
    by (simp add: parse_raises_def)
  from m n r
    parser_and_mapper_do_not_raise[of trader_joes_payload P]
    parser_and_mapper_do_not_raise[of "JObj [(''result'', JObj [(''lineItems'', JArr [JNull])])]" P]
  show "\<not> nullish trader_joes_payload
     \<and> mappable_result (js_prop trader_joes_payload ''result'')
     \<and> (\<exists>m. mapToCustomStructure P (parseTabScannerResponse P trader_joes_payload) = Inr m)
     \<and> parse_raises (js_prop (JObj [(''result'', JObj [(''lineItems'', JArr [JNull])])]) ''result'')
     \<and> parseTabScannerResponse P (JObj [(''result'', JObj [(''lineItems'', JArr [JNull])])]) =
         parse_failure (JObj [(''result'', JObj [(''lineItems'', JArr [JNull])])])"
    by simp
qed

text \<open>
  The claim as stated fails on a mistyped field of a present result. The mapper has
  no guard against types: a number for the establishment makes
  \<^verbatim>\<open>normalizeBrandName\<close> raise a \<^verbatim>\<open>TypeError\<close>, and so does a line total that cannot be
  converted to a number. The parser answers a number for \<^verbatim>\<open>dateISO\<close> with the failure
  object, which has no receipt, instead of a receipt with a \<^verbatim>\<open>null\<close> date.
\<close>

theorem mapper_raises_on_mistyped_field:
  "\<forall>P. truthy (js_prop (JObj [(''result'', JObj [(''establishment'', JNum (Finite 42))])])
          ''result'')
     \<and> mapToCustomStructure P
          (parseTabScannerResponse P
             (JObj [(''result'', JObj [(''establishment'', JNum (Finite 42))])])) =
        Inl TypeError
     \<and> mapToCustomStructure P
          (JObj [(''rawData'', JObj [(''result'', JObj [(''lineItems'',
             JArr [JObj [(''desc'', JStr (ustr ''Milk'')),
                         (''lineTotal'', JObj [(''toString'', JNum (Finite 1))])]])])])]) =
        Inl TypeError
     \<and> js_prop (parseTabScannerResponse P
          (JObj [(''result'', JObj [(''dateISO'', JNum (Finite 20250821))])])) ''receipt''
        = JUndefined"
proof
  fix P
  let ?d = "JObj [(''result'', JObj [(''establishment'', JNum (Finite 42))])]"
  from parse_keeps_payload[of P ?d]
  have k: "\<not> nullish (parseTabScannerResponse P ?d)"
    "js_prop (parseTabScannerResponse P ?d) ''rawData'' = ?d" by auto
  have a: "mapToCustomStructure P (parseTabScannerResponse P ?d) = Inl TypeError"
    unfolding mapToCustomStructure_def get_prop_def using k
    by (simp add: mapper_eval)
  have b: "js_prop (parseTabScannerResponse P
          (JObj [(''result'', JObj [(''dateISO'', JNum (Finite 20250821))])])) ''receipt''
        = JUndefined"
    by (simp add: parse_eval)
  have c: "mapToCustomStructure P
          (JObj [(''rawData'', JObj [(''result'', JObj [(''lineItems'',
             JArr [JObj [(''desc'', JStr (ustr ''Milk'')),
                         (''lineTotal'', JObj [(''toString'', JNum (Finite 1))])]])])])]) =
        Inl TypeError"
    by (simp add: mapper_eval)
  from a b c show "truthy (js_prop ?d ''result'')
     \<and> mapToCustomStructure P (parseTabScannerResponse P ?d) = Inl TypeError
     \<and> mapToCustomStructure P
          (JObj [(''rawData'', JObj [(''result'', JObj [(''lineItems'',
             JArr [JObj [(''desc'', JStr (ustr ''Milk'')),
                         (''lineTotal'', JObj [(''toString'', JNum (Finite 1))])]])])])]) =
        Inl TypeError
     \<and> js_prop (parseTabScannerResponse P
          (JObj [(''result'', JObj [(''dateISO'', JNum (Finite 20250821))])])) ''receipt''
        = JUndefined"
    by simp
qed

text \<open>
  Claim C5 fails on the code. A line item that has neither a price nor a line total
  gets the unit price \<^verbatim>\<open>undefined / 1\<close>, which is \<^verbatim>\<open>NaN\<close>, next to the item price 0 that
  the fallback \<^verbatim>\<open>|| 0\<close> gives the same missing line total; and a tax-tagged summary line
  without a line total leaves \<^verbatim>\<open>undefined\<close> in the first tax field.
\<close>

theorem mapper_money_fields_nan_and_undefined:
  "\<forall>P. mapToCustomStructure P
          (JObj [(''rawData'', JObj [(''result'',
             JObj [(''lineItems'', JArr [JObj [(''desc'', JStr (ustr ''Milk''))]])])])]) =
        Inr (JObj [
          (''brand_name'', JStr []),
          (''street_number'', JNull), (''street_name'', JNull), (''city'', JNull),
          (''state'', JNull), (''zipcode'', JNull),
          (''date_field'', JNull), (''time_field'', JNull),
          (''tax_field_1'', JNum (Finite 0)), (''tax_field_2'', JNum (Finite 0)),
          (''total_price_field'', JNum (Finite 0)),
          (''items'', JArr [JObj [
             (''item_name'', JStr (ustr ''Milk'')),
             (''item_type_code'', JStr (ustr ''DAIRY'')),
             (''item_price'', JNum (Finite 0)),
             (''quantity'', JNum (Finite 1)),
             (''unit_price'', JNum NaN),
             (''unit'', JStr (ustr ''each'')),
             (''category'', JStr (ustr ''dairy'')),
             (''confidence'', JNum (Finite 1))]]),
          (''original_merchant'', JUndefined), (''phone'', JUndefined),
          (''raw_address'', JUndefined),
          (''confidence_score'', JNum (to_double (85 / 100)))])
     \<and> (\<exists>m. mapToCustomStructure P
          (JObj [(''rawData'', JObj [(''result'',
             JObj [(''summaryItems'',
                JArr [JObj [(''lineType'', JStr (ustr ''Tax'')),
                            (''desc'', JStr (ustr ''Sales Tax''))]])])])]) = Inr m
          \<and> js_prop m ''tax_field_1'' = JUndefined)"
  by (simp add: mapper_eval)

section \<open>The examples of the specification\<close>

text \<open>
  The address heuristics on the example address: the zip code is 04101, the street
  number is the parenthesised store number 519, and no street name is left once the
  store information is removed from the part before the first comma.
\<close>

theorem address_example:
  "extractZipCode (JStr portland_address) = Inr (JStr (ustr ''04101''))
   \<and> extractStreetNumber (JStr portland_address) = Inr (JStr (ustr ''519''))
   \<and> extractStreetName (JStr portland_address) = Inr JNull"
  by (simp add: portland_address_def extractZipCode_def extractStreetNumber_def
        extractStreetName_def zip_here_def at_boundary_def is_word_def is_digit_def
        leading_number_removed_def store_info_removed_def store_info_here_def
        trim_def is_space_def js_or_def ustr_simps Let_def)

text \<open>
  The end-to-end example: the mapper gives the two items the type codes PANTRY and
  DAIRY and the categories pantry and dairy, and the brand name \<^verbatim>\<open>Trader Joes\<close>; the
  unit price of an item without a price and a quantity is its line total.
\<close>

theorem end_to_end_example:
  "\<forall>P. mapToCustomStructure P (JObj [(''rawData'', trader_joes_payload)]) =
        Inr (JObj [
          (''brand_name'', JStr (ustr ''Trader Joes'')),
          (''street_number'', JNull), (''street_name'', JNull), (''city'', JNull),
          (''state'', JNull), (''zipcode'', JNull),
          (''date_field'', JNull), (''time_field'', JNull),
          (''tax_field_1'', JNum (Finite 0)), (''tax_field_2'', JNum (Finite 0)),
          (''total_price_field'', JNum (to_double (9649 / 100))),
          (''items'', JArr [
             JObj [(''item_name'', JStr (ustr ''OL VE OIL'')),
                   (''item_type_code'', JStr (ustr ''PANTRY'')),
                   (''item_price'', JNum (to_double (999 / 100))),
                   (''quantity'', JNum (Finite 1)),
                   (''unit_price'', JNum (to_double (999 / 100))),
                   (''unit'', JStr (ustr ''each'')),
                   (''category'', JStr (ustr ''pantry'')),
                   (''confidence'', JNum (Finite 1))],
             JObj [(''item_name'', JStr (ustr ''COCONUT MILK'')),
                   (''item_type_code'', JStr (ustr ''DAIRY'')),
                   (''item_price'', JNum (to_double (189 / 100))),
                   (''quantity'', JNum (Finite 1)),
                   (''unit_price'', JNum (to_double (189 / 100))),
                   (''unit'', JStr (ustr ''each'')),
                   (''category'', JStr (ustr ''dairy'')),
                   (''confidence'', JNum (Finite 1))]]),
          (''original_merchant'', JStr (ustr ''Trader Joe'' @ [0x27] @ ustr ''s'')),
          (''phone'', JUndefined),
          (''raw_address'', JUndefined),
          (''confidence_score'', JNum (to_double (85 / 100)))])"
proof -
  have d: "to_double (9649 / 100) = Finite (6789880125702799 / 70368744177664)"
    "to_double (999 / 100) = Finite (5623870034678907 / 562949953421312)"
    "to_double (189 / 100) = Finite (8511803295730237 / 4503599627370496)"
    "to_double (85 / 100) = Finite (7656119366529843 / 9007199254740992)"
    "to_double (5623870034678907 / 562949953421312) =
       Finite (5623870034678907 / 562949953421312)"
    "to_double (8511803295730237 / 4503599627370496) =
       Finite (8511803295730237 / 4503599627370496)"
    by (simp_all add: double_eval)
  show ?thesis
    unfolding trader_joes_payload_def d
    by (simp add: mapper_eval double_eval)
qed

text \<open>
  The aggregate confidence is a mean of doubles: the confidences 0.12, 0.95 and 0.43,
  whose mean in exact arithmetic is 0.5, give 0.49999999999999994, which is below the
  threshold of the validator.
\<close>

theorem confidence_mean_example:
  "\<forall>P. parse_confidence P
          (JObj [(''establishmentConfidence'', JNum (to_double (12 / 100))),
                 (''totalConfidence'', JNum (to_double (95 / 100))),
                 (''dateConfidence'', JNum (to_double (43 / 100)))]) =
        Inr (JNum (Finite (9007199254740991 / 18014398509481984)))
     \<and> js_less_num P (JNum (Finite (9007199254740991 / 18014398509481984))) (1 / 2) = Inr True"
proof -
  have d: "to_double (12 / 100) = Finite (1080863910568919 / 9007199254740992)"
    "to_double (95 / 100) = Finite (4278419646001971 / 4503599627370496)"
    "to_double (43 / 100) = Finite (7746191359077253 / 18014398509481984)"
    by (simp_all add: double_eval)
  have s1: "num_add (Finite 0) (Finite (1080863910568919 / 9007199254740992)) =
      Finite (1080863910568919 / 9007199254740992)"
    by (simp add: double_eval)
  have s2: "num_add (Finite (1080863910568919 / 9007199254740992))
      (Finite (4278419646001971 / 4503599627370496)) =
      Finite (2409425800643215 / 2251799813685248)"
    by (simp add: double_eval)
  have s3: "num_add (Finite (2409425800643215 / 2251799813685248))
      (Finite (7746191359077253 / 18014398509481984)) =
      Finite (6755399441055743 / 4503599627370496)"
    by (simp add: double_eval)
  have s4: "num_div (Finite (6755399441055743 / 4503599627370496)) (Finite 3) =
      Finite (9007199254740991 / 18014398509481984)"
    by (simp add: double_eval)
  show ?thesis
    unfolding d
    by (simp add: parse_confidence_def confidence_scores_def mean_of_def js_add_def
          js_div_def to_number_def bind_res_simps Let_def s1 s2 s3 s4
          del: num_add.simps num_div.simps)
qed

end
